(* ===== verification/Prelude.thy ===== *)
theory Prelude
  imports Complex_Main "HOL-Library.Word"
begin

text \<open>
  Shared vocabulary of the development: the machine types of the ODBC headers
  (\<open>SQLSMALLINT\<close>, \<open>SQLRETURN\<close>, \<open>SQLLEN\<close>, \<open>SQLULEN\<close>, \<open>SQLINTEGER\<close>) as words of
  their width, the \<open>SQL_SUCCEEDED\<close> macro, the C++ \<open>std::vector::resize\<close> and the
  conversion of a C++ \<open>bool\<close> into a \<open>SQLRETURN\<close>, and the lemma collections the
  component theories fill and use.
\<close>

unbundle bit_operations_syntax

named_theorems stmt_frame
  "frame facts: fields of the statement that an operation leaves unchanged"
named_theorems odbc_rc
  "evaluation facts about ODBC return codes"

section \<open>Machine types of the ODBC headers\<close>

type_synonym sqlsmallint = "16 word"
type_synonym sqlreturn = "16 word"
type_synonym sqllen = "64 word"
type_synonym sqlulen = "64 word"
type_synonym sqlinteger = "32 word"
type_synonym wchar = "16 word"
type_synonym byte = "8 word"

text \<open>Return codes of \<open>sql.h\<close>/\<open>sqlext.h\<close> (macros, hence abbreviations).\<close>

abbreviation SQL_SUCCESS :: sqlreturn where "SQL_SUCCESS \<equiv> 0"
abbreviation SQL_SUCCESS_WITH_INFO :: sqlreturn where "SQL_SUCCESS_WITH_INFO \<equiv> 1"
abbreviation SQL_STILL_EXECUTING :: sqlreturn where "SQL_STILL_EXECUTING \<equiv> 2"
abbreviation SQL_NEED_DATA :: sqlreturn where "SQL_NEED_DATA \<equiv> 99"
abbreviation SQL_NO_DATA :: sqlreturn where "SQL_NO_DATA \<equiv> 100"
abbreviation SQL_ERROR :: sqlreturn where "SQL_ERROR \<equiv> -1"
abbreviation SQL_INVALID_HANDLE :: sqlreturn where "SQL_INVALID_HANDLE \<equiv> -2"

text \<open>Indicator sentinels written by the driver into a \<open>SQLLEN\<close>.\<close>

abbreviation SQL_NULL_DATA :: sqllen where "SQL_NULL_DATA \<equiv> -1"
abbreviation SQL_NO_TOTAL :: sqllen where "SQL_NO_TOTAL \<equiv> -4"

text \<open>\<open>#define SQL_SUCCEEDED(rc) (((rc)&(~1))==0)\<close>.\<close>

definition SQL_SUCCEEDED :: "sqlreturn \<Rightarrow> bool" where
  "SQL_SUCCEEDED rc \<longleftrightarrow> (rc AND NOT 1) = 0"

lemma SQL_SUCCEEDED_iff [simp, odbc_rc]:
  "SQL_SUCCEEDED rc \<longleftrightarrow> rc = SQL_SUCCESS \<or> rc = SQL_SUCCESS_WITH_INFO"
proof
  assume h: "SQL_SUCCEEDED rc"
  have "rc = (rc AND 1) OR (rc AND NOT 1)"
    by (simp add: bit.conj_disj_distrib [symmetric])
  also have "\<dots> = rc AND 1"
    using h by (simp add: SQL_SUCCEEDED_def)
  finally have "rc = rc AND 1" .
  moreover have "rc AND 1 = 0 \<or> rc AND 1 = 1"
    by (simp add: and_one_eq mod_2_eq_odd)
  ultimately show "rc = 0 \<or> rc = 1" by metis
next
  assume "rc = 0 \<or> rc = 1"
  then show "SQL_SUCCEEDED rc" by (auto simp: SQL_SUCCEEDED_def)
qed

text \<open>
  Several functions of the source declared to return \<open>SQLRETURN\<close> return a C++
  \<open>bool\<close>, and the caller passes a \<open>bool\<close> to a function expecting \<open>SQLRETURN\<close>:
  \<open>true\<close> becomes 1 (\<open>SQL_SUCCESS_WITH_INFO\<close>), \<open>false\<close> becomes 0 (\<open>SQL_SUCCESS\<close>).
\<close>

definition sqlreturn_of_bool :: "bool \<Rightarrow> sqlreturn" where
  "sqlreturn_of_bool b = (if b then 1 else 0)"

lemma sqlreturn_of_bool_succeeded [simp, odbc_rc]:
  "sqlreturn_of_bool b = SQL_SUCCESS \<or> sqlreturn_of_bool b = SQL_SUCCESS_WITH_INFO"
  by (simp add: sqlreturn_of_bool_def)

lemma SQL_SUCCEEDED_of_bool: "SQL_SUCCEEDED (sqlreturn_of_bool b)"
  by simp

section \<open>Vectors\<close>

text \<open>\<open>std::vector::resize n\<close>: truncate, or extend with value-initialised (zero) elements.\<close>

definition resize :: "nat \<Rightarrow> 'a::zero list \<Rightarrow> 'a list" where
  "resize n xs = take n xs @ replicate (n - length xs) 0"

lemma length_resize [simp]: "length (resize n xs) = n"
  by (simp add: resize_def)

lemma resize_prefix [simp]: "n \<le> length xs \<Longrightarrow> resize n xs = take n xs"
  by (simp add: resize_def)

lemma resize_replicate_zero [simp]: "resize n (replicate m 0) = replicate n 0"
  by (simp add: resize_def min_def replicate_add [symmetric])

text \<open>A \<open>std::vector<T>(n)\<close> reserved by the storage helpers is value-initialised.\<close>

abbreviation zeros :: "nat \<Rightarrow> 'a::zero list" where
  "zeros n \<equiv> replicate n 0"

section \<open>Words\<close>

text \<open>
  A 32-bit value written into the low half of a zeroed 64-bit buffer and read back as
  a signed 64-bit value is the unsigned reading of the 32 bits.
\<close>

lemma sint_ucast_32_64 [simp]: "sint (ucast (x :: 32 word) :: 64 word) = uint x"
proof -
  have up: "uint (ucast x :: 64 word) = uint x"
    by (rule uint_up_ucast) (simp add: is_up)
  have lo: "- (2 ^ 63) \<le> uint x"
    by (rule order.trans [OF _ uint_ge_0]) simp
  have hi: "uint x < 2 ^ 63"
    using uint_bounded [of x] by simp
  show ?thesis
    using up lo hi by (simp add: sint_uint signed_take_bit_int_eq_self_iff)
qed

lemma sint_neg_of_large:
  assumes "2 ^ 31 \<le> unat (t :: 32 word)" shows "sint t < 0"
proof -
  have "int (2 ^ 31) \<le> int (unat t)" using assms by (simp only: of_nat_le_iff)
  then have u1: "2 ^ 31 \<le> uint t" by (simp only: uint_nat of_nat_power of_nat_numeral)
  have u2: "uint t < 2 ^ 32" using uint_lt2p [of t] by simp
  have "sint t = (uint t + 2 ^ 31) mod 2 ^ 32 - 2 ^ 31"
    using int_word_sint [of "uint t", where 'a = 32] by simp
  also have "(uint t + 2 ^ 31) mod 2 ^ 32 = (uint t - 2 ^ 31 + 2 ^ 32) mod (2 ^ 32 :: int)"
    by (simp add: add.commute)
  also have "\<dots> = uint t - 2 ^ 31"
    using u1 u2 by (simp only: mod_add_self2) (simp add: mod_pos_pos_trivial)
  finally show ?thesis using u2 by simp
qed


text \<open>A count below \<open>2^15\<close> read back from a \<open>SQLSMALLINT\<close> is unchanged.\<close>

lemma sint_of_nat_small: "n < 2 ^ 15 \<Longrightarrow> sint (of_nat n :: 16 word) = int n"
  by (simp add: sint_uint uint_nat unat_of_nat signed_take_bit_int_eq_self)

end
