(* ===== verification/Odbc.thy ===== *)
theory Odbc
  imports Prelude
begin

text \<open>
  The driver interface the engine is written against (ODBC, treated as external):
  the SQL type codes and C type codes it dispatches on, the calls it issues
  (\<open>odbc_call\<close>), what one call hands back (\<open>reply\<close>: the return code and the
  out-parameters and buffer contents the driver writes), and the driver itself as a
  deterministic function of the history of calls on the statement handle.
  Every statement-level operation of the model talks to the driver only through
  this interface, so its theorems hold for every driver unless a lemma names a
  property of the driver as a hypothesis.
\<close>

section \<open>SQL data type codes (\<open>sql.h\<close>, \<open>sqlext.h\<close>, \<open>sqlncli.h\<close>)\<close>

abbreviation SQL_CHAR :: sqlsmallint where "SQL_CHAR \<equiv> 1"
abbreviation SQL_NUMERIC :: sqlsmallint where "SQL_NUMERIC \<equiv> 2"
abbreviation SQL_DECIMAL :: sqlsmallint where "SQL_DECIMAL \<equiv> 3"
abbreviation SQL_INTEGER :: sqlsmallint where "SQL_INTEGER \<equiv> 4"
abbreviation SQL_SMALLINT :: sqlsmallint where "SQL_SMALLINT \<equiv> 5"
abbreviation SQL_FLOAT :: sqlsmallint where "SQL_FLOAT \<equiv> 6"
abbreviation SQL_REAL :: sqlsmallint where "SQL_REAL \<equiv> 7"
abbreviation SQL_DOUBLE :: sqlsmallint where "SQL_DOUBLE \<equiv> 8"
abbreviation SQL_DATETIME :: sqlsmallint where "SQL_DATETIME \<equiv> 9"
abbreviation SQL_TIMESTAMP :: sqlsmallint where "SQL_TIMESTAMP \<equiv> 11"
abbreviation SQL_VARCHAR :: sqlsmallint where "SQL_VARCHAR \<equiv> 12"
abbreviation SQL_TYPE_DATE :: sqlsmallint where "SQL_TYPE_DATE \<equiv> 91"
abbreviation SQL_TYPE_TIME :: sqlsmallint where "SQL_TYPE_TIME \<equiv> 92"
abbreviation SQL_TYPE_TIMESTAMP :: sqlsmallint where "SQL_TYPE_TIMESTAMP \<equiv> 93"
abbreviation SQL_LONGVARCHAR :: sqlsmallint where "SQL_LONGVARCHAR \<equiv> -1"
abbreviation SQL_BINARY :: sqlsmallint where "SQL_BINARY \<equiv> -2"
abbreviation SQL_VARBINARY :: sqlsmallint where "SQL_VARBINARY \<equiv> -3"
abbreviation SQL_LONGVARBINARY :: sqlsmallint where "SQL_LONGVARBINARY \<equiv> -4"
abbreviation SQL_BIGINT :: sqlsmallint where "SQL_BIGINT \<equiv> -5"
abbreviation SQL_TINYINT :: sqlsmallint where "SQL_TINYINT \<equiv> -6"
abbreviation SQL_BIT :: sqlsmallint where "SQL_BIT \<equiv> -7"
abbreviation SQL_WCHAR :: sqlsmallint where "SQL_WCHAR \<equiv> -8"
abbreviation SQL_WVARCHAR :: sqlsmallint where "SQL_WVARCHAR \<equiv> -9"
abbreviation SQL_WLONGVARCHAR :: sqlsmallint where "SQL_WLONGVARCHAR \<equiv> -10"
abbreviation SQL_GUID :: sqlsmallint where "SQL_GUID \<equiv> -11"
abbreviation SQL_SS_VARIANT :: sqlsmallint where "SQL_SS_VARIANT \<equiv> -150"
abbreviation SQL_SS_UDT :: sqlsmallint where "SQL_SS_UDT \<equiv> -151"
abbreviation SQL_SS_XML :: sqlsmallint where "SQL_SS_XML \<equiv> -152"
abbreviation SQL_SS_TIME2 :: sqlsmallint where "SQL_SS_TIME2 \<equiv> -154"
abbreviation SQL_SS_TIMESTAMPOFFSET :: sqlsmallint where "SQL_SS_TIMESTAMPOFFSET \<equiv> -155"

text \<open>C type codes (\<open>sqlext.h\<close>; \<open>SQL_C_SLONG = SQL_C_LONG + SQL_SIGNED_OFFSET\<close>,
  and so on). Some of them also appear as labels of the type dispatch.\<close>

abbreviation SQL_C_SSHORT :: sqlsmallint where "SQL_C_SSHORT \<equiv> -15"
abbreviation SQL_C_SLONG :: sqlsmallint where "SQL_C_SLONG \<equiv> -16"
abbreviation SQL_C_USHORT :: sqlsmallint where "SQL_C_USHORT \<equiv> -17"
abbreviation SQL_C_ULONG :: sqlsmallint where "SQL_C_ULONG \<equiv> -18"
abbreviation SQL_C_STINYINT :: sqlsmallint where "SQL_C_STINYINT \<equiv> -26"
abbreviation SQL_C_UTINYINT :: sqlsmallint where "SQL_C_UTINYINT \<equiv> -28"
abbreviation SQL_C_DEFAULT :: sqlsmallint where "SQL_C_DEFAULT \<equiv> 99"
abbreviation SQL_C_TIMESTAMP :: sqlsmallint where "SQL_C_TIMESTAMP \<equiv> 11"
abbreviation SQL_C_BIT :: sqlsmallint where "SQL_C_BIT \<equiv> -7"
abbreviation SQL_C_DOUBLE :: sqlsmallint where "SQL_C_DOUBLE \<equiv> 8"
abbreviation SQL_C_BINARY :: sqlsmallint where "SQL_C_BINARY \<equiv> -2"
abbreviation SQL_C_WCHAR :: sqlsmallint where "SQL_C_WCHAR \<equiv> -8"

text \<open>Parameter directions of \<open>SQLBindParameter\<close>.\<close>

abbreviation SQL_PARAM_INPUT :: sqlsmallint where "SQL_PARAM_INPUT \<equiv> 1"
abbreviation SQL_PARAM_INPUT_OUTPUT :: sqlsmallint where "SQL_PARAM_INPUT_OUTPUT \<equiv> 2"
abbreviation SQL_PARAM_OUTPUT :: sqlsmallint where "SQL_PARAM_OUTPUT \<equiv> 4"

section \<open>Values the driver writes into buffers\<close>

text \<open>\<open>TIMESTAMP_STRUCT\<close> and \<open>SQL_SS_TIMESTAMPOFFSET_STRUCT\<close> share one record;
  a plain timestamp has a zero offset.\<close>

record timestamp_offset =
  ts_year :: int
  ts_month :: int
  ts_day :: int
  ts_hour :: int
  ts_minute :: int
  ts_second :: int
  ts_fraction :: int
  ts_tz_hour :: int
  ts_tz_minute :: int

text \<open>\<open>SQL_SS_TIME2_STRUCT\<close>.\<close>

record time2 =
  t2_hour :: int
  t2_minute :: int
  t2_second :: int
  t2_fraction :: int

text \<open>
  The contents one driver call writes into the caller's data buffer, by C type:
  \<open>SQL_C_SLONG\<close> writes a 32-bit integer, \<open>SQL_C_BIT\<close> one byte, \<open>SQL_C_DOUBLE\<close> a
  double (kept as an opaque real: the engine never computes on it),
  \<open>SQL_C_BINARY\<close> bytes, \<open>SQL_C_WCHAR\<close> UTF-16 code units (the terminating NUL
  included when the driver writes one).
\<close>

datatype wire =
    WNothing
  | WLong sqlinteger
  | WBit byte
  | WDouble real
  | WTimestamp timestamp_offset
  | WTime2 time2
  | WBytes "byte list"
  | WChars "wchar list"

section \<open>Calls and replies\<close>

datatype stmt_attr =
    SQL_ATTR_PARAMSET_SIZE | SQL_QUERY_TIMEOUT | SQL_ATTR_QUERY_TIMEOUT | SQL_ATTR_ASYNC_ENABLE

datatype col_field =
    SQL_DESC_TYPE_NAME | SQL_CA_SS_UDT_TYPE_NAME | SQL_DESC_DISPLAY_SIZE | SQL_CA_SS_VARIANT_TYPE

text \<open>
  One constructor per driver entry point the engine calls. Column numbers are the
  1-based numbers passed to the driver; buffer lengths are in bytes, as passed.
  \<open>ReadErrors\<close> stands for \<open>OdbcStatementHandle::ReadErrors\<close> (outside \<open>src/\<close>), which
  reads the diagnostic records of the handle.
\<close>

datatype odbc_call =
    SQLSetStmtAttr stmt_attr int
  | SQLBindParameter nat sqlsmallint sqlsmallint sqlsmallint sqlulen sqlsmallint nat
  | SQLSetDescFields nat
  | SQLPrepare "wchar list"
  | SQLExecute
  | SQLExecDirect "wchar list"
  | SQLNumResultCols
  | SQLDescribeCol nat nat
  | SQLColAttribute nat col_field
  | SQLRowCount
  | SQLBindCol nat sqlsmallint nat
  | SQLFetch
  | SQLGetData nat sqlsmallint nat
  | SQLGetDiagRec
  | SQLMoreResults
  | SQLCloseCursor
  | SQLCancelHandle
  | ReadErrors

text \<open>An \<open>OdbcError\<close>: SQL state, message, native error code.\<close>

record odbc_error =
  err_state :: string
  err_message :: string
  err_native :: int

text \<open>
  What a call returns: its return code and the out-parameters it writes. Each call
  reads the fields it has out-parameters for: \<open>r_len\<close> is the \<open>SQLLEN\<close> out-parameter
  (indicator or length, row count, numeric attribute), \<open>r_count\<close> the \<open>SQLSMALLINT\<close>
  one (column count, name length), \<open>r_text\<close> the character buffer, \<open>r_type\<close> to
  \<open>r_nullable\<close> the column description, \<open>r_data\<close> the data buffer, \<open>r_bound\<close> what a
  fetch writes into the bound column buffers (indicator and data, per bound column)
  and \<open>r_diag\<close> the diagnostic record.
\<close>

record reply =
  r_rc :: sqlreturn
  r_len :: sqllen
  r_count :: sqlsmallint
  r_text :: "wchar list"
  r_type :: sqlsmallint
  r_size :: sqlulen
  r_digits :: sqlsmallint
  r_nullable :: sqlsmallint
  r_data :: wire
  r_bound :: "(sqllen \<times> wire) list"
  r_diag :: odbc_error

definition no_error :: odbc_error where
  "no_error = \<lparr>err_state = '''', err_message = '''', err_native = 0\<rparr>"

definition reply_rc :: "sqlreturn \<Rightarrow> reply" where
  "reply_rc rc = \<lparr>r_rc = rc, r_len = 0, r_count = 0, r_text = [], r_type = 0, r_size = 0,
     r_digits = 0, r_nullable = 0, r_data = WNothing, r_bound = [], r_diag = no_error\<rparr>"

text \<open>
  A driver answers a call given the calls made before on the same handle, most
  recent first: any deterministic driver, including one whose answers depend on
  what was executed and fetched before.
\<close>

type_synonym driver = "odbc_call list \<Rightarrow> odbc_call \<Rightarrow> reply"

end
