(* ===== verification/Datum.thy ===== *)
theory Datum
  imports Odbc
begin

text \<open>
  The value side of the engine, declared in headers that are not under \<open>src/\<close>
  (\<open>Column.h\<close>, \<open>DatumStorage.h\<close>, \<open>BoundDatum.h\<close>) and modelled from the
  specification (TypedStorage, ParameterBinding, ColumnValue of its section 3):
  \<^item> \<open>datum_storage\<close>: the typed native buffer, one vector of one element type;
  \<^item> \<open>write_buffer\<close>: what a driver call does to such a buffer when it writes a
    value into it (the bytes it writes replace the front of the buffer, the rest of
    the buffer keeps its old contents);
  \<^item> \<open>column\<close>: the current column value handed to the boundary layer, and the
    constructors of \<open>Column.h\<close> that read it out of a storage;
  \<^item> \<open>bound_datum\<close>: a parameter or result-column binding, and
    \<open>reserve_column_type\<close>, which reserves one for a described result column.
\<close>

unbundle bit_operations_syntax

abbreviation SQL_C_SBIGINT :: sqlsmallint where "SQL_C_SBIGINT \<equiv> -25"

section \<open>Typed storage\<close>

datatype datum_storage =
    StorageNone
  | StorageInt64 "64 word list"
  | StorageDouble "real list"
  | StorageChars "byte list"
  | StorageUint16 "wchar list"
  | StorageTimestamp "timestamp_offset list"
  | StorageTimestampOffset "timestamp_offset list"

text \<open>
  A driver write of a value into a buffer. A 32-bit \<open>SQL_C_SLONG\<close> value written into
  an \<open>int64_t\<close> buffer replaces its low four bytes only (little-endian memory);
  bytes and characters replace a prefix of the buffer, never more than it holds.
  A write of a kind that does not fit the buffer leaves it unchanged.
\<close>

fun write_buffer :: "wire \<Rightarrow> datum_storage \<Rightarrow> datum_storage" where
  "write_buffer (WLong x) (StorageInt64 (y # ys)) =
     StorageInt64 (((y AND NOT (mask 32)) OR ucast x) # ys)"
| "write_buffer (WDouble d) (StorageDouble (_ # ds)) = StorageDouble (d # ds)"
| "write_buffer (WBit b) (StorageChars (_ # cs)) = StorageChars (b # cs)"
| "write_buffer (WBytes bs) (StorageChars cs) =
     StorageChars (take (length cs) bs @ drop (length bs) cs)"
| "write_buffer (WChars ws) (StorageUint16 cs) =
     StorageUint16 (take (length cs) ws @ drop (length ws) cs)"
| "write_buffer (WTimestamp t) (StorageTimestamp (_ # ts)) = StorageTimestamp (t # ts)"
| "write_buffer (WTimestamp t) (StorageTimestampOffset (_ # ts)) =
     StorageTimestampOffset (t # ts)"
| "write_buffer _ st = st"

section \<open>Column values\<close>

text \<open>The current column value; string and binary values carry the "more" flag of a
  chunked read.\<close>

datatype column =
    NullColumn
  | BoolColumn bool
  | IntColumn int
  | NumberColumn real
  | StringColumn "wchar list" bool
  | BinaryColumn "byte list" bool
  | TimestampColumn timestamp_offset

text \<open>
  The \<open>Column.h\<close> constructors that read a storage: the first element of the vector
  of their type; a string or binary column takes the given number of elements.
  Reading a storage of another type, an empty one, or more elements than the
  storage holds has no defined result (\<open>None\<close>).
\<close>

fun int_column :: "datum_storage \<Rightarrow> column option" where
  "int_column (StorageInt64 (x # _)) = Some (IntColumn (sint x))"
| "int_column _ = None"

fun bool_column :: "datum_storage \<Rightarrow> column option" where
  "bool_column (StorageChars (b # _)) = Some (BoolColumn (b \<noteq> 0))"
| "bool_column _ = None"

fun number_column :: "datum_storage \<Rightarrow> column option" where
  "number_column (StorageDouble (d # _)) = Some (NumberColumn d)"
| "number_column _ = None"

fun timestamp_column :: "datum_storage \<Rightarrow> column option" where
  "timestamp_column (StorageTimestamp (t # _)) = Some (TimestampColumn t)"
| "timestamp_column (StorageTimestampOffset (t # _)) = Some (TimestampColumn t)"
| "timestamp_column _ = None"

fun string_column :: "datum_storage \<Rightarrow> nat \<Rightarrow> bool \<Rightarrow> column option" where
  "string_column (StorageUint16 cs) n mr =
     (if n \<le> length cs then Some (StringColumn (take n cs) mr) else None)"
| "string_column _ _ _ = None"

fun binary_column :: "datum_storage \<Rightarrow> nat \<Rightarrow> bool \<Rightarrow> column option" where
  "binary_column (StorageChars cs) n mr =
     (if n \<le> length cs then Some (BinaryColumn (take n cs) mr) else None)"
| "binary_column _ _ _ = None"

section \<open>Bindings\<close>

text \<open>The fields of \<open>BoundDatum\<close> that the engine reads or writes.\<close>

record bound_datum =
  param_type :: sqlsmallint
  c_type :: sqlsmallint
  sql_type :: sqlsmallint
  param_size :: sqlulen
  digits :: sqlsmallint
  buffer_len :: nat
  ind_vec :: "sqllen list"
  is_tvp :: bool
  tvp_no_cols :: nat
  defined_precision :: bool
  storage :: datum_storage
  datum_err :: "odbc_error option"

definition empty_datum :: bound_datum where
  "empty_datum = \<lparr>param_type = SQL_PARAM_INPUT, c_type = 0, sql_type = 0, param_size = 0,
     digits = 0, buffer_len = 0, ind_vec = [], is_tvp = False, tvp_no_cols = 0,
     defined_precision = False, storage = StorageNone, datum_err = None\<rparr>"

text \<open>A parameter whose direction includes output.\<close>

definition is_output_param :: "bound_datum \<Rightarrow> bool" where
  "is_output_param b \<longleftrightarrow>
     param_type b = SQL_PARAM_OUTPUT \<or> param_type b = SQL_PARAM_INPUT_OUTPUT"

text \<open>
  \<open>BoundDatum::reserve_column_type\<close>: a binding for one result column of a prepared
  statement, with a one-row storage chosen by the column's SQL type and sized from
  its declared size, and a one-element indicator vector.
\<close>

definition reserve_column_type :: "sqlsmallint \<Rightarrow> sqlulen \<Rightarrow> bound_datum" where
  "reserve_column_type t sz =
     (let n = unat sz in
      if t \<in> {SQL_BIT} then
        empty_datum\<lparr>c_type := SQL_C_BIT, buffer_len := 1, storage := StorageChars (zeros 1),
          ind_vec := [0]\<rparr>
      else if t \<in> {SQL_SMALLINT, SQL_TINYINT, SQL_INTEGER} then
        empty_datum\<lparr>c_type := SQL_C_SBIGINT, buffer_len := 8,
          storage := StorageInt64 (zeros 1), ind_vec := [0]\<rparr>
      else if t \<in> {SQL_DECIMAL, SQL_NUMERIC, SQL_REAL, SQL_FLOAT, SQL_DOUBLE, SQL_BIGINT} then
        empty_datum\<lparr>c_type := SQL_C_DOUBLE, buffer_len := 8,
          storage := StorageDouble (zeros 1), ind_vec := [0]\<rparr>
      else if t \<in> {SQL_BINARY, SQL_VARBINARY, SQL_LONGVARBINARY, SQL_SS_UDT} then
        empty_datum\<lparr>c_type := SQL_C_BINARY, buffer_len := n,
          storage := StorageChars (zeros n), ind_vec := [0]\<rparr>
      else if t \<in> {SQL_SS_TIMESTAMPOFFSET} then
        empty_datum\<lparr>c_type := SQL_C_DEFAULT, buffer_len := 20,
          storage := StorageTimestampOffset [timestamp_offset.make 0 0 0 0 0 0 0 0 0],
          ind_vec := [0]\<rparr>
      else if t \<in> {SQL_TYPE_TIME, SQL_SS_TIME2, SQL_TIMESTAMP, SQL_DATETIME,
                    SQL_TYPE_TIMESTAMP, SQL_TYPE_DATE} then
        empty_datum\<lparr>c_type := SQL_C_TIMESTAMP, buffer_len := 16,
          storage := StorageTimestamp [timestamp_offset.make 0 0 0 0 0 0 0 0 0],
          ind_vec := [0]\<rparr>
      else
        empty_datum\<lparr>c_type := SQL_C_WCHAR, buffer_len := 2 * (n + 1),
          storage := StorageUint16 (zeros (n + 1)), ind_vec := [0]\<rparr>)"

text \<open>
  What \<open>SQLFetch\<close> does to the buffers bound with \<open>SQLBindCol\<close>: for each bound
  column it writes the indicator, and the data only when the value is not NULL
  (ODBC leaves the data buffer of a NULL value untouched).
\<close>

fun fetch_bound :: "(sqllen \<times> wire) list \<Rightarrow> bound_datum list \<Rightarrow> bound_datum list" where
  "fetch_bound ((ind, w) # ws) (b # bs) =
     (b\<lparr>ind_vec := ind # drop 1 (ind_vec b),
        storage := (if ind = SQL_NULL_DATA then storage b else write_buffer w (storage b))\<rparr>)
     # fetch_bound ws bs"
| "fetch_bound _ bs = bs"

lemma length_fetch_bound [simp]: "length (fetch_bound ws bs) = length bs"
  by (induction ws bs rule: fetch_bound.induct) auto

lemma fetch_bound_nth_null:
  "i < length ws \<Longrightarrow> i < length bs \<Longrightarrow> fst (ws ! i) = SQL_NULL_DATA \<Longrightarrow>
   storage (fetch_bound ws bs ! i) = storage (bs ! i)"
proof (induction ws bs arbitrary: i rule: fetch_bound.induct)
  case (1 ind w ws b bs)
  then show ?case by (cases i) auto
qed auto

lemma fetch_bound_nth_value:
  "i < length ws \<Longrightarrow> i < length bs \<Longrightarrow> fst (ws ! i) \<noteq> SQL_NULL_DATA \<Longrightarrow>
   storage (fetch_bound ws bs ! i) = write_buffer (snd (ws ! i)) (storage (bs ! i))"
proof (induction ws bs arbitrary: i rule: fetch_bound.induct)
  case (1 ind w ws b bs)
  then show ?case by (cases i) auto
qed auto

end
