(* ===== verification/Result_Set.thy ===== *)
theory Result_Set
  imports Datum
begin

text \<open>
  \<open>ResultSet\<close> (\<open>src/src/ResultSet.h\<close>, \<open>src/src/ResultSet.cpp\<close>): the metadata of the
  current result set (one \<open>ColumnDefinition\<close> per column), its row count, the
  end-of-rows flag and the current column value; and its conversion of the metadata
  into the list of entries handed to JavaScript (\<open>meta_to_value\<close>, with \<open>map_type\<close>
  naming the JavaScript type of each SQL type).
\<close>

section \<open>State\<close>

record column_definition =
  name :: "wchar list"
  column_size :: sqlulen
  data_type :: sqlsmallint
  data_type_name :: "wchar list"
  decimal_digits :: sqlsmallint
  nullable :: sqlsmallint
  udt_type_name :: "wchar list"

text \<open>A value-initialised \<open>ColumnDefinition\<close>, as \<open>vector::resize\<close> creates them.\<close>

definition default_definition :: column_definition where
  "default_definition = \<lparr>name = [], column_size = 0, data_type = 0, data_type_name = [],
     decimal_digits = 0, nullable = 0, udt_type_name = []\<rparr>"

record result_set =
  metadata :: "column_definition list"
  rowcount :: sqllen
  end_of_rows :: bool
  column :: "column option"

text \<open>
  \<open>ResultSet(int columns)\<close>: \<open>columns\<close> value-initialised definitions, no rows read, no
  current column. A negative count makes \<open>vector::resize\<close> throw (the size converts
  to a huge \<open>size_t\<close>); the model has no result there.
\<close>

definition make_result_set :: "int \<Rightarrow> result_set option" where
  "make_result_set columns =
     (if columns < 0 then None
      else Some \<lparr>metadata = replicate (nat columns) default_definition, rowcount = 0,
                 end_of_rows = True, column = None\<rparr>)"

definition get_column_count :: "result_set \<Rightarrow> nat" where
  "get_column_count rs = length (metadata rs)"

section \<open>Metadata for JavaScript\<close>

text \<open>\<open>map_type\<close>: the JavaScript type name reported for a SQL type code.\<close>

definition map_type :: "sqlsmallint \<Rightarrow> string" where
  "map_type t =
     (if t \<in> {SQL_CHAR, SQL_VARCHAR, SQL_LONGVARCHAR, SQL_WCHAR, SQL_WVARCHAR,
              SQL_WLONGVARCHAR, SQL_GUID, SQL_SS_XML} then ''text''
      else if t = SQL_BIT then ''boolean''
      else if t \<in> {SQL_SMALLINT, SQL_TINYINT, SQL_INTEGER, SQL_DECIMAL, SQL_NUMERIC,
                   SQL_REAL, SQL_FLOAT, SQL_DOUBLE, SQL_BIGINT} then ''number''
      else if t \<in> {SQL_TYPE_TIME, SQL_SS_TIME2, SQL_TYPE_TIMESTAMP, SQL_TYPE_DATE,
                   SQL_SS_TIMESTAMPOFFSET} then ''date''
      else if t \<in> {SQL_BINARY, SQL_VARBINARY, SQL_LONGVARBINARY, SQL_SS_UDT} then ''binary''
      else ''text'')"

datatype meta_value = MInt int | MText string | MWText "wchar list" | MBool bool

type_synonym meta_entry = "(string \<times> meta_value) list"

text \<open>
  \<open>get_entry\<close>: one JavaScript object per column, its properties in the order they
  are set. The size is \<open>static_cast<int32_t>\<close> of the 64-bit \<open>SQLULEN\<close> column size:
  the low 32 bits read as a signed number.
\<close>

definition get_entry :: "column_definition \<Rightarrow> meta_entry" where
  "get_entry d =
     [(''size'', MInt (sint (scast (column_size d) :: 32 word))),
      (''name'', MWText (name d)),
      (''nullable'', MBool (nullable d \<noteq> 0)),
      (''type'', MText (map_type (data_type d))),
      (''sqlType'', MWText (data_type_name d))]
     @ (if data_type d = SQL_SS_UDT then [(''udtType'', MWText (udt_type_name d))] else [])"

definition meta_to_value :: "result_set \<Rightarrow> meta_entry list" where
  "meta_to_value rs = map get_entry (metadata rs)"

section \<open>Lemmas\<close>

lemma make_result_set_Some:
  "0 \<le> n \<Longrightarrow> make_result_set n = Some \<lparr>metadata = replicate (nat n) default_definition,
     rowcount = 0, end_of_rows = True, column = None\<rparr>"
  by (simp add: make_result_set_def)

lemma make_result_set_count:
  "make_result_set n = Some rs \<Longrightarrow> get_column_count rs = nat n"
  by (auto simp: make_result_set_def get_column_count_def split: if_splits)

lemma make_result_set_fresh:
  "make_result_set n = Some rs \<Longrightarrow> end_of_rows rs \<and> column rs = None \<and> rowcount rs = 0"
  by (auto simp: make_result_set_def split: if_splits)

text \<open>The 32-bit size entry: exact below \<open>2^31\<close>, and in general the value modulo
  \<open>2^32\<close> read in two's complement.\<close>

lemma sint_scast_64_32:
  "sint (scast (w :: 64 word) :: 32 word) = signed_take_bit 31 (sint w)"
  using signed_scast_eq [where 'c = 32 and w = w] by simp
lemma size_entry_exact:
  assumes "unat (w :: 64 word) < 2 ^ 31"
  shows "sint (scast w :: 32 word) = int (unat w)"
proof -
  have "int (unat w) < int (2 ^ 31)" using assms by (simp only: of_nat_less_iff)
  then have u: "uint w < 2 ^ 31" by (simp only: uint_nat of_nat_power of_nat_numeral)
  have lo: "- (2 ^ 31) \<le> uint w" "- (2 ^ 63) \<le> uint w"
    by (rule order.trans [OF _ uint_ge_0], simp)+
  have u63: "uint w < 2 ^ 63" using u by (rule order.strict_trans2) simp
  have s: "sint w = uint w"
    using u63 lo(2) by (simp only: sint_uint signed_take_bit_int_eq_self_iff) simp
  have "signed_take_bit 31 (uint w) = uint w"
    using u lo(1) by (simp only: signed_take_bit_int_eq_self_iff)
  then show ?thesis by (simp only: sint_scast_64_32 s uint_nat)
qed

lemma sint_scast_wrap:
  "sint (scast (w :: 64 word) :: 32 word) = (int (unat w) + 2 ^ 31) mod 2 ^ 32 - 2 ^ 31"
proof -
  have "sint (scast w :: 32 word) = signed_take_bit 31 (sint w)" by (rule sint_scast_64_32)
  also have "\<dots> = signed_take_bit 31 (uint w)"
    by (simp add: sint_uint signed_take_bit_signed_take_bit)
  also have "\<dots> = (uint w + 2 ^ 31) mod 2 ^ 32 - 2 ^ 31"
    by (simp add: signed_take_bit_eq_take_bit_shift take_bit_eq_mod)
  finally show ?thesis by (simp only: uint_nat)
qed

section \<open>Properties\<close>

text \<open>C18 (get_entry_size_wraps):
  The \<open>size\<close> that \<open>get_entry\<close> reports for a column is its 64-bit column size
  wrapped to a signed 32-bit integer: sizes from \<open>2^31\<close> to \<open>2^32 - 1\<close> come out
  negative (\<open>4294967295\<close> as \<open>-1\<close>) and larger sizes lose their high bits.\<close>

lemma get_entry_size_wraps:
  "map_of (get_entry d) ''size'' =
   Some (MInt ((int (unat (column_size d)) + 2 ^ 31) mod 2 ^ 32 - 2 ^ 31))"
  by (simp add: get_entry_def sint_scast_wrap del: of_nat_add)

section \<open>Witnesses\<close>

lemma get_entry_size_wraps_witness:
  "map_of (get_entry (default_definition\<lparr>column_size := 4294967295\<rparr>)) ''size'' = Some (MInt (- 1))"
proof -
  have "unat (4294967295 :: 64 word) = 4294967295" by simp
  then show ?thesis using get_entry_size_wraps [of "default_definition\<lparr>column_size := 4294967295\<rparr>"]
    by simp
qed

end
