(* ===== verification/Bound_Datum_Set.thy ===== *)
theory Bound_Datum_Set
  imports Result_Set
begin

text \<open>
  \<open>BoundDatumSet\<close> (\<open>src/src/BoundDatumSet.cpp\<close>, the ParameterSet of the
  specification): the ordered bindings of the parameters of one execution, the
  number of output parameters, and the index and error of the first parameter that
  failed to bind.

  Binding one JavaScript value (\<open>BoundDatum::bind\<close>) and reading its
  \<open>table_value_param\<close> property are outside \<open>src/\<close>; the model takes them as the
  interface \<open>'v node_binder\<close> over the type \<open>'v\<close> of JavaScript values, and every
  lemma below holds for every such binder.
\<close>

section \<open>State and interface\<close>

record bound_datum_set =
  bds_err :: "odbc_error option"
  first_error :: nat
  output_param_count :: int
  bindings :: "bound_datum list"

text \<open>The constructor: no error, first error 0, output count -1, no bindings.\<close>

definition new_bound_datum_set :: bound_datum_set where
  "new_bound_datum_set =
     \<lparr>bds_err = None, first_error = 0, output_param_count = -1, bindings = []\<rparr>"

text \<open>What \<open>get(v, "table_value_param")\<close> finds: null, an array of column values, or
  anything else.\<close>

datatype 'v tvp_value = TvpNull | TvpArray "'v list" | TvpOther

text \<open>
  \<open>bind_value v\<close> is a fresh \<open>BoundDatum\<close> after \<open>binding->bind(v)\<close> and the
  \<open>bool\<close> that call returned; \<open>table_value_param v\<close> is the property read by
  \<open>get\<close>.
\<close>

record 'v node_binder =
  bind_value :: "'v \<Rightarrow> bound_datum \<times> bool"
  table_value_param :: "'v \<Rightarrow> 'v tvp_value"

section \<open>Operations\<close>

text \<open>
  \<open>get_tvp_col_count\<close>: the length of the \<open>table_value_param\<close> array. The source
  casts the property to an array without checking; on anything else the result is
  undefined (\<open>None\<close>).
\<close>

definition get_tvp_col_count :: "'v node_binder \<Rightarrow> 'v \<Rightarrow> nat option" where
  "get_tvp_col_count I v =
     (case table_value_param I v of TvpArray cols \<Rightarrow> Some (length cols) | _ \<Rightarrow> None)"

text \<open>The loop of \<open>tvp\<close>: bind the columns in order, stop at the first that fails
  to bind (that one is not kept).\<close>

fun tvp_columns :: "'v node_binder \<Rightarrow> 'v list \<Rightarrow> bound_datum list" where
  "tvp_columns I [] = []"
| "tvp_columns I (c # cs) =
     (let (b, r) = bind_value I c in if r then b # tvp_columns I cs else [])"

text \<open>\<open>tvp\<close>: false when the property is null or no array; otherwise the bound
  columns are appended to the same flat binding list, and the result is true even
  when a column failed to bind.\<close>

definition tvp :: "'v node_binder \<Rightarrow> 'v \<Rightarrow> bound_datum_set \<Rightarrow> bool \<times> bound_datum_set" where
  "tvp I v s =
     (case table_value_param I v of
        TvpNull \<Rightarrow> (False, s)
      | TvpOther \<Rightarrow> (False, s)
      | TvpArray cols \<Rightarrow> (True, s\<lparr>bindings := bindings s @ tvp_columns I cols\<rparr>))"

text \<open>
  The loop of \<open>bind\<close>, from parameter index \<open>i\<close>, with \<open>res\<close> the value of the
  variable \<open>res\<close> before the iteration. The output count is incremented before the
  bind result is checked; a failure records the error and the index and leaves the
  loop; a table-valued binding is pushed (its column count set through the shared
  pointer) and then its columns are bound, and the result of \<open>tvp\<close> becomes
  \<open>res\<close>.
\<close>

fun bind_loop ::
  "'v node_binder \<Rightarrow> nat \<Rightarrow> 'v list \<Rightarrow> bool \<Rightarrow> bound_datum_set \<Rightarrow>
   (bool \<times> bound_datum_set) option" where
  "bind_loop I i [] res s = Some (res, s)"
| "bind_loop I i (v # vs) res s =
     (let (b, r) = bind_value I v;
          s1 = (if is_output_param b
                then s\<lparr>output_param_count := output_param_count s + 1\<rparr> else s)
      in if \<not> r then Some (r, s1\<lparr>bds_err := datum_err b, first_error := i\<rparr>)
         else if is_tvp b then
           (case get_tvp_col_count I v of
              None \<Rightarrow> None
            | Some n \<Rightarrow>
                (let (r', s2) = tvp I v (s1\<lparr>bindings := bindings s1 @ [b\<lparr>tvp_no_cols := n\<rparr>]\<rparr>)
                 in bind_loop I (Suc i) vs r' s2))
         else bind_loop I (Suc i) vs r (s1\<lparr>bindings := bindings s1 @ [b]\<rparr>))"

definition bind ::
  "'v node_binder \<Rightarrow> 'v list \<Rightarrow> bound_datum_set \<Rightarrow> (bool \<times> bound_datum_set) option" where
  "bind I node_params s =
     (let s0 = s\<lparr>output_param_count := 0\<rparr>
      in if 0 < length node_params then bind_loop I 0 node_params True s0 else Some (True, s0))"

text \<open>
  \<open>unbind\<close>: a JavaScript array created with the output count as length (a negative
  length gives an empty array), then one element set per binding whose direction
  includes output, at consecutive indices; setting past the end extends the array,
  and unset elements are holes (\<open>None\<close>).
\<close>

definition js_array_set :: "nat \<Rightarrow> 'r \<Rightarrow> 'r option list \<Rightarrow> 'r option list" where
  "js_array_set i x arr =
     (if i < length arr then arr[i := Some x]
      else arr @ replicate (i - length arr) None @ [Some x])"

fun unbind_loop :: "(bound_datum \<Rightarrow> 'r) \<Rightarrow> nat \<Rightarrow> bound_datum list \<Rightarrow> 'r option list \<Rightarrow>
    'r option list" where
  "unbind_loop u i [] arr = arr"
| "unbind_loop u i (b # bs) arr =
     (if is_output_param b then unbind_loop u (Suc i) bs (js_array_set i (u b) arr)
      else unbind_loop u i bs arr)"

definition unbind :: "(bound_datum \<Rightarrow> 'r) \<Rightarrow> bound_datum_set \<Rightarrow> 'r option list" where
  "unbind u s = unbind_loop u 0 (bindings s) (replicate (nat (output_param_count s)) None)"

text \<open>\<open>reserve\<close>: one binding per described result column, in column order.\<close>

definition reserve :: "result_set \<Rightarrow> bound_datum_set \<Rightarrow> bool \<times> bound_datum_set" where
  "reserve rs s =
     (True, s\<lparr>bindings := bindings s @
                map (\<lambda>d. reserve_column_type (data_type d) (column_size d)) (metadata rs)\<rparr>)"

text \<open>\<open>getSize\<close> (\<open>OdbcStatement.cpp\<close>): the number of rows bound, read off the
  indicator vector of the first binding.\<close>

definition get_size :: "bound_datum_set \<Rightarrow> nat" where
  "get_size s = (case bindings s of [] \<Rightarrow> 0 | b # _ \<Rightarrow> length (ind_vec b))"

text \<open>\<open>atIndex\<close>: the binding at a position; out of range it is undefined.\<close>

definition at_index :: "bound_datum_set \<Rightarrow> nat \<Rightarrow> bound_datum option" where
  "at_index s i = (if i < length (bindings s) then Some (bindings s ! i) else None)"

section \<open>Specification helpers\<close>

text \<open>
  Functions of the specification, not of the code, used to state what \<open>bind\<close>
  does: the index of the first value that fails to bind, the values before it
  (\<open>accepted\<close>) and up to and including it (\<open>processed\<close>), the bindings one
  accepted value contributes (\<open>pushed\<close>), the number of output parameters among
  bound values, and the condition that every table-valued parameter carries an
  array of columns.
\<close>

fun first_failure :: "'v node_binder \<Rightarrow> 'v list \<Rightarrow> nat option" where
  "first_failure I [] = None"
| "first_failure I (v # vs) =
     (if snd (bind_value I v) then map_option Suc (first_failure I vs) else Some 0)"

fun accepted :: "'v node_binder \<Rightarrow> 'v list \<Rightarrow> 'v list" where
  "accepted I [] = []"
| "accepted I (v # vs) = (if snd (bind_value I v) then v # accepted I vs else [])"

fun processed :: "'v node_binder \<Rightarrow> 'v list \<Rightarrow> 'v list" where
  "processed I [] = []"
| "processed I (v # vs) = v # (if snd (bind_value I v) then processed I vs else [])"

definition pushed :: "'v node_binder \<Rightarrow> 'v \<Rightarrow> bound_datum list" where
  "pushed I v =
     (let b = fst (bind_value I v)
      in if is_tvp b then
           (case table_value_param I v of
              TvpArray cols \<Rightarrow> b\<lparr>tvp_no_cols := length cols\<rparr> # tvp_columns I cols
            | _ \<Rightarrow> [])
         else [b])"

definition count_outputs :: "'v node_binder \<Rightarrow> 'v list \<Rightarrow> nat" where
  "count_outputs I vs = length (filter is_output_param (map (\<lambda>v. fst (bind_value I v)) vs))"

definition tvp_arrays :: "'v node_binder \<Rightarrow> 'v list \<Rightarrow> bool" where
  "tvp_arrays I vs \<longleftrightarrow>
     list_all (\<lambda>v. is_tvp (fst (bind_value I v)) \<longrightarrow> get_tvp_col_count I v \<noteq> None) vs"


text \<open>Two binders for the examples: \<open>demo_binder\<close> binds even numbers as output
  parameters, odd ones as inputs, and fails on 4; \<open>tvp_binder\<close> makes 0 a
  table-valued parameter with three columns, the second of which (5) fails.\<close>

definition demo_binder :: "nat node_binder" where
  "demo_binder =
     \<lparr>bind_value = (\<lambda>n. (empty_datum\<lparr>param_type :=
                           (if even n then SQL_PARAM_OUTPUT else SQL_PARAM_INPUT)\<rparr>, n \<noteq> 4)),
      table_value_param = (\<lambda>_. TvpNull)\<rparr>"

definition tvp_binder :: "nat node_binder" where
  "tvp_binder =
     \<lparr>bind_value = (\<lambda>n. (empty_datum\<lparr>is_tvp := (n = 0)\<rparr>, n \<noteq> 5)),
      table_value_param = (\<lambda>n. if n = 0 then TvpArray [1, 5, 1] else TvpNull)\<rparr>"

section \<open>Lemmas on the bind loop\<close>

lemma accepted_first_failure:
  "accepted I vs = (case first_failure I vs of Some k \<Rightarrow> take k vs | None \<Rightarrow> vs)"
  by (induction vs) (auto split: option.splits)

lemma processed_first_failure:
  "processed I vs = (case first_failure I vs of Some k \<Rightarrow> take (Suc k) vs | None \<Rightarrow> vs)"
  by (induction vs) (auto split: option.splits)

lemma first_failure_nth:
  "first_failure I vs = Some k \<Longrightarrow> k < length vs \<and> \<not> snd (bind_value I (vs ! k))"
  by (induction vs arbitrary: k) (auto split: if_splits)

lemma bind_loop_counts:
  "bind_loop I i vs res s = Some (r, s') \<Longrightarrow>
   output_param_count s' = output_param_count s + int (count_outputs I (processed I vs))"
proof (induction vs arbitrary: i res s)
  case Nil
  then show ?case by (simp add: count_outputs_def)
next
  case (Cons v vs)
  obtain b ok where bv: "bind_value I v = (b, ok)" by fastforce
  show ?case
    using Cons.prems Cons.IH bv
    by (fastforce simp: count_outputs_def tvp_def Let_def split: if_splits option.splits tvp_value.splits prod.splits)
qed

lemma bind_loop_bindings:
  "bind_loop I i vs res s = Some (r, s') \<Longrightarrow>
   bindings s' = bindings s @ concat (map (pushed I) (accepted I vs))"
proof (induction vs arbitrary: i res s)
  case Nil
  then show ?case by simp
next
  case (Cons v vs)
  obtain b ok where bv: "bind_value I v = (b, ok)" by fastforce
  show ?case
  proof (cases "ok \<and> is_tvp b")
    case True
    then obtain cols where tv: "table_value_param I v = TvpArray cols"
      using Cons.prems bv
      by (auto simp: get_tvp_col_count_def Let_def split: tvp_value.splits if_splits)
    show ?thesis
      using Cons.prems Cons.IH bv True tv
      by (auto simp: pushed_def tvp_def get_tvp_col_count_def Let_def)
  next
    case False
    then show ?thesis
      using Cons.prems Cons.IH bv
      by (auto simp: pushed_def Let_def split: if_splits)
  qed
qed

lemma bind_loop_failure:
  "bind_loop I i vs res s = Some (r, s') \<Longrightarrow> first_failure I vs = Some k \<Longrightarrow>
   \<not> r \<and> first_error s' = i + k \<and> bds_err s' = datum_err (fst (bind_value I (vs ! k)))"
proof (induction vs arbitrary: i res s k)
  case Nil
  then show ?case by simp
next
  case (Cons v vs)
  obtain b ok where bv: "bind_value I v = (b, ok)" by fastforce
  show ?case
    using Cons.prems Cons.IH bv
    by (fastforce simp: tvp_def Let_def split: if_splits option.splits tvp_value.splits prod.splits)
qed

lemma bind_loop_defined:
  "tvp_arrays I (accepted I vs) \<Longrightarrow> \<exists>r s'. bind_loop I i vs res s = Some (r, s')"
proof (induction vs arbitrary: i res s)
  case Nil
  then show ?case by simp
next
  case (Cons v vs)
  obtain b ok where bv: "bind_value I v = (b, ok)" by fastforce
  show ?case
    using Cons.prems Cons.IH bv
    by (auto simp: tvp_arrays_def tvp_def Let_def split: if_splits option.splits tvp_value.splits prod.splits)
qed

lemma processed_accepted:
  "first_failure I vs = Some k \<Longrightarrow> processed I vs = accepted I vs @ [vs ! k]"
  by (induction vs arbitrary: k) (auto split: if_splits)

lemma count_outputs_append:
  "count_outputs I (xs @ ys) = count_outputs I xs + count_outputs I ys"
  by (simp add: count_outputs_def)

lemma unbind_loop_outputs:
  "length xs = i \<Longrightarrow>
   unbind_loop u i bs (xs @ replicate (length (filter is_output_param bs)) None) =
   xs @ map (\<lambda>b. Some (u b)) (filter is_output_param bs)"
proof (induction bs arbitrary: xs i)
  case Nil
  then show ?case by simp
next
  case (Cons b bs)
  show ?case
  proof (cases "is_output_param b")
    case True
    have "js_array_set i (u b) (xs @ None # replicate (length (filter is_output_param bs)) None)
          = (xs @ [Some (u b)]) @ replicate (length (filter is_output_param bs)) None"
      using Cons.prems by (simp add: js_array_set_def list_update_append)
    then show ?thesis
      using True Cons.IH [of "xs @ [Some (u b)]" "Suc i"] Cons.prems by simp
  next
    case False
    then show ?thesis using Cons.IH [of xs] Cons.prems by simp
  qed
qed

lemma length_tvp_columns:
  "length (tvp_columns I cols) = length (takeWhile (\<lambda>c. snd (bind_value I c)) cols)"
  by (induction cols) (auto split: prod.splits)

section \<open>Properties of bind and unbind\<close>

text \<open>C21 (bind_output_count):
  \<open>bind\<close> sets the output count to the number of parameters whose direction
  includes output among the parameters it processed: all of them when every one
  binds, and otherwise those before the first failure and the failing one itself.\<close>

theorem bind_output_count:
  assumes "bind I vs s = Some (r, s')"
  shows "output_param_count s' = int (count_outputs I (processed I vs))"
proof (cases "vs = []")
  case True
  then show ?thesis using assms by (auto simp: bind_def count_outputs_def)
next
  case False
  then have "bind_loop I 0 vs True (s\<lparr>output_param_count := 0\<rparr>) = Some (r, s')"
    using assms by (simp add: bind_def)
  from bind_loop_counts [OF this] show ?thesis by simp
qed

theorem bind_output_count_witness:
  "\<exists>r s'. bind demo_binder [1, 2, 3, 6] new_bound_datum_set = Some (r, s') \<and>
          output_param_count s' = 2"
proof -
  obtain r s' where run: "bind demo_binder [1, 2, 3, 6] new_bound_datum_set = Some (r, s')"
    by (simp add: bind_def demo_binder_def new_bound_datum_set_def empty_datum_def
        is_output_param_def)
  have "count_outputs demo_binder (processed demo_binder [1, 2, 3, 6]) = 2"
    by (simp add: demo_binder_def count_outputs_def empty_datum_def is_output_param_def)
  with bind_output_count [OF run] run show ?thesis by auto
qed

text \<open>C12 (bind_first_error):
  When the value at index \<open>k\<close> is the first that fails to bind, \<open>bind\<close> returns
  false, records \<open>k\<close> and that binding's error, and keeps exactly the bindings of
  the values before \<open>k\<close> (with the columns of table-valued ones among them).\<close>

theorem bind_first_error:
  assumes "first_failure I vs = Some k" and "bind I vs s = Some (r, s')"
  shows "\<not> r \<and> first_error s' = k \<and> bds_err s' = datum_err (fst (bind_value I (vs ! k))) \<and>
         bindings s' = bindings s @ concat (map (pushed I) (take k vs))"
proof -
  have ne: "0 < length vs" using assms(1) by (cases vs) auto
  then have run: "bind_loop I 0 vs True (s\<lparr>output_param_count := 0\<rparr>) = Some (r, s')"
    using assms(2) by (simp add: bind_def)
  show ?thesis
    using bind_loop_failure [OF run assms(1)] bind_loop_bindings [OF run]
    by (simp add: accepted_first_failure assms(1))
qed

theorem bind_first_error_witness:
  "first_failure demo_binder [1, 2, 4, 6] = Some 2 \<and>
   (\<exists>r s'. bind demo_binder [1, 2, 4, 6] new_bound_datum_set = Some (r, s') \<and> \<not> r \<and>
      first_error s' = 2 \<and> length (bindings s') = 2)"
proof -
  have ff: "first_failure demo_binder [1, 2, 4, 6] = Some 2" by (simp add: demo_binder_def)
  obtain r s' where run: "bind demo_binder [1, 2, 4, 6] new_bound_datum_set = Some (r, s')"
    by (simp add: bind_def demo_binder_def new_bound_datum_set_def empty_datum_def
        is_output_param_def) blast
  have len: "length (concat (map (pushed demo_binder) (take 2 [1, 2, 4, 6]))) = 2"
    by (simp add: pushed_def demo_binder_def empty_datum_def)
  show ?thesis
    using bind_first_error [OF ff run] ff run len by (auto simp: new_bound_datum_set_def)
qed

text \<open>C24 (bind_defined):
  \<open>bind\<close> has a defined result whenever every table-valued parameter among the
  values it binds carries an array of columns.\<close>

theorem bind_defined:
  assumes "tvp_arrays I (accepted I vs)"
  shows "\<exists>r s'. bind I vs s = Some (r, s')"
  using bind_loop_defined [OF assms] by (auto simp: bind_def Let_def)

theorem bind_defined_witness:
  "tvp_arrays tvp_binder (accepted tvp_binder [1, 0]) \<and>
   (\<exists>r s'. bind tvp_binder [1, 0] new_bound_datum_set = Some (r, s'))"
proof -
  have h: "tvp_arrays tvp_binder (accepted tvp_binder [1, 0])"
    by (simp add: tvp_arrays_def tvp_binder_def get_tvp_col_count_def empty_datum_def)
  show ?thesis using h bind_defined [OF h] by blast
qed

text \<open>C23 (tvp_column_failure_hidden):
  A table-valued parameter whose columns do not all bind is reported as bound:
  \<open>bind\<close> returns true and keeps only the columns before the first failing one
  (the specification says binding never silently skips a failing column).\<close>

theorem tvp_column_failure_hidden:
  assumes "bind_value I v = (b, True)" and "is_tvp b"
    and "table_value_param I v = TvpArray cols"
  shows "\<exists>s'. bind I [v] s = Some (True, s') \<and>
     bindings s' = bindings s @ b\<lparr>tvp_no_cols := length cols\<rparr> # tvp_columns I cols \<and>
     length (tvp_columns I cols) = length (takeWhile (\<lambda>c. snd (bind_value I c)) cols)"
  using assms
  by (auto simp: bind_def tvp_def get_tvp_col_count_def length_tvp_columns Let_def)

theorem tvp_column_failure_hidden_witness:
  "\<exists>s'. bind tvp_binder [0] new_bound_datum_set = Some (True, s') \<and>
     length (bindings s') = 2"
proof -
  have bv: "bind_value tvp_binder 0 = (empty_datum\<lparr>is_tvp := True\<rparr>, True)"
    by (simp add: tvp_binder_def)
  have tv: "table_value_param tvp_binder 0 = TvpArray [1, 5, 1]"
    by (simp add: tvp_binder_def)
  have cols: "tvp_columns tvp_binder [1, 5, 1] = [empty_datum]"
    by (simp add: tvp_binder_def empty_datum_def)
  have tvpb: "is_tvp (empty_datum\<lparr>is_tvp := True\<rparr>)" by simp
  obtain s' where run: "bind tvp_binder [0] new_bound_datum_set = Some (True, s')"
    and bs: "bindings s' = bindings new_bound_datum_set @
               (empty_datum\<lparr>is_tvp := True\<rparr>)\<lparr>tvp_no_cols := length [1::nat, 5, 1]\<rparr> #
               tvp_columns tvp_binder [1, 5, 1]"
    using tvp_column_failure_hidden [OF bv tvpb tv, of new_bound_datum_set] by blast
  have "length (bindings s') = 2"
    using bs cols by (simp add: new_bound_datum_set_def)
  with run show ?thesis by blast
qed

text \<open>C25 (unbind_outputs):
  When the output count matches the bindings, \<open>unbind\<close> returns the values of
  exactly the bindings whose direction includes output, in binding order, with no
  holes.\<close>

theorem unbind_outputs:
  assumes "output_param_count s = int (length (filter is_output_param (bindings s)))"
  shows "unbind u s = map (\<lambda>b. Some (u b)) (filter is_output_param (bindings s))"
  using assms unbind_loop_outputs [of "[]" 0 u "bindings s"] by (simp add: unbind_def)

theorem unbind_outputs_witness:
  "unbind param_type (new_bound_datum_set\<lparr>output_param_count := 1,
     bindings := [empty_datum, empty_datum\<lparr>param_type := SQL_PARAM_OUTPUT\<rparr>]\<rparr>) =
   [Some SQL_PARAM_OUTPUT]"
proof -
  let ?s = "new_bound_datum_set\<lparr>output_param_count := 1,
     bindings := [empty_datum, empty_datum\<lparr>param_type := SQL_PARAM_OUTPUT\<rparr>]\<rparr>"
  have h: "output_param_count ?s = int (length (filter is_output_param (bindings ?s)))"
    by (simp add: new_bound_datum_set_def empty_datum_def is_output_param_def)
  show ?thesis
    using unbind_outputs [OF h, of param_type]
    by (simp add: new_bound_datum_set_def empty_datum_def is_output_param_def)
qed

end
