(* ===== verification/Statement.thy ===== *)
theory Statement
  imports Bound_Datum_Set
begin

text \<open>
  The state of an \<open>OdbcStatement\<close> (\<open>src/src/OdbcStatement.cpp\<close>) and its operations
  that do not read results: the driver call, the error path
  (\<open>ReturnOdbcError\<close>, \<open>CheckOdbcError\<close>), \<open>cancel\<close>, \<open>setPolling\<close>,
  \<open>cancelHandle\<close> and the cooperative poll loop \<open>PollCheck\<close>.

  The statement record holds the driver and the history of calls made on the
  handle (most recent first); every driver call goes through \<open>odbc\<close>, which asks
  the driver and records the call. The poll loop re-issues the execute while the
  driver answers \<open>SQL_STILL_EXECUTING\<close>, which may be forever: it is a
  \<open>partial_function (option)\<close>, \<open>None\<close> meaning that it does not return, and
  \<open>poll_fuel\<close> is the same loop with a fuel bound, proved equivalent.
\<close>

section \<open>State\<close>

text \<open>\<open>OdbcStatementState\<close> (declared in \<open>OdbcStatement.h\<close>).\<close>

datatype statement_state =
    STATEMENT_CREATED | STATEMENT_PREPARED | STATEMENT_SUBMITTED | STATEMENT_READING
  | STATEMENT_CANCEL_HANDLE | STATEMENT_CANCELLED | STATEMENT_ERROR | STATEMENT_CLOSED
  | STATEMENT_BINDING | STATEMENT_POLLING | STATEMENT_FETCHING

record stmt =
  drv :: driver
  calls :: "odbc_call list"
  statement_state :: statement_state
  error :: "odbc_error option"
  error2 :: "odbc_error option"
  end_of_results :: bool
  prepared :: bool
  cancel_requested :: bool
  polling_enabled :: bool
  resultset :: "result_set option"
  bound_params_set :: "bound_datum_set option"
  prepared_storage :: "bound_datum_set option"

text \<open>The constructor, on a statement handle the connection already allocated.\<close>

definition new_statement :: "driver \<Rightarrow> stmt" where
  "new_statement d =
     \<lparr>drv = d, calls = [], statement_state = STATEMENT_CREATED, error = None, error2 = None,
      end_of_results = True, prepared = False, cancel_requested = False,
      polling_enabled = False, resultset = None, bound_params_set = None,
      prepared_storage = None\<rparr>"

text \<open>\<open>~OdbcStatement\<close>: the destructor marks the statement \<open>STATEMENT_CLOSED\<close>
  (the commented-out handle release is not performed).\<close>

definition close_statement :: "stmt \<Rightarrow> stmt" where
  "close_statement s = s\<lparr>statement_state := STATEMENT_CLOSED\<rparr>"

section \<open>Driver calls and errors\<close>

definition odbc :: "odbc_call \<Rightarrow> stmt \<Rightarrow> reply \<times> stmt" where
  "odbc c s = (drv s (calls s) c, s\<lparr>calls := c # calls s\<rparr>)"

text \<open>\<open>ReturnOdbcError\<close>: read the handle's diagnostics into \<open>error\<close>, return false.\<close>

definition return_odbc_error :: "stmt \<Rightarrow> bool \<times> stmt" where
  "return_odbc_error s =
     (let (r, s1) = odbc ReadErrors s in (False, s1\<lparr>error := Some (r_diag r)\<rparr>))"

text \<open>\<open>CheckOdbcError\<close>: a return code that is not a success moves the statement to
  \<open>STATEMENT_ERROR\<close> and reads the diagnostics.\<close>

definition check_odbc_error :: "sqlreturn \<Rightarrow> stmt \<Rightarrow> bool \<times> stmt" where
  "check_odbc_error ret s =
     (if \<not> SQL_SUCCEEDED ret then return_odbc_error (s\<lparr>statement_state := STATEMENT_ERROR\<rparr>)
      else (True, s))"

section \<open>Cancellation and polling\<close>

definition cancel_unsupported :: odbc_error where
  "cancel_unsupported = \<lparr>err_state = ''CANCEL'',
     err_message = ''Error: [msnodesql] cancel only supported for statements where polling is enabled.'',
     err_native = -1\<rparr>"

definition operation_canceled :: odbc_error where
  "operation_canceled = \<lparr>err_state = ''CANCEL'',
     err_message = ''Error: [msnodesql] Operation canceled.'', err_native = -1\<rparr>"

text \<open>\<open>cancel\<close> (called from another thread; the mutex makes it one atomic step).\<close>

definition cancel :: "stmt \<Rightarrow> bool \<times> stmt" where
  "cancel s =
     (if polling_enabled s then (True, s\<lparr>cancel_requested := True\<rparr>)
      else (False, s\<lparr>error := Some cancel_unsupported\<rparr>))"

definition set_polling :: "bool \<Rightarrow> stmt \<Rightarrow> bool \<times> stmt" where
  "set_polling mode s = (True, s\<lparr>polling_enabled := mode\<rparr>)"

text \<open>\<open>cancelHandle\<close>: record the cancellation error in \<open>error2\<close>, cancel the handle
  (a failure only goes through \<open>CheckOdbcError\<close> and a log line), clear the request.\<close>

definition cancel_handle :: "stmt \<Rightarrow> stmt" where
  "cancel_handle s =
     (let s1 = s\<lparr>error2 := Some operation_canceled\<rparr>;
          (r, s2) = odbc SQLCancelHandle s1;
          (_, s3) = check_odbc_error (r_rc r) s2
      in s3\<lparr>cancel_requested := False\<rparr>)"

text \<open>The call \<open>PollCheck\<close> re-issues: \<open>SQLExecDirect\<close> with an empty text, or
  \<open>SQLExecute\<close>.\<close>

definition reissue :: "bool \<Rightarrow> odbc_call" where
  "reissue direct = (if direct then SQLExecDirect [] else SQLExecute)"

text \<open>One turn of the \<open>while (true)\<close> loop after the first call: after a
  \<open>SQL_STILL_EXECUTING\<close> answer, sleep, read the cancel flag under the mutex and
  cancel the handle if it is set.\<close>

definition poll_turn :: "stmt \<Rightarrow> stmt" where
  "poll_turn s = (if cancel_requested s then cancel_handle s else s)"

partial_function (option) poll_loop :: "bool \<Rightarrow> stmt \<Rightarrow> (sqlreturn \<times> stmt) option" where
  "poll_loop direct s =
     (let (r, s1) = odbc (reissue direct) s
      in if r_rc r \<noteq> SQL_STILL_EXECUTING then Some (r_rc r, s1)
         else poll_loop direct (poll_turn s1))"

definition poll_check :: "sqlreturn \<Rightarrow> bool \<Rightarrow> stmt \<Rightarrow> (sqlreturn \<times> stmt) option" where
  "poll_check ret direct s =
     (if ret = SQL_STILL_EXECUTING then poll_loop direct s else Some (ret, s))"

text \<open>The same loop with a bound on its turns.\<close>

fun poll_fuel :: "nat \<Rightarrow> bool \<Rightarrow> stmt \<Rightarrow> (sqlreturn \<times> stmt) option" where
  "poll_fuel 0 direct s = None"
| "poll_fuel (Suc n) direct s =
     (let (r, s1) = odbc (reissue direct) s
      in if r_rc r \<noteq> SQL_STILL_EXECUTING then Some (r_rc r, s1)
         else poll_fuel n direct (poll_turn s1))"

text \<open>Re-issued calls in a history: what a driver that finishes after some number of
  re-issues counts.\<close>

definition reissued :: "bool \<Rightarrow> odbc_call list \<Rightarrow> nat" where
  "reissued direct h = length (filter (\<lambda>c. c = reissue direct) h)"

text \<open>An example driver: it answers \<open>SQLExecute\<close> with \<open>SQL_STILL_EXECUTING\<close>
  until the history holds \<open>k\<close> of them, and succeeds on every other call.\<close>

definition slow_driver :: "nat \<Rightarrow> driver" where
  "slow_driver k h c =
     (if c = SQLExecute \<and> reissued False h < k then reply_rc SQL_STILL_EXECUTING
      else reply_rc SQL_SUCCESS)"

section \<open>Lemmas\<close>

lemma odbc_drv [simp]: "drv (snd (odbc c s)) = drv s"
  by (simp add: odbc_def)

lemma odbc_reply: "fst (odbc c s) = drv s (calls s) c"
  by (simp add: odbc_def)

lemma return_odbc_error_eq:
  "return_odbc_error s = (False, s\<lparr>calls := ReadErrors # calls s,
     error := Some (r_diag (drv s (calls s) ReadErrors))\<rparr>)"
  by (simp add: return_odbc_error_def odbc_def)

lemma check_odbc_error_eq:
  "check_odbc_error rc s =
     (if SQL_SUCCEEDED rc then (True, s)
      else (False, s\<lparr>statement_state := STATEMENT_ERROR, calls := ReadErrors # calls s,
              error := Some (r_diag (drv s (calls s) ReadErrors))\<rparr>))"
  by (simp add: check_odbc_error_def return_odbc_error_eq)

text \<open>The facts that unfold one driver call and its check.\<close>

lemmas stmt_steps = Let_def odbc_def check_odbc_error_eq return_odbc_error_eq

lemma check_odbc_error_drv [simp]: "drv (snd (check_odbc_error rc s)) = drv s"
  by (simp add: check_odbc_error_eq)

lemma cancel_handle_eq:
  "cancel_handle s =
     (let r = drv s (calls s) SQLCancelHandle;
          s1 = s\<lparr>error2 := Some operation_canceled, calls := SQLCancelHandle # calls s\<rparr>
      in (snd (check_odbc_error (r_rc r) s1))\<lparr>cancel_requested := False\<rparr>)"
  by (simp add: cancel_handle_def odbc_def Let_def split: prod.splits)

lemma cancel_handle_drv [simp]: "drv (cancel_handle s) = drv s"
  by (simp add: cancel_handle_eq Let_def)

lemma poll_turn_drv [simp]: "drv (poll_turn s) = drv s"
  by (simp add: poll_turn_def)

lemma poll_turn_calls: "\<exists>h. calls (poll_turn s) = h @ calls s \<and> SQLExecute \<notin> set h \<and> (\<forall>q. SQLExecDirect q \<notin> set h)"
  by (auto simp: poll_turn_def cancel_handle_eq check_odbc_error_eq Let_def)

lemma reissued_poll_turn [simp]: "reissued d (calls (poll_turn s)) = reissued d (calls s)"
proof -
  obtain h where "calls (poll_turn s) = h @ calls s" and "SQLExecute \<notin> set h"
    and "\<forall>q. SQLExecDirect q \<notin> set h"
    using poll_turn_calls by blast
  then show ?thesis
    by (auto simp: reissued_def reissue_def filter_empty_conv)
qed

lemma poll_fuel_loop: "poll_fuel n direct s = Some x \<Longrightarrow> poll_loop direct s = Some x"
proof (induction n arbitrary: s)
  case 0
  then show ?case by simp
next
  case (Suc n)
  then show ?case
    by (subst poll_loop.simps) (auto simp: Let_def split: prod.splits if_splits)
qed

lemma poll_loop_fuel:
  assumes ret: "poll_loop direct s = Some x"
  shows "\<exists>n. poll_fuel n direct s = Some x"
proof (rule poll_loop.raw_induct [where P = "\<lambda>direct s x. \<exists>n. poll_fuel n direct s = Some x",
      OF _ ret])
  fix f direct s x
  assume IH: "\<And>direct s x. f direct s = Some x \<Longrightarrow> \<exists>n. poll_fuel n direct s = Some x"
    and eq: "(let (r, s1) = odbc (reissue direct) s
              in if r_rc r \<noteq> SQL_STILL_EXECUTING then Some (r_rc r, s1)
                 else f direct (poll_turn s1)) = Some x"
  obtain r s1 where o: "odbc (reissue direct) s = (r, s1)" by fastforce
  show "\<exists>n. poll_fuel n direct s = Some x"
  proof (cases "r_rc r \<noteq> SQL_STILL_EXECUTING")
    case True
    then have "poll_fuel (Suc 0) direct s = Some x" using eq o by simp
    then show ?thesis by blast
  next
    case False
    then have "f direct (poll_turn s1) = Some x" using eq o by simp
    then obtain n where "poll_fuel n direct (poll_turn s1) = Some x" using IH by blast
    then have "poll_fuel (Suc n) direct s = Some x" using False o by simp
    then show ?thesis by blast
  qed
qed

lemma reissued_odbc [simp]:
  "reissued direct (calls (snd (odbc (reissue direct) s))) = Suc (reissued direct (calls s))"
  by (simp add: odbc_def reissued_def)

lemma poll_fuel_enough:
  assumes stop: "\<forall>h. k \<le> reissued direct h \<longrightarrow> r_rc (drv s h (reissue direct)) \<noteq> SQL_STILL_EXECUTING"
    and n: "k \<le> reissued direct (calls s) + n"
  shows "\<exists>x. poll_fuel (Suc n) direct s = Some x"
  using n stop
proof (induction n arbitrary: s)
  case 0
  then have "r_rc (drv s (calls s) (reissue direct)) \<noteq> SQL_STILL_EXECUTING" by simp
  then show ?case by (simp add: odbc_def)
next
  case (Suc n)
  show ?case
  proof (cases "r_rc (drv s (calls s) (reissue direct)) \<noteq> SQL_STILL_EXECUTING")
    case True
    then show ?thesis by (simp add: odbc_def)
  next
    case False
    let ?s = "poll_turn (snd (odbc (reissue direct) s))"
    have "k \<le> reissued direct (calls ?s) + n" using Suc.prems(1) by simp
    moreover have "\<forall>h. k \<le> reissued direct h \<longrightarrow> r_rc (drv ?s h (reissue direct)) \<noteq> SQL_STILL_EXECUTING"
      using Suc.prems(2) by simp
    ultimately obtain x where "poll_fuel (Suc n) direct ?s = Some x" using Suc.IH by blast
    then show ?thesis using False by (auto simp: odbc_def Let_def)
  qed
qed

lemma poll_fuel_not_still: "poll_fuel n direct s = Some (r, s') \<Longrightarrow> r \<noteq> SQL_STILL_EXECUTING"
  by (induction n arbitrary: s) (auto simp: Let_def split: prod.splits if_splits)

lemma poll_check_not_still:
  "poll_check ret direct s = Some (r, s') \<Longrightarrow> r \<noteq> SQL_STILL_EXECUTING"
  by (auto simp: poll_check_def dest: poll_loop_fuel poll_fuel_not_still split: if_splits)

section \<open>Properties of the poll loop\<close>

text \<open>The poll loop returns a result exactly when the same loop bounded by some fuel
  returns it: the partial function and the fuel-bounded loop agree.\<close>

lemma poll_loop_fuel_equiv:
  "poll_loop direct s = Some x \<longleftrightarrow> (\<exists>n. poll_fuel n direct s = Some x)"
  using poll_loop_fuel poll_fuel_loop by blast

text \<open>C26 (poll_check_terminates):
  If the driver stops answering \<open>SQL_STILL_EXECUTING\<close> to the re-issued call once it
  has seen \<open>k\<close> of them, \<open>PollCheck\<close> returns (cancel requests served on the way
  included), and the code it returns is not \<open>SQL_STILL_EXECUTING\<close>: the loop ends
  only on another answer.\<close>

theorem poll_check_terminates:
  assumes "\<forall>h. k \<le> reissued direct h \<longrightarrow> r_rc (drv s h (reissue direct)) \<noteq> SQL_STILL_EXECUTING"
  shows "\<exists>r s'. poll_check ret direct s = Some (r, s') \<and> r \<noteq> SQL_STILL_EXECUTING"
proof -
  have "\<exists>x. poll_check ret direct s = Some x"
  proof (cases "ret = SQL_STILL_EXECUTING")
    case True
    obtain x where "poll_fuel (Suc k) direct s = Some x"
      using poll_fuel_enough [OF assms, of k] by auto
    from poll_fuel_loop [OF this] show ?thesis using True by (auto simp: poll_check_def)
  qed (simp add: poll_check_def)
  then show ?thesis using poll_check_not_still by fastforce
qed

theorem poll_check_terminates_witness:
  "\<exists>r s'. poll_check SQL_STILL_EXECUTING False (new_statement (slow_driver 3)) = Some (r, s') \<and>
     r \<noteq> SQL_STILL_EXECUTING"
proof -
  have "\<forall>h. 3 \<le> reissued False h \<longrightarrow>
          r_rc (drv (new_statement (slow_driver 3)) h (reissue False)) \<noteq> SQL_STILL_EXECUTING"
    by (simp add: new_statement_def slow_driver_def reissue_def reply_rc_def)
  from poll_check_terminates [OF this] show ?thesis by blast
qed

end
