(* ===== verification/Results.thy ===== *)
theory Results
  imports Statement
begin

text \<open>
  Reading results (\<open>src/src/OdbcStatement.cpp\<close>): describing the columns of a result
  set (\<open>readColAttributes\<close>, \<open>readNext\<close>, \<open>StartReadingResults\<close>), fetching a row
  (\<open>TryReadRow\<close>), moving to the next result set (\<open>TryReadNextResult\<close>), and the
  accessors the boundary layer calls. An operation whose C++ has no defined result
  on some input (a read past a buffer, a container built with a negative size, a
  dereferenced null result set) returns \<open>None\<close> there.
\<close>

section \<open>Helpers on the current result set\<close>

text \<open>\<open>resultset->GetMetadata(column)\<close> updated in place.\<close>

definition update_meta :: "nat \<Rightarrow> (column_definition \<Rightarrow> column_definition) \<Rightarrow> stmt \<Rightarrow> stmt" where
  "update_meta i f s =
     s\<lparr>resultset := map_option (\<lambda>rs. rs\<lparr>metadata := (metadata rs)[i := f (metadata rs ! i)]\<rparr>)
                     (resultset s)\<rparr>"

definition meta_at :: "nat \<Rightarrow> stmt \<Rightarrow> column_definition option" where
  "meta_at i s =
     (case resultset s of
        Some rs \<Rightarrow> if i < length (metadata rs) then Some (metadata rs ! i) else None
      | None \<Rightarrow> None)"

text \<open>\<open>resultset->endOfRows = b\<close>: undefined on a null result set.\<close>

definition set_end_of_rows :: "bool \<Rightarrow> stmt \<Rightarrow> stmt option" where
  "set_end_of_rows b s =
     (case resultset s of
        None \<Rightarrow> None
      | Some rs \<Rightarrow> Some (s\<lparr>resultset := Some (rs\<lparr>end_of_rows := b\<rparr>)\<rparr>))"

text \<open>
  \<open>wstring(buffer, n)\<close>: the first \<open>n\<close> characters of a buffer of which \<open>buf\<close> is
  the defined part; a negative \<open>n\<close> (a huge \<open>size_t\<close>) or a read past the defined
  part has no defined result.
\<close>

definition read_wstring :: "wchar list \<Rightarrow> int \<Rightarrow> wchar list option" where
  "read_wstring buf n =
     (if 0 \<le> n \<and> nat n \<le> length buf then Some (take (nat n) buf) else None)"

section \<open>Describing columns\<close>

text \<open>
  \<open>readColAttributes\<close>: the type name through \<open>SQLColAttribute(SQL_DESC_TYPE_NAME)\<close>
  into an uninitialised stack buffer (its defined part is what the driver wrote),
  taken with the length the driver reports; for a UDT column also the UDT type name.
\<close>

definition read_col_attributes :: "nat \<Rightarrow> stmt \<Rightarrow> (bool \<times> stmt) option" where
  "read_col_attributes col s =
     (let idx = col + 1;
          (r, s1) = odbc (SQLColAttribute idx SQL_DESC_TYPE_NAME) s;
          (ok, s2) = check_odbc_error (r_rc r) s1
      in if \<not> ok then Some (False, s2)
         else case read_wstring (r_text r) (sint (r_count r)) of
           None \<Rightarrow> None
         | Some tn \<Rightarrow>
             (let s3 = update_meta col (\<lambda>d. d\<lparr>data_type_name := tn\<rparr>) s2
              in case meta_at col s3 of
                None \<Rightarrow> None
              | Some d \<Rightarrow>
                  if data_type d = SQL_SS_UDT then
                    (let (r2, s4) = odbc (SQLColAttribute idx SQL_CA_SS_UDT_TYPE_NAME) s3;
                         (ok2, s5) = check_odbc_error (r_rc r2) s4
                     in if \<not> ok2 then Some (False, s5)
                        else map_option (\<lambda>un. (True, update_meta col (\<lambda>d. d\<lparr>udt_type_name := un\<rparr>) s5))
                               (read_wstring (r_text r2) (sint (r_count r2))))
                  else Some (True, s3)))"

text \<open>
  \<open>readNext\<close>: \<open>SQLDescribeCol\<close> once for the name length, once more into a
  zero-initialised buffer of that length plus one (the out-parameters for type,
  size, digits and nullability are written into the metadata before the return
  code is checked), then the attributes. Its last check is \<open>CheckOdbcError\<close> of the
  \<open>bool\<close> \<open>readColAttributes\<close> returned, which always passes.
\<close>

definition read_next :: "nat \<Rightarrow> stmt \<Rightarrow> (bool \<times> stmt) option" where
  "read_next col s =
     (let idx = col + 1;
          (r1, s1) = odbc (SQLDescribeCol idx 0) s;
          (ok1, s2) = check_odbc_error (r_rc r1) s1
      in if \<not> ok1 then Some (False, s2)
         else if sint (r_count r1) + 1 < 0 then None
         else
           (let buflen = nat (sint (r_count r1) + 1);
                (r2, s3) = odbc (SQLDescribeCol idx buflen) s2;
                s3' = update_meta col (\<lambda>d. d\<lparr>data_type := r_type r2, column_size := r_size r2,
                        decimal_digits := r_digits r2, nullable := r_nullable r2\<rparr>) s3;
                (ok2, s4) = check_odbc_error (r_rc r2) s3'
            in if \<not> ok2 then Some (False, s4)
               else case read_wstring (resize buflen (r_text r2)) (sint (r_count r2)) of
                 None \<Rightarrow> None
               | Some nm \<Rightarrow>
                   (case read_col_attributes col (update_meta col (\<lambda>d. d\<lparr>name := nm\<rparr>) s4) of
                      None \<Rightarrow> None
                    | Some (ok3, s5) \<Rightarrow>
                        Some (ok3, snd (check_odbc_error (sqlreturn_of_bool ok3) s5)))))"

text \<open>The loop of \<open>StartReadingResults\<close> over the columns.\<close>

function read_columns :: "nat \<Rightarrow> nat \<Rightarrow> stmt \<Rightarrow> (bool \<times> stmt) option" where
  "read_columns i n s =
     (if i < n then
        (case read_next i s of
           None \<Rightarrow> None
         | Some (ok, s') \<Rightarrow> if ok then read_columns (Suc i) n s' else Some (False, s'))
      else Some (True, s))"
  by pat_completeness auto
termination
  by (relation "measure (\<lambda>(i, n, s). n - i)") auto

text \<open>\<open>StartReadingResults\<close>: count the columns, create a fresh result set, describe
  every column, read the row count.\<close>

definition start_reading_results :: "stmt \<Rightarrow> (bool \<times> stmt) option" where
  "start_reading_results s =
     (let (r, s1) = odbc SQLNumResultCols s;
          (ok, s2) = check_odbc_error (r_rc r) s1
      in if \<not> ok then Some (False, s2)
         else case make_result_set (sint (r_count r)) of
           None \<Rightarrow> None
         | Some rs \<Rightarrow>
             (case read_columns 0 (get_column_count rs) (s2\<lparr>resultset := Some rs\<rparr>) of
                None \<Rightarrow> None
              | Some (ok2, s3) \<Rightarrow>
                  if \<not> ok2 then Some (False, s3)
                  else
                    (let (r2, s4) = odbc SQLRowCount s3;
                         s5 = s4\<lparr>resultset := map_option (\<lambda>rs. rs\<lparr>rowcount := r_len r2\<rparr>)
                                                (resultset s4)\<rparr>
                     in Some (check_odbc_error (r_rc r2) s5))))"

section \<open>Fetching and moving between result sets\<close>

text \<open>
  What a successful \<open>SQLFetch\<close> does besides answering: it writes the current row
  into the buffers bound by \<open>SQLBindCol\<close> (the prepared storage, through the
  pointers \<open>TryPrepare\<close> handed to the driver).
\<close>

definition fetch_writes :: "reply \<Rightarrow> stmt \<Rightarrow> stmt" where
  "fetch_writes r s =
     (if SQL_SUCCEEDED (r_rc r) then
        s\<lparr>prepared_storage :=
             map_option (\<lambda>ps. ps\<lparr>bindings := fetch_bound (r_bound r) (bindings ps)\<rparr>)
               (prepared_storage s)\<rparr>
      else s)"

text \<open>\<open>TryReadRow\<close>: \<open>SQL_NO_DATA\<close> sets end-of-rows and succeeds; anything else
  clears it, moves to \<open>STATEMENT_FETCHING\<close> and is checked.\<close>

definition try_read_row :: "stmt \<Rightarrow> bool \<times> stmt" where
  "try_read_row s =
     (case resultset s of
        None \<Rightarrow> (False, s)
      | Some rs \<Rightarrow>
          (let (r, s1) = odbc SQLFetch s;
               s2 = fetch_writes r s1
           in if r_rc r = SQL_NO_DATA
              then (True, s2\<lparr>resultset := Some (rs\<lparr>end_of_rows := True\<rparr>)\<rparr>)
              else check_odbc_error (r_rc r)
                     (s2\<lparr>statement_state := STATEMENT_FETCHING,
                         resultset := Some (rs\<lparr>end_of_rows := False\<rparr>)\<rparr>)))"

text \<open>
  \<open>TryReadNextResult\<close>: a cancelled statement ends; otherwise \<open>SQLMoreResults\<close>:
  \<open>SQL_NO_DATA\<close> ends the results (and closes the cursor of a prepared statement),
  \<open>SQL_SUCCESS_WITH_INFO\<close> reports the diagnostics and still reads the next result
  set, any other code reads the next result set.
\<close>

definition try_read_next_result :: "stmt \<Rightarrow> (bool \<times> stmt) option" where
  "try_read_next_result s =
     (if statement_state s = STATEMENT_CANCELLED then
        map_option (\<lambda>s1. (False, s1\<lparr>end_of_results := True, statement_state := STATEMENT_ERROR\<rparr>))
          (set_end_of_rows True s)
      else
        (let (r, s1) = odbc SQLMoreResults s
         in if r_rc r = SQL_NO_DATA then
              (let s2 = s1\<lparr>end_of_results := True\<rparr>
               in Some (True, if prepared s2 then snd (odbc SQLCloseCursor s2) else s2))
            else if r_rc r = SQL_SUCCESS_WITH_INFO then
              (let (_, s2) = return_odbc_error s1
               in case start_reading_results s2 of
                    None \<Rightarrow> None
                  | Some (res, s3) \<Rightarrow> map_option (\<lambda>s4. (False, s4)) (set_end_of_rows (\<not> res) s3))
            else start_reading_results (s1\<lparr>end_of_results := False\<rparr>)))"

section \<open>Accessors\<close>

definition end_of_rows_of :: "stmt \<Rightarrow> bool option" where
  "end_of_rows_of s = map_option end_of_rows (resultset s)"

text \<open>\<open>endOfResults\<close> and \<open>EndOfResults\<close>: the end-of-results flag, read without
  any call.\<close>

definition end_of_results_of :: "stmt \<Rightarrow> bool" where
  "end_of_results_of s = end_of_results s"

definition unbind_params :: "(bound_datum \<Rightarrow> 'r) \<Rightarrow> stmt \<Rightarrow> 'r option list" where
  "unbind_params u s =
     (case bound_params_set s of Some ps \<Rightarrow> unbind u ps | None \<Rightarrow> [])"

definition get_meta_value :: "stmt \<Rightarrow> meta_entry list option" where
  "get_meta_value s = map_option meta_to_value (resultset s)"

text \<open>An example driver with one result column: \<open>SQLMoreResults\<close> answers \<open>mr\<close>,
  the type name \<open>int\<close> is reported with length \<open>tlen\<close>, one row is fetched.\<close>

definition one_column_driver :: "sqlreturn \<Rightarrow> sqlsmallint \<Rightarrow> driver" where
  "one_column_driver mr tlen h c =
     (case c of
        SQLNumResultCols \<Rightarrow> (reply_rc SQL_SUCCESS)\<lparr>r_count := 1\<rparr>
      | SQLDescribeCol _ _ \<Rightarrow>
          (reply_rc SQL_SUCCESS)\<lparr>r_count := 1, r_text := [65], r_type := SQL_INTEGER, r_size := 10\<rparr>
      | SQLColAttribute _ SQL_DESC_TYPE_NAME \<Rightarrow>
          (reply_rc SQL_SUCCESS)\<lparr>r_count := tlen, r_text := [105, 110, 116, 0]\<rparr>
      | SQLRowCount \<Rightarrow> (reply_rc SQL_SUCCESS)\<lparr>r_len := 1\<rparr>
      | SQLFetch \<Rightarrow> reply_rc (if SQLFetch \<in> set h then SQL_NO_DATA else SQL_SUCCESS)
      | SQLMoreResults \<Rightarrow> reply_rc mr
      | _ \<Rightarrow> reply_rc SQL_SUCCESS)"

text \<open>What describing columns and moving between result sets leave alone: the driver,
  the polling and cancel flags, the prepared flag and the prepared storage.\<close>

definition keeps_setup :: "stmt \<Rightarrow> stmt \<Rightarrow> bool" where
  "keeps_setup s s' \<longleftrightarrow>
     drv s' = drv s \<and> polling_enabled s' = polling_enabled s \<and>
     cancel_requested s' = cancel_requested s \<and> prepared s' = prepared s \<and>
     prepared_storage s' = prepared_storage s"

section \<open>Lemmas\<close>

lemma update_meta_length [simp]:
  "map_option (\<lambda>rs. length (metadata rs)) (resultset (update_meta i f s)) =
   map_option (\<lambda>rs. length (metadata rs)) (resultset s)"
  by (cases "resultset s") (simp_all add: update_meta_def)

lemma update_meta_calls [simp]: "calls (update_meta i f s) = calls s"
  by (simp add: update_meta_def)
lemma update_meta_drv [simp]: "drv (update_meta i f s) = drv s"
  by (simp add: update_meta_def)
lemma update_meta_setup [simp]:
  "polling_enabled (update_meta i f s) = polling_enabled s"
  "cancel_requested (update_meta i f s) = cancel_requested s"
  "prepared (update_meta i f s) = prepared s"
  "prepared_storage (update_meta i f s) = prepared_storage s"
  by (simp_all add: update_meta_def)

lemma keeps_setup_trans: "keeps_setup s t \<Longrightarrow> keeps_setup t u \<Longrightarrow> keeps_setup s u"
  by (simp add: keeps_setup_def)

lemma check_meta_len [simp]:
  "map_option (\<lambda>rs. length (metadata rs)) (resultset (snd (check_odbc_error rc s))) =
   map_option (\<lambda>rs. length (metadata rs)) (resultset s)"
  by (simp add: check_odbc_error_eq)

lemma odbc_resultset [simp]: "resultset (snd (odbc c s)) = resultset s"
  by (simp add: odbc_def)

lemma read_col_attributes_len:
  "read_col_attributes i s = Some (ok, s') \<Longrightarrow>
   map_option (\<lambda>rs. length (metadata rs)) (resultset s') =
   map_option (\<lambda>rs. length (metadata rs)) (resultset s)"
  unfolding read_col_attributes_def
  by (auto simp: Let_def check_odbc_error_eq odbc_def
      split: prod.splits if_splits option.splits)

lemma read_next_len:
  "read_next i s = Some (ok, s') \<Longrightarrow>
   map_option (\<lambda>rs. length (metadata rs)) (resultset s') =
   map_option (\<lambda>rs. length (metadata rs)) (resultset s)"
  unfolding read_next_def
  by (auto simp: Let_def check_odbc_error_eq odbc_def
      dest!: read_col_attributes_len split: prod.splits if_splits option.splits)

lemma read_columns_pres:
  assumes step: "\<And>i s ok s'. read_next i s = Some (ok, s') \<Longrightarrow> P s \<Longrightarrow> P s'"
  shows "read_columns i n s = Some (ok, s') \<Longrightarrow> P s \<Longrightarrow> P s'"
proof (induction i n s arbitrary: ok s' rule: read_columns.induct)
  case (1 i n s)
  show ?case
  proof (cases "i < n")
    case True
    then obtain ok1 s1 where rn: "read_next i s = Some (ok1, s1)"
      using "1.prems" by (auto split: option.splits)
    have p1: "P s1" using step [OF rn "1.prems"(2)] .
    show ?thesis
    proof (cases ok1)
      case True
      then have "read_columns (Suc i) n s1 = Some (ok, s')"
        using "1.prems" \<open>i < n\<close> rn by simp
      with "1.IH" [OF \<open>i < n\<close> rn _ True] p1 show ?thesis by simp
    next
      case False
      then show ?thesis using "1.prems" \<open>i < n\<close> rn p1 by simp
    qed
  next
    case False
    then show ?thesis using "1.prems" by simp
  qed
qed

lemma read_columns_len:
  "read_columns i n s = Some (ok, s') \<Longrightarrow>
   map_option (\<lambda>rs. length (metadata rs)) (resultset s') =
   map_option (\<lambda>rs. length (metadata rs)) (resultset s)"
proof -
  assume r: "read_columns i n s = Some (ok, s')"
  let ?P = "\<lambda>t. map_option (\<lambda>rs. length (metadata rs)) (resultset t) =
      map_option (\<lambda>rs. length (metadata rs)) (resultset s)"
  have "\<And>j t b t'. read_next j t = Some (b, t') \<Longrightarrow> ?P t \<Longrightarrow> ?P t'"
    using read_next_len by metis
  from read_columns_pres [of ?P, OF this r] show ?thesis by simp
qed

lemma read_col_attributes_setup: "read_col_attributes i s = Some (ok, s') \<Longrightarrow> keeps_setup s s'"
  unfolding read_col_attributes_def
  by (auto simp: keeps_setup_def Let_def check_odbc_error_eq odbc_def
      split: prod.splits if_splits option.splits)

lemma read_next_setup: "read_next i s = Some (ok, s') \<Longrightarrow> keeps_setup s s'"
  unfolding read_next_def
  by (auto simp: keeps_setup_def Let_def check_odbc_error_eq odbc_def
      dest!: read_col_attributes_setup split: prod.splits if_splits option.splits)

lemma read_columns_setup: "read_columns i n s = Some (ok, s') \<Longrightarrow> keeps_setup s s'"
  using read_columns_pres [where P = "keeps_setup s"] read_next_setup keeps_setup_trans
  by (metis keeps_setup_def)

lemma start_reading_results_setup: "start_reading_results s = Some (ok, s') \<Longrightarrow> keeps_setup s s'"
  unfolding start_reading_results_def
  by (auto simp: keeps_setup_def Let_def check_odbc_error_eq odbc_def dest!: read_columns_setup
      simp del: read_columns.simps split: prod.splits if_splits option.splits)

lemma try_read_next_result_setup: "try_read_next_result s = Some (ok, s') \<Longrightarrow> keeps_setup s s'"
  unfolding try_read_next_result_def
  by (auto simp: keeps_setup_def Let_def check_odbc_error_eq return_odbc_error_eq odbc_def
      set_end_of_rows_def dest!: start_reading_results_setup
      split: prod.splits if_splits option.splits)

lemma start_reading_results_unfold:
  assumes "SQL_SUCCEEDED (r_rc (drv s (calls s) SQLNumResultCols))"
  shows "start_reading_results s =
    (case make_result_set (sint (r_count (drv s (calls s) SQLNumResultCols))) of
       None \<Rightarrow> None
     | Some rs \<Rightarrow>
         (case read_columns 0 (get_column_count rs)
                 (s\<lparr>calls := SQLNumResultCols # calls s, resultset := Some rs\<rparr>) of
            None \<Rightarrow> None
          | Some (ok2, s3) \<Rightarrow>
              if \<not> ok2 then Some (False, s3)
              else
                (let (r2, s4) = odbc SQLRowCount s3;
                     s5 = s4\<lparr>resultset := map_option (\<lambda>rs. rs\<lparr>rowcount := r_len r2\<rparr>)
                                            (resultset s4)\<rparr>
                 in Some (check_odbc_error (r_rc r2) s5))))"
  using assms by (simp add: start_reading_results_def odbc_def check_odbc_error_eq)

section \<open>Properties\<close>

text \<open>C8 (start_reading_results_columns):
  After a successful \<open>StartReadingResults\<close> the statement holds a result set with
  exactly as many column definitions as \<open>SQLNumResultCols\<close> reported: the column
  count of a result set is fixed when it is described.\<close>

theorem start_reading_results_columns:
  assumes run: "start_reading_results s = Some (True, s')"
  shows "\<exists>rs. resultset s' = Some rs \<and>
           get_column_count rs = nat (sint (r_count (drv s (calls s) SQLNumResultCols)))"
proof -
  let ?r = "drv s (calls s) SQLNumResultCols"
  have ok: "SQL_SUCCEEDED (r_rc ?r)"
  proof (rule ccontr)
    assume "\<not> SQL_SUCCEEDED (r_rc ?r)"
    then have "start_reading_results s = Some (False, snd (check_odbc_error (r_rc ?r)
                 (s\<lparr>calls := SQLNumResultCols # calls s\<rparr>)))"
      by (simp add: start_reading_results_def odbc_def check_odbc_error_eq)
    with run show False by simp
  qed
  note unf = start_reading_results_unfold [OF ok]
  obtain rs where mk: "make_result_set (sint (r_count ?r)) = Some rs"
    using run unf by (cases "make_result_set (sint (r_count ?r))") auto
  obtain ok2 s3 where rc: "read_columns 0 (get_column_count rs)
      (s\<lparr>calls := SQLNumResultCols # calls s, resultset := Some rs\<rparr>) = Some (ok2, s3)"
    using run unf mk by (cases "read_columns 0 (get_column_count rs)
      (s\<lparr>calls := SQLNumResultCols # calls s, resultset := Some rs\<rparr>)") auto
  have ok2: ok2 using run unf mk rc by (cases ok2) auto
  have fin: "map_option (\<lambda>rs. length (metadata rs)) (resultset s') =
             map_option (\<lambda>rs. length (metadata rs)) (resultset s3)"
    using run unf mk rc ok2
    by (auto simp: check_odbc_error_eq odbc_def Let_def option.map_comp o_def
        simp del: read_columns.simps split: if_splits)
  have "map_option (\<lambda>rs. length (metadata rs)) (resultset s3) = Some (length (metadata rs))"
    using read_columns_len [OF rc] by simp
  with fin show ?thesis
    using make_result_set_count [OF mk] by (cases "resultset s'") (auto simp: get_column_count_def)
qed

theorem start_reading_results_columns_witness:
  "\<exists>rs. resultset (snd (the (start_reading_results (new_statement (one_column_driver SQL_NO_DATA 3))))) = Some rs \<and> get_column_count rs = 1"
proof -
  obtain s' where run: "start_reading_results (new_statement (one_column_driver SQL_NO_DATA 3)) = Some (True, s')"
    by (simp add: start_reading_results_def new_statement_def one_column_driver_def odbc_def
     check_odbc_error_eq reply_rc_def make_result_set_def get_column_count_def read_next_def
     read_col_attributes_def read_wstring_def update_meta_def meta_at_def Let_def)
  have "nat (sint (r_count (drv (new_statement (one_column_driver SQL_NO_DATA 3)) (calls (new_statement (one_column_driver SQL_NO_DATA 3))) SQLNumResultCols))) = 1"
    by (simp add: new_statement_def one_column_driver_def reply_rc_def)
  with start_reading_results_columns [OF run] run show ?thesis by simp
qed

text \<open>C13 (try_read_row_reports_row):
  \<open>TryReadRow\<close> reports a row (returns true with end-of-rows false) exactly when
  the statement has a result set and the driver's \<open>SQLFetch\<close> succeeded; after
  \<open>SQL_NO_DATA\<close> or a failure it never reports a row.\<close>

theorem try_read_row_reports_row:
  assumes "try_read_row s = (ok, s')"
  shows "(ok \<and> end_of_rows_of s' = Some False) \<longleftrightarrow>
         (resultset s \<noteq> None \<and> SQL_SUCCEEDED (r_rc (drv s (calls s) SQLFetch)))"
  using assms
  by (auto simp: try_read_row_def odbc_def fetch_writes_def check_odbc_error_eq end_of_rows_of_def
      Let_def split: option.splits if_splits)

theorem try_read_row_reports_row_witness:
  "\<exists>ok s'. try_read_row ((new_statement (one_column_driver SQL_NO_DATA 3))\<lparr>resultset := make_result_set 1\<rparr>) = (ok, s') \<and>
     ok \<and> end_of_rows_of s' = Some False"
proof -
  let ?s = "(new_statement (one_column_driver SQL_NO_DATA 3))\<lparr>resultset := make_result_set 1\<rparr>"
  obtain ok s' where run: "try_read_row ?s = (ok, s')" by (cases "try_read_row ?s")
  have "resultset ?s \<noteq> None \<and> SQL_SUCCEEDED (r_rc (drv ?s (calls ?s) SQLFetch))"
    by (simp add: new_statement_def one_column_driver_def reply_rc_def make_result_set_def)
  with try_read_row_reports_row [OF run] run show ?thesis by blast
qed

text \<open>C27 (next_result_no_data):
  When \<open>SQLMoreResults\<close> answers \<open>SQL_NO_DATA\<close>, \<open>TryReadNextResult\<close> succeeds,
  sets end-of-results, keeps the result set and state, and closes the cursor exactly
  when the statement is prepared.\<close>

theorem next_result_no_data:
  assumes "statement_state s \<noteq> STATEMENT_CANCELLED"
    and "r_rc (drv s (calls s) SQLMoreResults) = SQL_NO_DATA"
  shows "\<exists>s'. try_read_next_result s = Some (True, s') \<and> end_of_results s' \<and>
     calls s' = (if prepared s then [SQLCloseCursor] else []) @ SQLMoreResults # calls s \<and>
     resultset s' = resultset s \<and> statement_state s' = statement_state s"
  using assms by (auto simp: try_read_next_result_def odbc_def)

theorem next_result_no_data_witness:
  "\<exists>s'. try_read_next_result (new_statement (one_column_driver SQL_NO_DATA 3)) = Some (True, s') \<and>
     end_of_results s' \<and> calls s' = [SQLMoreResults]"
proof -
  let ?s = "new_statement (one_column_driver SQL_NO_DATA 3)"
  have a: "statement_state ?s \<noteq> STATEMENT_CANCELLED" by (simp add: new_statement_def)
  have b: "r_rc (drv ?s (calls ?s) SQLMoreResults) = SQL_NO_DATA"
    by (simp add: new_statement_def one_column_driver_def reply_rc_def)
  from next_result_no_data [OF a b] show ?thesis by (auto simp: new_statement_def)
qed

text \<open>C28 (next_result_error_ignored):
  An error from \<open>SQLMoreResults\<close> is not reported: \<open>TryReadNextResult\<close> clears
  end-of-results and goes on to read a next result set as on success (the
  specification says a driver failure moves the statement to Error).\<close>

theorem next_result_error_ignored:
  assumes "statement_state s \<noteq> STATEMENT_CANCELLED"
    and "r_rc (drv s (calls s) SQLMoreResults) = SQL_ERROR"
  shows "try_read_next_result s =
           start_reading_results (s\<lparr>calls := SQLMoreResults # calls s, end_of_results := False\<rparr>)"
  using assms by (simp add: try_read_next_result_def odbc_def)

theorem next_result_error_ignored_witness:
  "\<exists>s'. try_read_next_result (new_statement (one_column_driver SQL_ERROR 3)) = Some (True, s') \<and>
     \<not> end_of_results s' \<and> statement_state s' = STATEMENT_CREATED"
proof -
  let ?s = "new_statement (one_column_driver SQL_ERROR 3)"
  have a: "statement_state ?s \<noteq> STATEMENT_CANCELLED" by (simp add: new_statement_def)
  have b: "r_rc (drv ?s (calls ?s) SQLMoreResults) = SQL_ERROR"
    by (simp add: new_statement_def one_column_driver_def reply_rc_def)
  have "\<exists>s'. start_reading_results (?s\<lparr>calls := SQLMoreResults # calls ?s, end_of_results := False\<rparr>) =
          Some (True, s') \<and> \<not> end_of_results s' \<and> statement_state s' = STATEMENT_CREATED"
    by (simp add: start_reading_results_def new_statement_def one_column_driver_def odbc_def
     check_odbc_error_eq reply_rc_def make_result_set_def get_column_count_def read_next_def
     read_col_attributes_def read_wstring_def update_meta_def meta_at_def Let_def)
  with next_result_error_ignored [OF a b] show ?thesis by simp
qed


text \<open>C29 (type_name_byte_length):
  \<open>readColAttributes\<close> takes the type name with the length \<open>SQLColAttributeW\<close>
  reports, which is a byte count: for a type name of two or more characters the
  read runs past what the driver wrote, so the column description has no defined
  result.\<close>

theorem type_name_byte_length:
  assumes "drv s (calls s) (SQLColAttribute (Suc i) SQL_DESC_TYPE_NAME) = r"
    and "SQL_SUCCEEDED (r_rc r)" and "r_text r = tn @ [0]"
    and "sint (r_count r) = 2 * int (length tn)" and "2 \<le> length tn"
  shows "read_col_attributes i s = None"
proof -
  have "\<not> nat (2 * int (length tn)) \<le> length (tn @ [0])" using assms(5) by simp
  then show ?thesis
    using assms by (simp add: read_col_attributes_def odbc_def check_odbc_error_eq read_wstring_def)
qed

theorem type_name_byte_length_witness: "read_col_attributes 0 (new_statement (one_column_driver SQL_NO_DATA 6)) = None"
proof -
  let ?s = "new_statement (one_column_driver SQL_NO_DATA 6)"
  let ?r = "drv ?s (calls ?s) (SQLColAttribute (Suc 0) SQL_DESC_TYPE_NAME)"
  have "SQL_SUCCEEDED (r_rc ?r)" "r_text ?r = [105, 110, 116] @ [0]"
    "sint (r_count ?r) = 2 * int (length [105::wchar, 110, 116])" "2 \<le> length [105::wchar, 110, 116]"
    by (simp_all add: new_statement_def one_column_driver_def reply_rc_def)
  from type_name_byte_length [OF refl this] show ?thesis .
qed

end
