(* ===== verification/Decode.thy ===== *)
theory Decode
  imports Results
begin

text \<open>
  Reading one column of the current row (\<open>src/src/OdbcStatement.cpp\<close>): the switch
  of \<open>dispatch\<close> on the column's SQL type (\<open>decoder_of\<close>), one decoder per branch
  (\<open>d_Variant\<close>, \<open>d_String\<close>, \<open>d_Bit\<close>, \<open>d_Integer\<close>, \<open>d_Decimal\<close>, \<open>d_Binary\<close>,
  \<open>d_TimestampOffset\<close>, \<open>d_Time\<close>, \<open>d_Timestamp\<close>), the \<open>getData*\<close> helpers that pull
  a value with \<open>SQLGetData\<close> into a fresh storage, the string readers (\<open>Lob\<close>,
  \<open>boundedString\<close>, \<open>reservedString\<close>, \<open>TryReadString\<close>) and \<open>TryReadColumn\<close>.
  A prepared statement reads the storage bound at prepare time instead of calling
  the driver. \<open>d_Variant\<close> re-dispatches on the type the driver reports, which may
  be a variant again: \<open>dispatch\<close> is a \<open>partial_function (option)\<close>.
\<close>

section \<open>Constants (\<open>OdbcStatement.h\<close>)\<close>

abbreviation LOB_PACKET_SIZE :: nat where "LOB_PACKET_SIZE \<equiv> 8192"
abbreviation SQL_SERVER_MAX_STRING_SIZE :: int where "SQL_SERVER_MAX_STRING_SIZE \<equiv> 8000"

section \<open>The current column\<close>

text \<open>\<open>resultset->SetColumn(c)\<close>.\<close>

definition set_column :: "column \<Rightarrow> stmt \<Rightarrow> stmt" where
  "set_column c s = s\<lparr>resultset := map_option (\<lambda>rs. rs\<lparr>column := Some c\<rparr>) (resultset s)\<rparr>"

definition current_column :: "stmt \<Rightarrow> column option" where
  "current_column s = (case resultset s of Some rs \<Rightarrow> column rs | None \<Rightarrow> None)"

text \<open>\<open>Column::More()\<close> (\<open>Column.h\<close>): the continuation flag of a chunked string or
  binary value; every other column is complete.\<close>

fun column_more :: "column \<Rightarrow> bool" where
  "column_more (StringColumn _ mr) = mr"
| "column_more (BinaryColumn _ mr) = mr"
| "column_more _ = False"

text \<open>\<open>GetColumnValue\<close>: the current column's value and its \<open>More()\<close> flag; a null
  result set or no current column is dereferenced, with no defined result.\<close>

definition get_column_value :: "stmt \<Rightarrow> (column \<times> bool) option" where
  "get_column_value s =
     (case resultset s of
        None \<Rightarrow> None
      | Some rs \<Rightarrow> map_option (\<lambda>c. (c, column_more c)) (column rs))"

section \<open>Pulling a value with \<open>SQLGetData\<close>\<close>

text \<open>
  The common shape of \<open>getDataLong\<close>, \<open>getDataBit\<close>, \<open>getDataDecimal\<close>,
  \<open>getDataTimestamp\<close> and \<open>getDataTimestampOffset\<close>: reserve a one-element storage,
  \<open>SQLGetData\<close> into it with the given C type and byte length, check the return
  code, and set a null column on \<open>SQL_NULL_DATA\<close>, otherwise the column read from the
  storage the driver wrote into.
\<close>

definition get_data_into ::
  "sqlsmallint \<Rightarrow> nat \<Rightarrow> datum_storage \<Rightarrow> (datum_storage \<Rightarrow> column option) \<Rightarrow>
   nat \<Rightarrow> stmt \<Rightarrow> (bool \<times> stmt) option" where
  "get_data_into ct len st mk col s =
     (let (r, s1) = odbc (SQLGetData (col + 1) ct len) s;
          (ok, s2) = check_odbc_error (r_rc r) s1
      in if \<not> ok then Some (False, s2)
         else if r_len r = SQL_NULL_DATA then Some (True, set_column NullColumn s2)
         else map_option (\<lambda>c. (True, set_column c s2)) (mk (write_buffer (r_data r) st)))"

definition zero_timestamp :: timestamp_offset where
  "zero_timestamp = \<lparr>ts_year = 0, ts_month = 0, ts_day = 0, ts_hour = 0, ts_minute = 0,
     ts_second = 0, ts_fraction = 0, ts_tz_hour = 0, ts_tz_minute = 0\<rparr>"

definition get_data_long :: "nat \<Rightarrow> stmt \<Rightarrow> (bool \<times> stmt) option" where
  "get_data_long = get_data_into SQL_C_SLONG 8 (StorageInt64 (zeros 1)) int_column"

definition get_data_bit :: "nat \<Rightarrow> stmt \<Rightarrow> (bool \<times> stmt) option" where
  "get_data_bit = get_data_into SQL_C_BIT 1 (StorageChars (zeros 1)) bool_column"

definition get_data_decimal :: "nat \<Rightarrow> stmt \<Rightarrow> (bool \<times> stmt) option" where
  "get_data_decimal = get_data_into SQL_C_DOUBLE 8 (StorageDouble (zeros 1)) number_column"

definition get_data_timestamp :: "nat \<Rightarrow> stmt \<Rightarrow> (bool \<times> stmt) option" where
  "get_data_timestamp =
     get_data_into SQL_C_TIMESTAMP 16 (StorageTimestamp [zero_timestamp]) timestamp_column"

definition get_data_timestamp_offset :: "nat \<Rightarrow> stmt \<Rightarrow> (bool \<times> stmt) option" where
  "get_data_timestamp_offset =
     get_data_into SQL_C_DEFAULT 20 (StorageTimestampOffset [zero_timestamp]) timestamp_column"

text \<open>\<open>getDataBinary\<close>: a 2048-byte packet; on \<open>SQL_SUCCESS_WITH_INFO\<close> the SQL state of
  the first diagnostic record decides whether more data remains (\<open>01004\<close>, string
  data right-truncated).\<close>

definition state_01004 :: "wchar list" where
  "state_01004 = [48, 49, 48, 48, 52, 0]"

definition get_data_binary :: "nat \<Rightarrow> stmt \<Rightarrow> (bool \<times> stmt) option" where
  "get_data_binary col s =
     (let (r, s1) = odbc (SQLGetData (col + 1) SQL_C_BINARY 2048) s;
          (ok, s2) = check_odbc_error (r_rc r) s1
      in if \<not> ok then Some (False, s2)
         else if r_len r = SQL_NULL_DATA then Some (True, set_column NullColumn s2)
         else
           (let st = write_buffer (r_data r) (StorageChars (zeros 2048))
            in if r_rc r = SQL_SUCCESS_WITH_INFO then
                 (let (r2, s3) = odbc SQLGetDiagRec s2;
                      (ok2, s4) = check_odbc_error (r_rc r2) s3
                  in if \<not> ok2 then Some (False, s4)
                     else
                       (let more = (take 6 (r_text r2) = state_01004);
                            amount = (if more then 2048 else unat (r_len r))
                        in map_option (\<lambda>c. (True, set_column c s4)) (binary_column st amount more)))
               else map_option (\<lambda>c. (True, set_column c s2))
                      (binary_column st (unat (r_len r)) False)))"

section \<open>Prepared statements: reading the bound storage\<close>

text \<open>\<open>_preparedStorage->atIndex(column).getStorage()\<close> read by a column constructor;
  no prepared storage, a column out of range or a storage of another type has no
  defined result.\<close>

definition prepared_column ::
  "(datum_storage \<Rightarrow> column option) \<Rightarrow> nat \<Rightarrow> stmt \<Rightarrow> (bool \<times> stmt) option" where
  "prepared_column mk col s =
     (case prepared_storage s of
        None \<Rightarrow> None
      | Some ps \<Rightarrow>
          (case at_index ps col of
             None \<Rightarrow> None
           | Some d \<Rightarrow> map_option (\<lambda>c. (True, set_column c s)) (mk (storage d))))"

section \<open>The decoders\<close>

text \<open>\<open>d_Integer\<close>, \<open>d_Bit\<close>, \<open>d_Timestamp\<close>, \<open>d_TimestampOffset\<close>: the result of the
  \<open>getData*\<close> call is dropped and the decoder returns true. \<open>d_Decimal\<close> returns it.\<close>

definition d_integer :: "nat \<Rightarrow> stmt \<Rightarrow> (bool \<times> stmt) option" where
  "d_integer col s =
     (if prepared s then prepared_column int_column col s
      else map_option (\<lambda>(_, s'). (True, s')) (get_data_long col s))"

definition d_bit :: "nat \<Rightarrow> stmt \<Rightarrow> (bool \<times> stmt) option" where
  "d_bit col s =
     (if prepared s then prepared_column bool_column col s
      else map_option (\<lambda>(_, s'). (True, s')) (get_data_bit col s))"

definition d_decimal :: "nat \<Rightarrow> stmt \<Rightarrow> (bool \<times> stmt) option" where
  "d_decimal col s =
     (if prepared s then prepared_column number_column col s else get_data_decimal col s)"

definition d_timestamp :: "nat \<Rightarrow> stmt \<Rightarrow> (bool \<times> stmt) option" where
  "d_timestamp col s =
     (if prepared s then prepared_column timestamp_column col s
      else map_option (\<lambda>(_, s'). (True, s')) (get_data_timestamp col s))"

definition d_timestamp_offset :: "nat \<Rightarrow> stmt \<Rightarrow> (bool \<times> stmt) option" where
  "d_timestamp_offset col s =
     (if prepared s then prepared_column timestamp_column col s
      else map_option (\<lambda>(_, s'). (True, s')) (get_data_timestamp_offset col s))"

text \<open>\<open>d_Binary\<close>: a prepared column's length is its indicator, read as a \<open>size_t\<close>.\<close>

definition d_binary :: "nat \<Rightarrow> stmt \<Rightarrow> (bool \<times> stmt) option" where
  "d_binary col s =
     (if prepared s then
        (case prepared_storage s of
           None \<Rightarrow> None
         | Some ps \<Rightarrow>
             (case at_index ps col of
                None \<Rightarrow> None
              | Some d \<Rightarrow>
                  (case ind_vec d of
                     [] \<Rightarrow> None
                   | ind # _ \<Rightarrow>
                       map_option (\<lambda>c. (True, set_column c s))
                         (binary_column (storage d) (unat ind) False))))
      else get_data_binary col s)"

text \<open>\<open>d_Time\<close>: a \<open>SQL_SS_TIME2_STRUCT\<close> (zeroed before the call) placed on the
  default date 1900-01-01; it has no prepared branch.\<close>

definition d_time :: "nat \<Rightarrow> stmt \<Rightarrow> (bool \<times> stmt) option" where
  "d_time col s =
     (let (r, s1) = odbc (SQLGetData (col + 1) SQL_C_DEFAULT 12) s;
          (ok, s2) = check_odbc_error (r_rc r) s1
      in if \<not> ok then Some (False, s2)
         else if r_len r = SQL_NULL_DATA then Some (True, set_column NullColumn s2)
         else
           (let t = (case r_data r of WTime2 t \<Rightarrow> t
                       | _ \<Rightarrow> \<lparr>t2_hour = 0, t2_minute = 0, t2_second = 0, t2_fraction = 0\<rparr>)
            in Some (True, set_column (TimestampColumn
                 \<lparr>ts_year = 1900, ts_month = 1, ts_day = 1, ts_hour = t2_hour t,
                  ts_minute = t2_minute t, ts_second = t2_second t, ts_fraction = t2_fraction t,
                  ts_tz_hour = 0, ts_tz_minute = 0\<rparr>) s2)))"

section \<open>Strings\<close>

text \<open>
  \<open>Lob\<close>: one packet of at most \<open>LOB_PACKET_SIZE\<close> characters into a buffer of one
  more (the driver's terminator). The indicator is the length in bytes of what
  remained before the call, or \<open>SQL_NO_TOTAL\<close>; divided by \<open>sizeof(uint16_t)\<close> it is
  an unsigned division. More data remains when the remainder does not fit the packet;
  then the storage keeps the full packet, otherwise it is cut to what was read.
\<close>

definition lob :: "nat \<Rightarrow> stmt \<Rightarrow> (bool \<times> stmt) option" where
  "lob col s =
     (let n = LOB_PACKET_SIZE + 1;
          (r, s1) = odbc (SQLGetData (col + 1) SQL_C_WCHAR (2 * n)) s;
          (ok, s2) = check_odbc_error (r_rc r) s1
      in if \<not> ok then Some (False, s2)
         else if r_len r = SQL_NULL_DATA then Some (True, set_column NullColumn s2)
         else
           (let buf = (case write_buffer (r_data r) (StorageUint16 (zeros n)) of
                         StorageUint16 cs \<Rightarrow> cs | _ \<Rightarrow> []);
                more = (r_len r = SQL_NO_TOTAL \<or> LOB_PACKET_SIZE < unat (r_len r) div 2);
                kept = (if more then resize LOB_PACKET_SIZE buf
                        else resize (unat (r_len r) div 2) buf)
            in Some (True, set_column (StringColumn kept more) s2)))"

text \<open>\<open>boundedString\<close>: one read into a buffer of the display size plus one. The
  length is the indicator divided unsigned by two; the asserts on it are not compiled
  in release builds, and a \<open>resize\<close> past \<open>std::vector<uint16_t>::max_size()\<close>
  (\<open>PTRDIFF_MAX / 2\<close> on a 64-bit library, reached by \<open>SQL_NO_TOTAL\<close>) throws
  \<open>std::length_error\<close>, which has no defined result here.\<close>

abbreviation uint16_vector_max_size :: nat where
  "uint16_vector_max_size \<equiv> 2 ^ 62 - 1"

definition bounded_string :: "sqllen \<Rightarrow> nat \<Rightarrow> stmt \<Rightarrow> (bool \<times> stmt) option" where
  "bounded_string display_size col s =
     (let n = unat (display_size + 1);
          (r, s1) = odbc (SQLGetData (col + 1) SQL_C_WCHAR (2 * n)) s;
          (ok, s2) = check_odbc_error (r_rc r) s1
      in if \<not> ok then Some (False, s2)
         else if r_len r = SQL_NULL_DATA then Some (True, set_column NullColumn s2)
         else
           (let buf = (case write_buffer (r_data r) (StorageUint16 (zeros n)) of
                         StorageUint16 cs \<Rightarrow> cs | _ \<Rightarrow> []);
                len = unat (r_len r) div 2
            in if len \<le> uint16_vector_max_size
               then Some (True, set_column (StringColumn (resize len buf) False) s2)
               else None))"

text \<open>\<open>reservedString\<close>: the bound storage of a prepared statement, its length the
  indicator divided by two (an unsigned division of the \<open>SQLLEN\<close>).\<close>

definition reserved_string :: "nat \<Rightarrow> stmt \<Rightarrow> (bool \<times> stmt) option" where
  "reserved_string col s =
     (case prepared_storage s of
        None \<Rightarrow> None
      | Some ps \<Rightarrow>
          (case at_index ps col of
             None \<Rightarrow> None
           | Some d \<Rightarrow>
               (case ind_vec d of
                  [] \<Rightarrow> None
                | ind # _ \<Rightarrow>
                    map_option (\<lambda>c. (True, set_column c s))
                      (string_column (storage d) (unat (ind div 2)) False))))"

text \<open>The display sizes \<open>TryReadString\<close> treats as unbounded: 0, \<open>INT_MAX\<close>,
  \<open>INT_MAX >> 1\<close> and \<open>ULONG_MAX - 1\<close> with a 32-bit \<open>unsigned long\<close>.\<close>

definition lob_display_size :: "sqllen \<Rightarrow> bool" where
  "lob_display_size ds \<longleftrightarrow> ds = 0 \<or> ds = 2147483647 \<or> ds = 1073741823 \<or> ds = 4294967294"

text \<open>\<open>TryReadString\<close>: a display size that is neither unbounded nor between 1 and
  \<open>SQL_SERVER_MAX_STRING_SIZE\<close> fails the assertion; past it (release builds) the
  call returns false with no error recorded.\<close>

definition try_read_string :: "nat \<Rightarrow> stmt \<Rightarrow> (bool \<times> stmt) option" where
  "try_read_string col s =
     (let (r, s1) = odbc (SQLColAttribute (col + 1) SQL_DESC_DISPLAY_SIZE) s;
          (ok, s2) = check_odbc_error (r_rc r) s1;
          ds = r_len r
      in if \<not> ok then Some (False, s2)
         else if lob_display_size ds then lob col s2
         else if 1 \<le> sint ds \<and> sint ds \<le> SQL_SERVER_MAX_STRING_SIZE then
           (if prepared s2 then reserved_string col s2 else bounded_string ds col s2)
         else Some (False, s2))"

text \<open>\<open>d_String\<close>: \<open>TryReadString\<close> with its result returned.\<close>

definition d_string :: "nat \<Rightarrow> stmt \<Rightarrow> (bool \<times> stmt) option" where
  "d_string col s = try_read_string col s"

section \<open>Dispatch\<close>

datatype decoder =
    DVariant | DString | DBit | DInteger | DDecimal | DBinary | DTimestampOffset | DTime | DTimestamp

text \<open>The labels of the \<open>switch\<close> in \<open>dispatch\<close>; everything else is read as a string.\<close>

definition decoder_of :: "sqlsmallint \<Rightarrow> decoder" where
  "decoder_of t =
     (if t = SQL_SS_VARIANT then DVariant
      else if t \<in> {SQL_CHAR, SQL_VARCHAR, SQL_LONGVARCHAR, SQL_WCHAR, SQL_WVARCHAR,
                   SQL_WLONGVARCHAR, SQL_SS_XML, SQL_GUID} then DString
      else if t = SQL_BIT then DBit
      else if t \<in> {SQL_SMALLINT, SQL_TINYINT, SQL_INTEGER, SQL_C_SLONG, SQL_C_SSHORT,
                   SQL_C_STINYINT, SQL_C_ULONG, SQL_C_USHORT, SQL_C_UTINYINT} then DInteger
      else if t \<in> {SQL_DECIMAL, SQL_NUMERIC, SQL_REAL, SQL_FLOAT, SQL_DOUBLE, SQL_BIGINT} then DDecimal
      else if t \<in> {SQL_BINARY, SQL_VARBINARY, SQL_LONGVARBINARY, SQL_SS_UDT} then DBinary
      else if t = SQL_SS_TIMESTAMPOFFSET then DTimestampOffset
      else if t \<in> {SQL_TYPE_TIME, SQL_SS_TIME2} then DTime
      else if t \<in> {SQL_TIMESTAMP, SQL_DATETIME, SQL_TYPE_TIMESTAMP, SQL_TYPE_DATE} then DTimestamp
      else DString)"

text \<open>
  \<open>dispatch\<close> with \<open>d_Variant\<close> and \<open>TryReadColumn\<close> inlined in its variant branch:
  find the length and the underlying type, store the type (cast to \<open>SQLSMALLINT\<close>)
  into the column's definition, and read the column again.
\<close>

partial_function (option) dispatch :: "sqlsmallint \<Rightarrow> nat \<Rightarrow> stmt \<Rightarrow> (bool \<times> stmt) option" where
  "dispatch t col s =
     (case decoder_of t of
        DVariant \<Rightarrow>
          (let (r, s1) = odbc (SQLGetData (col + 1) SQL_C_BINARY 0) s;
               (ok, s2) = check_odbc_error (r_rc r) s1
           in if \<not> ok then Some (False, s2)
              else
                (let (r2, s3) = odbc (SQLColAttribute (col + 1) SQL_CA_SS_VARIANT_TYPE) s2;
                     (ok2, s4) = check_odbc_error (r_rc r2) s3
                 in if \<not> ok2 then Some (False, s4)
                    else
                      (let s5 = update_meta col (\<lambda>d. d\<lparr>data_type := scast (r_len r2)\<rparr>) s4
                       in case meta_at col s5 of
                            None \<Rightarrow> None
                          | Some d \<Rightarrow> dispatch (data_type d) col s5)))
      | DString \<Rightarrow> d_string col s
      | DBit \<Rightarrow> d_bit col s
      | DInteger \<Rightarrow> d_integer col s
      | DDecimal \<Rightarrow> d_decimal col s
      | DBinary \<Rightarrow> d_binary col s
      | DTimestampOffset \<Rightarrow> d_timestamp_offset col s
      | DTime \<Rightarrow> d_time col s
      | DTimestamp \<Rightarrow> d_timestamp col s)"

text \<open>\<open>TryReadColumn\<close>: dispatch on the column's described type; a column out of
  range fails the assertion and has no defined result.\<close>

definition try_read_column :: "nat \<Rightarrow> stmt \<Rightarrow> (bool \<times> stmt) option" where
  "try_read_column col s =
     (case meta_at col s of None \<Rightarrow> None | Some d \<Rightarrow> dispatch (data_type d) col s)"

text \<open>The JavaScript type of the column object each decoder creates (\<open>Column.h\<close>:
  \<open>StringColumn\<close>, \<open>BoolColumn\<close>, \<open>IntColumn\<close>, \<open>NumberColumn\<close>,
  \<open>BinaryColumn\<close>, \<open>TimestampColumn\<close>); a variant takes the type of its value.\<close>

definition decoder_js_type :: "decoder \<Rightarrow> string" where
  "decoder_js_type k =
     (case k of DString \<Rightarrow> ''text'' | DBit \<Rightarrow> ''boolean'' | DInteger \<Rightarrow> ''number''
      | DDecimal \<Rightarrow> ''number'' | DBinary \<Rightarrow> ''binary'' | DTimestampOffset \<Rightarrow> ''date''
      | DTime \<Rightarrow> ''date'' | DTimestamp \<Rightarrow> ''date'' | DVariant \<Rightarrow> ''text'')"

section \<open>Example drivers and statements\<close>

text \<open>A driver that answers every \<open>SQLGetData\<close> with one reply and every
  \<open>SQLColAttribute\<close> with another, and a statement positioned on a row of a
  one-column result set of the given type (unprepared, or prepared with one bound
  column).\<close>

definition column_driver :: "reply \<Rightarrow> reply \<Rightarrow> driver" where
  "column_driver gd ca h c =
     (case c of SQLGetData _ _ _ \<Rightarrow> gd | SQLColAttribute _ _ \<Rightarrow> ca | _ \<Rightarrow> reply_rc SQL_SUCCESS)"

definition reading_statement :: "sqlsmallint \<Rightarrow> driver \<Rightarrow> stmt" where
  "reading_statement t d =
     (new_statement d)\<lparr>statement_state := STATEMENT_FETCHING,
        resultset := Some \<lparr>metadata = [default_definition\<lparr>data_type := t\<rparr>], rowcount = 0,
                           end_of_rows = False, column = None\<rparr>\<rparr>"

definition prepared_reading :: "sqlsmallint \<Rightarrow> driver \<Rightarrow> bound_datum \<Rightarrow> stmt" where
  "prepared_reading t d b =
     (reading_statement t d)\<lparr>prepared := True,
        prepared_storage := Some (new_bound_datum_set\<lparr>bindings := [b]\<rparr>)\<rparr>"

section \<open>Reading a column\<close>

declare d_string_def [simp]

lemma get_column_value_current [simp]:
  "get_column_value s = map_option (\<lambda>c. (c, column_more c)) (current_column s)"
  by (simp add: get_column_value_def current_column_def split: option.splits)

lemma get_data_into_eq:
  "get_data_into ct len st mk col s =
     (let c = SQLGetData (col + 1) ct len; r = drv s (calls s) c; s1 = s\<lparr>calls := c # calls s\<rparr>
      in if \<not> SQL_SUCCEEDED (r_rc r) then Some (False, snd (check_odbc_error (r_rc r) s1))
         else if r_len r = SQL_NULL_DATA then Some (True, set_column NullColumn s1)
         else map_option (\<lambda>c. (True, set_column c s1)) (mk (write_buffer (r_data r) st)))"
  by (simp add: get_data_into_def odbc_def check_odbc_error_eq Let_def)

lemma current_set_column [simp]:
  "current_column (set_column c s) = map_option (\<lambda>_. c) (resultset s)"
  by (cases "resultset s") (simp_all add: set_column_def current_column_def)

lemma current_column_calls [simp]:
  "current_column (s\<lparr>calls := h\<rparr>) = current_column s"
  by (simp add: current_column_def)

lemma current_column_check [simp]:
  "current_column (snd (check_odbc_error rc s)) = current_column s"
  by (simp add: check_odbc_error_eq current_column_def)

lemma meta_at_set_column [simp]: "meta_at i (set_column c s) = meta_at i s"
  by (cases "resultset s") (simp_all add: meta_at_def set_column_def)

lemma set_column_calls [simp]: "calls (set_column c s) = calls s"
  by (simp add: set_column_def)

lemma set_column_drv [simp]: "drv (set_column c s) = drv s"
  by (simp add: set_column_def)

lemma state_check_fail:
  "\<not> SQL_SUCCEEDED rc \<Longrightarrow> statement_state (snd (check_odbc_error rc s)) = STATEMENT_ERROR"
  by (simp add: check_odbc_error_eq)

lemma prepared_column_null:
  "prepared_column mk col s = Some (b, s') \<Longrightarrow> current_column s' = Some NullColumn \<Longrightarrow>
   \<exists>st. mk st = Some NullColumn"
  by (cases "resultset s") (auto simp: prepared_column_def split: option.splits)

lemma int_column_not_null [simp]: "int_column st \<noteq> Some NullColumn"
  by (cases st rule: int_column.cases) auto
lemma bool_column_not_null [simp]: "bool_column st \<noteq> Some NullColumn"
  by (cases st rule: bool_column.cases) auto
lemma number_column_not_null [simp]: "number_column st \<noteq> Some NullColumn"
  by (cases st rule: number_column.cases) auto
lemma timestamp_column_not_null [simp]: "timestamp_column st \<noteq> Some NullColumn"
  by (cases st rule: timestamp_column.cases) auto
lemma binary_column_not_null [simp]: "binary_column st n m \<noteq> Some NullColumn"
  by (cases "(st, n, m)" rule: binary_column.cases) auto

lemma d_binary_prepared_not_null:
  "prepared s \<Longrightarrow> d_binary col s = Some (b, s') \<Longrightarrow> resultset s \<noteq> None \<Longrightarrow>
   current_column s' \<noteq> Some NullColumn"
  by (auto simp: d_binary_def split: option.splits list.splits )

text \<open>C30 (prepared_never_null):
  On a prepared statement the bit, integer, decimal, binary, timestamp and
  timestamp-offset decoders read the storage bound at prepare time and never produce a
  null column, whatever the column's indicator holds: a NULL value is reported as the
  previous contents of the buffer (the specification says \<open>SQL_NULL_DATA\<close> gives
  a null column). \<open>d_Time\<close> has no prepared branch and is not covered.\<close>

lemma prepared_never_null:
  assumes "prepared s" "resultset s \<noteq> None"
    and "decoder_of t \<in> {DBit, DInteger, DDecimal, DBinary, DTimestampOffset, DTimestamp}"
    and "dispatch t col s = Some (b, s')"
  shows "current_column s' \<noteq> Some NullColumn"
  using assms(3,4)
proof (cases "decoder_of t")
  case DBinary
  then show ?thesis using assms d_binary_prepared_not_null by (simp add: dispatch.simps)
qed (insert assms, auto simp: dispatch.simps d_bit_def d_integer_def d_decimal_def
        d_timestamp_def d_timestamp_offset_def dest!: prepared_column_null)

text \<open>C31 (unprepared_null):
  On an unprepared statement every decoder other than the variant one reads the
  value with \<open>SQLGetData\<close> and, when the driver reports \<open>SQL_NULL_DATA\<close>, sets a
  null column and succeeds (for strings, when the display size is a LOB size or lies
  in \<open>[1, 8000]\<close>, the sizes \<open>TryReadString\<close> handles).\<close>

lemma unprepared_null:
  assumes "\<not> prepared s" "resultset s \<noteq> None"
    and "decoder_of t \<in> {DString, DBit, DInteger, DDecimal, DBinary, DTimestampOffset, DTime, DTimestamp}"
    and "\<forall>h n ct len. SQL_SUCCEEDED (r_rc (drv s h (SQLGetData n ct len))) \<and>
                      r_len (drv s h (SQLGetData n ct len)) = SQL_NULL_DATA"
    and "\<forall>h. SQL_SUCCEEDED (r_rc (drv s h (SQLColAttribute (col + 1) SQL_DESC_DISPLAY_SIZE))) \<and>
           (lob_display_size (r_len (drv s h (SQLColAttribute (col + 1) SQL_DESC_DISPLAY_SIZE))) \<or>
            1 \<le> sint (r_len (drv s h (SQLColAttribute (col + 1) SQL_DESC_DISPLAY_SIZE))) \<and>
            sint (r_len (drv s h (SQLColAttribute (col + 1) SQL_DESC_DISPLAY_SIZE))) \<le> SQL_SERVER_MAX_STRING_SIZE)"
  shows "\<exists>s'. dispatch t col s = Some (True, s') \<and> current_column s' = Some NullColumn"
  using assms(3)
proof (cases "decoder_of t")
  case DString
  then show ?thesis using assms
    by (auto simp: dispatch.simps try_read_string_def lob_def bounded_string_def odbc_def
        check_odbc_error_eq Let_def simp del: SQL_SUCCEEDED_iff)
qed (insert assms, auto simp: dispatch.simps d_bit_def d_integer_def d_decimal_def d_binary_def
        d_timestamp_def d_timestamp_offset_def d_time_def get_data_long_def get_data_bit_def
        get_data_decimal_def get_data_timestamp_def get_data_timestamp_offset_def
        get_data_binary_def get_data_into_eq odbc_def check_odbc_error_eq Let_def
        simp del: SQL_SUCCEEDED_iff)

text \<open>C32 (get_data_long_zero_extends):
  \<open>getDataLong\<close> reads a 32-bit \<open>SQL_C_SLONG\<close> into the low half of a zeroed
  64-bit integer: the column holds the unsigned reading of the driver's value, so a
  negative integer is reported as that value plus \<open>2^32\<close>.\<close>

lemma get_data_long_zero_extends:
  assumes "\<not> prepared s" "resultset s \<noteq> None" "decoder_of t = DInteger"
    and "drv s (calls s) (SQLGetData (col + 1) SQL_C_SLONG 8) = r"
    and "SQL_SUCCEEDED (r_rc r)" "r_len r \<noteq> SQL_NULL_DATA" "r_data r = WLong x"
  shows "\<exists>s'. dispatch t col s = Some (True, s') \<and> current_column s' = Some (IntColumn (uint x))"
  using assms
  by (auto simp: dispatch.simps d_integer_def get_data_long_def get_data_into_eq Let_def
      simp del: SQL_SUCCEEDED_iff)

text \<open>C33 (getdata_failure_swallowed):
  \<open>d_Integer\<close>, \<open>d_Bit\<close>, \<open>d_Timestamp\<close> and \<open>d_TimestampOffset\<close> drop the
  result of their \<open>getData*\<close> call: when \<open>SQLGetData\<close> fails the statement is moved
  to the error state, yet the read reports success and the current column is left
  as it was (the previous column's value).\<close>

lemma getdata_failure_swallowed:
  assumes "\<not> prepared s" "decoder_of t \<in> {DBit, DInteger, DTimestampOffset, DTimestamp}"
    and "\<forall>ct len. \<not> SQL_SUCCEEDED (r_rc (drv s (calls s) (SQLGetData (col + 1) ct len)))"
  shows "\<exists>s'. dispatch t col s = Some (True, s') \<and> statement_state s' = STATEMENT_ERROR \<and>
           current_column s' = current_column s"
proof -
  have f: "\<not> SQL_SUCCEEDED (r_rc (drv s (calls s) (SQLGetData (Suc col) ct len)))" for ct len
    using assms(3) by simp
  show ?thesis
    using assms(2)
    by (auto simp: dispatch.simps d_bit_def d_integer_def d_timestamp_def d_timestamp_offset_def
        get_data_long_def get_data_bit_def get_data_timestamp_def get_data_timestamp_offset_def
        get_data_into_eq Let_def assms(1) f state_check_fail simp del: SQL_SUCCEEDED_iff)
qed

lemma meta_at_update_meta [simp]:
  "meta_at i (update_meta i f s) = map_option f (meta_at i s)"
  by (cases "resultset s") (simp_all add: meta_at_def update_meta_def)

lemma meta_at_calls [simp]: "meta_at i (s\<lparr>calls := h\<rparr>) = meta_at i s"
  by (simp add: meta_at_def)

text \<open>C34 (reserved_string_null_undefined):
  \<open>reservedString\<close> divides the indicator by two as an unsigned number: for a
  NULL string of a prepared statement (indicator \<open>SQL_NULL_DATA\<close> = -1) the length
  is \<open>2^63 - 1\<close>, past the end of the bound buffer, and the read has no defined
  result.\<close>

lemma reserved_string_null_undefined:
  assumes "prepared s" "decoder_of t = DString"
    and "drv s (calls s) (SQLColAttribute (col + 1) SQL_DESC_DISPLAY_SIZE) = r"
    and "SQL_SUCCEEDED (r_rc r)" "\<not> lob_display_size (r_len r)"
    and "1 \<le> sint (r_len r)" "sint (r_len r) \<le> SQL_SERVER_MAX_STRING_SIZE"
    and "prepared_storage s = Some ps" "at_index ps col = Some d"
    and "ind_vec d = SQL_NULL_DATA # rest" "storage d = StorageUint16 cs" "length cs < 2 ^ 63 - 1"
  shows "unat (SQL_NULL_DATA div (2 :: 64 word)) = 2 ^ 63 - 1 \<and> dispatch t col s = None"
proof
  show u: "unat (SQL_NULL_DATA div (2 :: 64 word)) = 2 ^ 63 - 1"
    by (simp add: unat_div)
  show "dispatch t col s = None"
    using assms u
    by (simp add: dispatch.simps try_read_string_def reserved_string_def odbc_def
        check_odbc_error_eq Let_def del: SQL_SUCCEEDED_iff)
qed

lemma scast_variant [simp]: "(scast (- 150 :: sqllen) :: sqlsmallint) = SQL_SS_VARIANT"
  by simp

text \<open>C35 (variant_forever_undefined):
  When the driver describes a \<open>sql_variant\<close> value as being of type
  \<open>sql_variant\<close> again, \<open>d_Variant\<close> and \<open>TryReadColumn\<close> recurse without end:
  \<open>dispatch\<close> has no result.\<close>

lemma variant_forever_undefined:
  assumes "\<forall>h. SQL_SUCCEEDED (r_rc (drv s h (SQLGetData (col + 1) SQL_C_BINARY 0))) \<and>
               SQL_SUCCEEDED (r_rc (drv s h (SQLColAttribute (col + 1) SQL_CA_SS_VARIANT_TYPE))) \<and>
               r_len (drv s h (SQLColAttribute (col + 1) SQL_CA_SS_VARIANT_TYPE)) = - 150"
    and "meta_at col s \<noteq> None"
  shows "dispatch SQL_SS_VARIANT col s = None"
proof -
  let ?I = "\<lambda>s. \<forall>h. SQL_SUCCEEDED (r_rc (drv s h (SQLGetData (Suc col) SQL_C_BINARY 0))) \<and>
               SQL_SUCCEEDED (r_rc (drv s h (SQLColAttribute (Suc col) SQL_CA_SS_VARIANT_TYPE))) \<and>
               r_len (drv s h (SQLColAttribute (Suc col) SQL_CA_SS_VARIANT_TYPE)) = - 150"
  have main: "dispatch t c s = Some y \<Longrightarrow>
        t = SQL_SS_VARIANT \<and> c = col \<and> ?I s \<and> meta_at col s \<noteq> None \<longrightarrow> False" for t c s y
    apply (rule dispatch.raw_induct [where P = "\<lambda>t c s y.
          t = SQL_SS_VARIANT \<and> c = col \<and> ?I s \<and> meta_at col s \<noteq> None \<longrightarrow> False"])
     apply (intro impI, elim conjE, rotate_tac 2)
     apply (clarsimp simp: decoder_of_def odbc_def check_odbc_error_eq Let_def
        simp del: SQL_SUCCEEDED_iff)
     apply (fastforce simp del: SQL_SUCCEEDED_iff)
    by assumption
  show ?thesis
  proof (rule ccontr)
    assume "dispatch SQL_SS_VARIANT col s \<noteq> None"
    then obtain y where "dispatch SQL_SS_VARIANT col s = Some y" by blast
    from main [OF this] show False using assms by (simp del: SQL_SUCCEEDED_iff)
  qed
qed

text \<open>C36 (map_type_dispatch_agree):
  The JavaScript type \<open>ResultSet::map_type\<close> reports in the metadata for a SQL
  type is the type of the column the decoder chosen by \<open>dispatch\<close> produces
  exactly when the type is none of \<open>SQL_DATETIME\<close>, \<open>SQL_TIMESTAMP\<close> (reported as
  text, read as dates) and the \<open>SQL_C_*\<close> integer codes (reported as text, read as
  numbers).\<close>

lemma map_type_dispatch_agree:
  assumes "decoder_of t \<noteq> DVariant"
  shows "map_type t = decoder_js_type (decoder_of t) \<longleftrightarrow>
         t \<notin> {SQL_DATETIME, SQL_TIMESTAMP, SQL_C_SLONG, SQL_C_SSHORT, SQL_C_STINYINT,
               SQL_C_ULONG, SQL_C_USHORT, SQL_C_UTINYINT}"
  using assms by (auto simp: map_type_def decoder_of_def decoder_js_type_def)

section \<open>Witnesses\<close>

lemma map_type_dispatch_agree_witness:
  "decoder_of SQL_DATETIME \<noteq> DVariant \<and>
   map_type SQL_DATETIME \<noteq> decoder_js_type (decoder_of SQL_DATETIME) \<and>
   decoder_of SQL_INTEGER \<noteq> DVariant \<and>
   map_type SQL_INTEGER = decoder_js_type (decoder_of SQL_INTEGER)"
  using map_type_dispatch_agree [of SQL_DATETIME] map_type_dispatch_agree [of SQL_INTEGER]
  by (simp add: decoder_of_def)

lemma prepared_never_null_witness:
  "let s = prepared_reading SQL_INTEGER (column_driver (reply_rc SQL_SUCCESS) (reply_rc SQL_SUCCESS))
             (empty_datum\<lparr>ind_vec := [SQL_NULL_DATA], storage := StorageInt64 [5]\<rparr>)
   in prepared s \<and> resultset s \<noteq> None \<and>
      decoder_of SQL_INTEGER \<in> {DBit, DInteger, DDecimal, DBinary, DTimestampOffset, DTimestamp} \<and>
      dispatch SQL_INTEGER 0 s = Some (True, set_column (IntColumn 5) s) \<and>
      current_column (set_column (IntColumn 5) s) \<noteq> Some NullColumn"
  using prepared_never_null [of "prepared_reading SQL_INTEGER
      (column_driver (reply_rc SQL_SUCCESS) (reply_rc SQL_SUCCESS))
      (empty_datum\<lparr>ind_vec := [SQL_NULL_DATA], storage := StorageInt64 [5]\<rparr>)" SQL_INTEGER 0 True]
  by (simp add: prepared_reading_def reading_statement_def new_statement_def decoder_of_def
      dispatch.simps d_integer_def prepared_column_def at_index_def Let_def)

lemma unprepared_null_witness:
  "\<exists>s'. dispatch SQL_INTEGER 0 (reading_statement SQL_INTEGER
      (column_driver ((reply_rc SQL_SUCCESS)\<lparr>r_len := SQL_NULL_DATA\<rparr>) (reply_rc SQL_SUCCESS))) =
        Some (True, s') \<and> current_column s' = Some NullColumn"
  by (rule unprepared_null)
     (simp_all add: reading_statement_def new_statement_def decoder_of_def column_driver_def
       reply_rc_def lob_display_size_def)

lemma get_data_long_zero_extends_witness:
  "\<exists>s'. dispatch SQL_INTEGER 0 (reading_statement SQL_INTEGER
      (column_driver ((reply_rc SQL_SUCCESS)\<lparr>r_len := 4, r_data := WLong (- 1)\<rparr>)
         (reply_rc SQL_SUCCESS))) = Some (True, s') \<and>
      current_column s' = Some (IntColumn 4294967295)"
  using get_data_long_zero_extends [of "reading_statement SQL_INTEGER
      (column_driver ((reply_rc SQL_SUCCESS)\<lparr>r_len := 4, r_data := WLong (- 1)\<rparr>)
         (reply_rc SQL_SUCCESS))" SQL_INTEGER 0 _ "- 1"]
  by (simp add: reading_statement_def new_statement_def decoder_of_def column_driver_def reply_rc_def
      uint_word_ariths)

lemma getdata_failure_swallowed_witness:
  "\<exists>s'. dispatch SQL_INTEGER 0 (reading_statement SQL_INTEGER
      (column_driver (reply_rc SQL_ERROR) (reply_rc SQL_SUCCESS))) = Some (True, s') \<and>
      statement_state s' = STATEMENT_ERROR \<and>
      current_column s' = current_column (reading_statement SQL_INTEGER
        (column_driver (reply_rc SQL_ERROR) (reply_rc SQL_SUCCESS)))"
  by (rule getdata_failure_swallowed)
     (simp_all add: reading_statement_def new_statement_def decoder_of_def column_driver_def reply_rc_def)

lemma reserved_string_null_undefined_witness:
  "unat (SQL_NULL_DATA div (2 :: 64 word)) = 2 ^ 63 - 1 \<and>
   dispatch SQL_WVARCHAR 0 (prepared_reading SQL_WVARCHAR
     (column_driver (reply_rc SQL_SUCCESS) ((reply_rc SQL_SUCCESS)\<lparr>r_len := 10\<rparr>))
     (empty_datum\<lparr>ind_vec := [SQL_NULL_DATA], storage := StorageUint16 (zeros 11)\<rparr>)) = None"
  by (rule reserved_string_null_undefined [where r = "(reply_rc SQL_SUCCESS)\<lparr>r_len := 10\<rparr>"
        and ps = "new_bound_datum_set\<lparr>bindings := [empty_datum\<lparr>ind_vec := [SQL_NULL_DATA],
                    storage := StorageUint16 (zeros 11)\<rparr>]\<rparr>"
        and d = "empty_datum\<lparr>ind_vec := [SQL_NULL_DATA], storage := StorageUint16 (zeros 11)\<rparr>"
        and rest = "[]" and cs = "zeros 11"])
     (simp_all add: prepared_reading_def reading_statement_def new_statement_def decoder_of_def
       column_driver_def reply_rc_def lob_display_size_def at_index_def)

lemma variant_forever_undefined_witness:
  "dispatch SQL_SS_VARIANT 0 (reading_statement SQL_SS_VARIANT
     (column_driver (reply_rc SQL_SUCCESS) ((reply_rc SQL_SUCCESS)\<lparr>r_len := - 150\<rparr>))) = None"
  by (rule variant_forever_undefined)
     (simp_all add: reading_statement_def new_statement_def column_driver_def reply_rc_def meta_at_def)

end
