(* ===== verification/Execute.thy ===== *)
theory Execute
  imports Decode
begin

text \<open>
  Executing a statement (\<open>src/src/OdbcStatement.cpp\<close>): binding the parameter set
  (\<open>BindParams\<close>, \<open>applyPrecision\<close>), the query timeout (\<open>queryTimeout\<close>), direct
  execution (\<open>TryExecuteDirect\<close>), preparation with bound result columns
  (\<open>TryPrepare\<close>) and execution of a prepared statement (\<open>BindFetch\<close>). Polling
  goes through \<open>PollCheck\<close> (\<open>poll_check\<close>), result sets through
  \<open>StartReadingResults\<close> (\<open>start_reading_results\<close>).
\<close>

section \<open>Binding parameters\<close>

text \<open>\<open>applyPrecision\<close>: the descriptor calls that set type, precision, scale and
  data pointer of one parameter; their return codes are not read, so they are one
  call of the model.\<close>

definition apply_precision :: "bound_datum \<Rightarrow> nat \<Rightarrow> stmt \<Rightarrow> stmt" where
  "apply_precision d p s = snd (odbc (SQLSetDescFields p) s)"

definition bind_parameter_call :: "nat \<Rightarrow> bound_datum \<Rightarrow> odbc_call" where
  "bind_parameter_call p d =
     SQLBindParameter p (param_type d) (c_type d) (sql_type d) (param_size d) (digits d) (buffer_len d)"

text \<open>The loop of \<open>BindParams\<close>: bind each datum at its 1-based position, stop at
  the first failure.\<close>

fun bind_params_loop :: "nat \<Rightarrow> bound_datum list \<Rightarrow> stmt \<Rightarrow> bool \<times> stmt" where
  "bind_params_loop p [] s = (True, s)"
| "bind_params_loop p (d # ds) s =
     (let (r, s1) = odbc (bind_parameter_call p d) s;
          (ok, s2) = check_odbc_error (r_rc r) s1
      in if \<not> ok then (False, s2)
         else bind_params_loop (Suc p) ds (if defined_precision d then apply_precision d p s2 else s2))"

text \<open>\<open>BindParams\<close>: nothing to do when the first binding has no rows; otherwise
  set the parameter-array size to that row count and bind.\<close>

definition bind_params :: "bound_datum_set \<Rightarrow> stmt \<Rightarrow> bool \<times> stmt" where
  "bind_params ps s =
     (let size = get_size ps
      in if size = 0 then (True, s)
         else
           (let (r, s1) = odbc (SQLSetStmtAttr SQL_ATTR_PARAMSET_SIZE (int size)) s;
                (ok, s2) = check_odbc_error (r_rc r) s1
            in if \<not> ok then (False, s2) else bind_params_loop 1 (bindings ps) s2))"

section \<open>Query timeout\<close>

text \<open>
  \<open>queryTimeout\<close> returns \<open>SQLRETURN\<close> but its body returns \<open>bool\<close>: false becomes
  0 (\<open>SQL_SUCCESS\<close>) and true 1 (\<open>SQL_SUCCESS_WITH_INFO\<close>). The second
  \<open>SQLSetStmtAttr\<close>'s code is dropped and the first one checked again.
\<close>

definition query_timeout :: "int \<Rightarrow> stmt \<Rightarrow> sqlreturn \<times> stmt" where
  "query_timeout timeout s =
     (if 0 < timeout then
        (let (r, s1) = odbc (SQLSetStmtAttr SQL_QUERY_TIMEOUT timeout) s;
             (ok, s2) = check_odbc_error (r_rc r) s1
         in if \<not> ok then (sqlreturn_of_bool False, s2)
            else
              (let (_, s3) = odbc (SQLSetStmtAttr SQL_ATTR_QUERY_TIMEOUT timeout) s2;
                   (ok2, s4) = check_odbc_error (r_rc r) s3
               in if \<not> ok2 then (sqlreturn_of_bool False, s4) else (sqlreturn_of_bool True, s4)))
      else (sqlreturn_of_bool True, s))"

section \<open>Direct execution\<close>

text \<open>Turning on asynchronous execution when polling; its return code is not read.\<close>

definition enable_async :: "bool \<Rightarrow> stmt \<Rightarrow> stmt" where
  "enable_async polling s = (if polling then snd (odbc (SQLSetStmtAttr SQL_ATTR_ASYNC_ENABLE 1) s) else s)"

text \<open>The execution call followed, when polling, by \<open>PollCheck\<close>.\<close>

definition execute_call :: "bool \<Rightarrow> odbc_call \<Rightarrow> bool \<Rightarrow> stmt \<Rightarrow> (sqlreturn \<times> stmt) option" where
  "execute_call polling c direct s =
     (let (r, s1) = odbc c s
      in if polling then poll_check (r_rc r) direct s1 else Some (r_rc r, s1))"

text \<open>
  \<open>TryExecuteDirect\<close>: bind, reset end-of-results, set the timeout (the \<open>u_int\<close>
  is passed as an \<open>int\<close>), submit. A \<open>SQL_SUCCESS_WITH_INFO\<close> or a failure other than
  \<open>SQL_NO_DATA\<close> reads the diagnostics, still reads the results (keeping the
  diagnostics as the error) and returns false; otherwise the results are read.
\<close>

definition try_execute_direct ::
  "wchar list \<Rightarrow> 32 word \<Rightarrow> bound_datum_set \<Rightarrow> stmt \<Rightarrow> (bool \<times> stmt) option" where
  "try_execute_direct q timeout ps s =
     (let (bound, s1) = bind_params ps s
      in if \<not> bound then Some (False, s1)
         else
           (let polling = polling_enabled s1;
                s2 = s1\<lparr>end_of_results := True\<rparr>;
                (ret, s3) = query_timeout (sint timeout) s2;
                (ok, s4) = check_odbc_error ret s3
            in if \<not> ok then Some (False, s4)
               else
                 (let s5 = enable_async polling (s4\<lparr>statement_state := STATEMENT_SUBMITTED\<rparr>)
                  in case execute_call polling (SQLExecDirect q) True s5 of
                       None \<Rightarrow> None
                     | Some (ret2, s6) \<Rightarrow>
                         if ret2 = SQL_SUCCESS_WITH_INFO \<or> (ret2 \<noteq> SQL_NO_DATA \<and> \<not> SQL_SUCCEEDED ret2)
                         then
                           (let (_, s7) = return_odbc_error s6;
                                s8 = s7\<lparr>bound_params_set := Some ps\<rparr>;
                                saved = error s8
                            in case start_reading_results s8 of
                                 None \<Rightarrow> None
                               | Some (res, s9) \<Rightarrow>
                                   (let s10 = s9\<lparr>error := saved\<rparr>
                                    in if res then map_option (\<lambda>s11. (False, s11)) (set_end_of_rows False s10)
                                       else map_option (\<lambda>rs. (False, s10\<lparr>resultset := Some (rs\<lparr>end_of_rows := True\<rparr>)\<rparr>))
                                              (make_result_set 0)))
                         else start_reading_results (s6\<lparr>bound_params_set := Some ps\<rparr>))))"

section \<open>Prepared statements\<close>

text \<open>\<open>TryPrepare\<close> describes every column with \<open>readNext\<close> and drops the result.\<close>

primrec read_next_each :: "nat list \<Rightarrow> stmt \<Rightarrow> stmt option" where
  "read_next_each [] s = Some s"
| "read_next_each (i # ix) s =
     (case read_next i s of None \<Rightarrow> None | Some (_, s') \<Rightarrow> read_next_each ix s')"

text \<open>The \<open>SQLBindCol\<close> loop of \<open>TryPrepare\<close>: column \<open>i + 1\<close> to the i-th binding.\<close>

fun bind_cols :: "nat \<Rightarrow> bound_datum list \<Rightarrow> stmt \<Rightarrow> bool \<times> stmt" where
  "bind_cols i [] s = (True, s)"
| "bind_cols i (d # ds) s =
     (let (r, s1) = odbc (SQLBindCol (i + 1) (c_type d) (buffer_len d)) s;
          (ok, s2) = check_odbc_error (r_rc r) s1
      in if \<not> ok then (False, s2) else bind_cols (Suc i) ds s2)"

text \<open>
  \<open>TryPrepare\<close>: prepare, count the columns, create the prepared storage and the
  result set, describe the columns, reserve one binding per column, bind them and
  mark the statement prepared.
\<close>

definition try_prepare :: "wchar list \<Rightarrow> stmt \<Rightarrow> (bool \<times> stmt) option" where
  "try_prepare q s =
     (let (r, s1) = odbc (SQLPrepare q) s;
          (ok, s2) = check_odbc_error (r_rc r) s1
      in if \<not> ok then Some (False, s2)
         else
           (let (r2, s3) = odbc SQLNumResultCols s2;
                (ok2, s4) = check_odbc_error (r_rc r2) s3
            in if \<not> ok2 then Some (False, s4)
               else
                 (case make_result_set (sint (r_count r2)) of
                    None \<Rightarrow> None
                  | Some rs \<Rightarrow>
                      (case read_next_each [0..<nat (sint (r_count r2))]
                              (s4\<lparr>prepared_storage := Some new_bound_datum_set, resultset := Some rs\<rparr>) of
                         None \<Rightarrow> None
                       | Some s5 \<Rightarrow>
                           (case (resultset s5, prepared_storage s5) of
                              (Some rs5, Some ps5) \<Rightarrow>
                                (let ps6 = snd (reserve rs5 ps5);
                                     (ok3, s6) = bind_cols 0 (bindings ps6) (s5\<lparr>prepared_storage := Some ps6\<rparr>)
                                 in if \<not> ok3 then Some (False, s6)
                                    else map_option
                                           (\<lambda>s7. (True, s7\<lparr>prepared := True, statement_state := STATEMENT_PREPARED\<rparr>))
                                           (set_end_of_rows True s6))
                            | _ \<Rightarrow> None)))))"

text \<open>\<open>BindFetch\<close>: bind the parameters, execute the prepared statement (polling
  if enabled), check, and read the row count into the result set.\<close>

definition bind_fetch :: "bound_datum_set \<Rightarrow> stmt \<Rightarrow> (bool \<times> stmt) option" where
  "bind_fetch ps s =
     (let polling = polling_enabled s;
          (bound, s1) = bind_params ps s
      in if \<not> bound then Some (False, s1)
         else
           (case execute_call polling SQLExecute False (enable_async polling s1) of
              None \<Rightarrow> None
            | Some (ret, s2) \<Rightarrow>
                (let (ok, s3) = check_odbc_error ret s2
                 in if \<not> ok then Some (False, s3)
                    else
                      (case resultset s3 of
                         None \<Rightarrow> None
                       | Some rs \<Rightarrow>
                           (let (r, s4) = odbc SQLRowCount s3
                            in Some (check_odbc_error (r_rc r)
                                 (s4\<lparr>resultset := Some (rs\<lparr>rowcount := r_len r\<rparr>)\<rparr>)))))))"

section \<open>Example drivers and parameters\<close>

text \<open>A driver answering the timeout attribute with \<open>trc\<close>, executions with
  \<open>erc\<close>, the column count with \<open>ncols\<close>, failing every column description and
  accepting every other call; two scalar parameters of one row; and the predicate
  that picks \<open>SQLBindParameter\<close> calls out of a history.\<close>

definition exec_driver :: "sqlsmallint \<Rightarrow> sqlreturn \<Rightarrow> sqlreturn \<Rightarrow> driver" where
  "exec_driver ncols trc erc h c =
     (case c of
        SQLSetStmtAttr SQL_QUERY_TIMEOUT _ \<Rightarrow> reply_rc trc
      | SQLExecDirect _ \<Rightarrow> reply_rc erc
      | SQLExecute \<Rightarrow> reply_rc erc
      | SQLNumResultCols \<Rightarrow> (reply_rc SQL_SUCCESS)\<lparr>r_count := ncols\<rparr>
      | SQLDescribeCol _ _ \<Rightarrow> reply_rc SQL_ERROR
      | _ \<Rightarrow> reply_rc SQL_SUCCESS)"

definition demo_params :: bound_datum_set where
  "demo_params = new_bound_datum_set\<lparr>bindings := [empty_datum\<lparr>ind_vec := [0]\<rparr>,
      empty_datum\<lparr>ind_vec := [0], sql_type := SQL_INTEGER\<rparr>]\<rparr>"

fun is_bind_parameter :: "odbc_call \<Rightarrow> bool" where
  "is_bind_parameter (SQLBindParameter _ _ _ _ _ _ _) = True"
| "is_bind_parameter _ = False"

section \<open>Properties\<close>

lemma bind_params_loop_frame:
  "drv (snd (bind_params_loop p ds s)) = drv s \<and>
   polling_enabled (snd (bind_params_loop p ds s)) = polling_enabled s \<and>
   resultset (snd (bind_params_loop p ds s)) = resultset s \<and>
   prepared (snd (bind_params_loop p ds s)) = prepared s \<and>
   prepared_storage (snd (bind_params_loop p ds s)) = prepared_storage s \<and>
   bound_params_set (snd (bind_params_loop p ds s)) = bound_params_set s \<and>
   cancel_requested (snd (bind_params_loop p ds s)) = cancel_requested s"
  by (induction p ds s rule: bind_params_loop.induct)
     (simp_all add: Let_def odbc_def check_odbc_error_eq apply_precision_def)

lemma bind_params_frame:
  "drv (snd (bind_params ps s)) = drv s \<and>
   polling_enabled (snd (bind_params ps s)) = polling_enabled s \<and>
   resultset (snd (bind_params ps s)) = resultset s \<and>
   prepared (snd (bind_params ps s)) = prepared s \<and>
   prepared_storage (snd (bind_params ps s)) = prepared_storage s \<and>
   bound_params_set (snd (bind_params ps s)) = bound_params_set s \<and>
   cancel_requested (snd (bind_params ps s)) = cancel_requested s"
  using bind_params_loop_frame
  by (simp add: bind_params_def Let_def odbc_def check_odbc_error_eq)

lemmas bind_params_keeps [stmt_frame] = bind_params_frame [THEN conjunct1]
  bind_params_frame [THEN conjunct2, THEN conjunct1]
  bind_params_frame [THEN conjunct2, THEN conjunct2, THEN conjunct1]
  bind_params_frame [THEN conjunct2, THEN conjunct2, THEN conjunct2, THEN conjunct1]
  bind_params_frame [THEN conjunct2, THEN conjunct2, THEN conjunct2, THEN conjunct2, THEN conjunct1]
  bind_params_frame [THEN conjunct2, THEN conjunct2, THEN conjunct2, THEN conjunct2, THEN conjunct2,
    THEN conjunct1]
  bind_params_frame [THEN conjunct2, THEN conjunct2, THEN conjunct2, THEN conjunct2, THEN conjunct2,
    THEN conjunct2]

text \<open>C11 (execute_direct_error_reads_results):
  When \<open>SQLExecDirect\<close> fails with \<open>SQL_ERROR\<close>, \<open>TryExecuteDirect\<close> returns
  false with the diagnostics as the error, but still reads the results: the
  statement stays \<open>STATEMENT_SUBMITTED\<close> (not \<open>STATEMENT_ERROR\<close>), holds a result
  set whose end-of-rows is false, and keeps the parameter set for unbinding (the
  specification says a driver failure moves the statement to Error).\<close>

lemma execute_direct_error_reads_results:
  assumes "\<not> polling_enabled s" "bind_params ps s = (True, sb)" "sint timeout \<le> 0"
    and "\<forall>h. r_rc (drv s h (SQLExecDirect q)) = SQL_ERROR"
    and "\<forall>h. r_rc (drv s h SQLNumResultCols) = SQL_SUCCESS \<and> r_count (drv s h SQLNumResultCols) = 0"
    and "\<forall>h. r_rc (drv s h SQLRowCount) = SQL_SUCCESS"
  shows "\<exists>s'. try_execute_direct q timeout ps s = Some (False, s') \<and>
           statement_state s' = STATEMENT_SUBMITTED \<and> error s' \<noteq> None \<and>
           end_of_rows_of s' = Some False \<and> bound_params_set s' = Some ps \<and>
           SQLNumResultCols \<in> set (calls s')"
proof -
  have f: "drv sb = drv s" "polling_enabled sb = polling_enabled s"
    using bind_params_keeps [of ps s] assms(2) by simp_all
  show ?thesis
    using assms f
    by (simp add: try_execute_direct_def query_timeout_def enable_async_def execute_call_def
        odbc_def check_odbc_error_eq return_odbc_error_eq start_reading_results_def
        make_result_set_def get_column_count_def set_end_of_rows_def end_of_rows_of_def Let_def)
qed

lemma read_next_each_frame:
  "read_next_each ix s = Some s' \<Longrightarrow>
   map_option (\<lambda>rs. length (metadata rs)) (resultset s') =
   map_option (\<lambda>rs. length (metadata rs)) (resultset s) \<and> prepared_storage s' = prepared_storage s"
proof (induction ix arbitrary: s)
  case Nil
  then show ?case by simp
next
  case (Cons i ix)
  then obtain ok s1 where r: "read_next i s = Some (ok, s1)" and "read_next_each ix s1 = Some s'"
    by (auto split: option.splits)
  then show ?case using Cons.IH read_next_len [OF r] read_next_setup [OF r] by (simp add: keeps_setup_def)
qed

lemma bind_cols_frame:
  "bind_cols i ds s = (b, s') \<Longrightarrow> resultset s' = resultset s \<and> prepared_storage s' = prepared_storage s"
  by (induction i ds s arbitrary: b rule: bind_cols.induct)
     (auto simp: Let_def odbc_def check_odbc_error_eq split: if_splits)

lemma reserve_new_length:
  "length (bindings (snd (reserve rs new_bound_datum_set))) = length (metadata rs)"
  by (simp add: reserve_def new_bound_datum_set_def)

text \<open>C9 (try_prepare_storage_matches):
  After a successful \<open>TryPrepare\<close> the statement is prepared, in state
  \<open>STATEMENT_PREPARED\<close>, with a result set at end of rows and a prepared storage
  holding exactly one binding per described column (so every column the decoders
  read has its bound storage).\<close>

lemma try_prepare_storage_matches:
  assumes "try_prepare q s = Some (True, s')"
  shows "prepared s' \<and> statement_state s' = STATEMENT_PREPARED \<and>
         (\<exists>ps rs. prepared_storage s' = Some ps \<and> resultset s' = Some rs \<and>
                  length (bindings ps) = length (metadata rs) \<and> end_of_rows rs)"
  using assms
  apply (simp add: try_prepare_def Let_def odbc_def check_odbc_error_eq
      split: if_splits option.splits prod.splits)
  apply (auto simp: set_end_of_rows_def reserve_new_length split: option.splits
      dest!: read_next_each_frame bind_cols_frame)
  done

lemma poll_fuel_frame:
  "poll_fuel n d s = Some (r, s') \<Longrightarrow>
   bound_params_set s' = bound_params_set s \<and> resultset s' = resultset s \<and>
   prepared s' = prepared s \<and> prepared_storage s' = prepared_storage s"
  by (induction n d s rule: poll_fuel.induct)
     (auto simp: Let_def odbc_def poll_turn_def cancel_handle_eq check_odbc_error_eq split: if_splits)

lemma execute_call_frame:
  "execute_call polling c d s = Some (r, s') \<Longrightarrow>
   bound_params_set s' = bound_params_set s \<and> resultset s' = resultset s \<and>
   prepared s' = prepared s \<and> prepared_storage s' = prepared_storage s"
  by (auto simp: execute_call_def poll_check_def odbc_def split: if_splits
      dest!: poll_loop_fuel poll_fuel_frame)

text \<open>C40 (bind_fetch_unbind_unchanged):
  \<open>BindFetch\<close> does not record the parameter set it binds: after executing a
  prepared statement, \<open>UnbindParams\<close> returns what it returned before, so the output
  parameters of this execution are never read back.\<close>

lemma bind_fetch_unbind_unchanged:
  assumes "bind_fetch ps s = Some (b, s')"
  shows "unbind_params u s' = unbind_params u s"
proof -
  have "bound_params_set s' = bound_params_set s"
    using assms bind_params_keeps [of ps s]
    by (auto simp: bind_fetch_def enable_async_def Let_def odbc_def check_odbc_error_eq
        split: if_splits option.splits prod.splits dest!: execute_call_frame)
  then show ?thesis by (simp add: unbind_params_def)
qed

text \<open>C37 (timeout_failure_executes):
  When the driver rejects the query timeout, \<open>queryTimeout\<close> returns \<open>false\<close>
  converted to \<open>SQL_SUCCESS\<close>, so \<open>TryExecuteDirect\<close>'s check passes: the query is
  executed without a timeout and the execution reports success, with the timeout's
  diagnostics left as the statement's error.\<close>

lemma timeout_failure_executes:
  assumes "\<not> polling_enabled s" "bind_params ps s = (True, sb)" "0 < sint timeout"
    and "\<forall>h. \<not> SQL_SUCCEEDED (r_rc (drv s h (SQLSetStmtAttr SQL_QUERY_TIMEOUT (sint timeout))))"
    and "\<forall>h. r_rc (drv s h (SQLExecDirect q)) = SQL_SUCCESS"
    and "\<forall>h. r_rc (drv s h SQLNumResultCols) = SQL_SUCCESS \<and> r_count (drv s h SQLNumResultCols) = 0"
    and "\<forall>h. r_rc (drv s h SQLRowCount) = SQL_SUCCESS"
  shows "\<exists>s'. try_execute_direct q timeout ps s = Some (True, s') \<and>
           SQLExecDirect q \<in> set (calls s') \<and> error s' \<noteq> None"
proof -
  have f: "drv sb = drv s" "polling_enabled sb = polling_enabled s"
    using bind_params_keeps [of ps s] assms(2) by simp_all
  show ?thesis
    using assms f
    by (simp add: try_execute_direct_def query_timeout_def enable_async_def execute_call_def
        odbc_def check_odbc_error_eq return_odbc_error_eq start_reading_results_def
        make_result_set_def get_column_count_def Let_def)
qed

text \<open>C38 (large_timeout_ignored):
  The \<open>u_int\<close> timeout is passed to \<open>queryTimeout(int)\<close>: a timeout of
  \<open>2^31\<close> seconds or more becomes negative and the statement runs exactly as with
  no timeout.\<close>

lemma large_timeout_ignored:
  assumes "2 ^ 31 \<le> unat timeout"
  shows "try_execute_direct q timeout ps s = try_execute_direct q 0 ps s"
proof -
  have "query_timeout (sint timeout) = query_timeout (sint (0 :: 32 word))"
    using sint_neg_of_large [OF assms] by (simp add: fun_eq_iff query_timeout_def)
  then show ?thesis unfolding try_execute_direct_def by (simp only:)
qed

lemma bind_params_loop_calls:
  "bind_params_loop p ds s = (True, s') \<Longrightarrow>
   filter is_bind_parameter (calls s') =
   rev (map2 bind_parameter_call [p..<p + length ds] ds) @ filter is_bind_parameter (calls s)"
proof (induction p ds s rule: bind_params_loop.induct)
  case (1 p s)
  then show ?case by simp
next
  case (2 p d ds s)
  then show ?case
    by (auto simp: Let_def odbc_def check_odbc_error_eq apply_precision_def bind_parameter_call_def
        upt_conv_Cons simp del: upt_Suc split: if_splits)
qed

text \<open>C10 (bind_params_numbering):
  A successful \<open>BindParams\<close> with at least one row (a set with no rows returns
  before binding anything) issues one
  \<open>SQLBindParameter\<close> per binding, in order, numbered from 1, each with the
  binding's direction, C type, SQL type, size, digits and buffer length.\<close>

lemma bind_params_numbering:
  assumes "0 < get_size ps" "bind_params ps s = (True, s')"
  shows "filter is_bind_parameter (calls s') =
         rev (map2 bind_parameter_call [1..<length (bindings ps) + 1] (bindings ps)) @
         filter is_bind_parameter (calls s)"
  using assms bind_params_loop_calls [of 1 "bindings ps"]
  by (auto simp: bind_params_def Let_def odbc_def check_odbc_error_eq split: if_splits)

text \<open>C39 (try_prepare_ignores_describe_failure):
  \<open>TryPrepare\<close> drops the result of \<open>readNext\<close>: when the driver cannot describe
  a column, the statement is still prepared and \<open>TryPrepare\<close> returns true (binding
  a column of the default description), with the failure left as the error.\<close>

lemma try_prepare_ignores_describe_failure:
  assumes "\<forall>h. r_rc (drv s h (SQLPrepare q)) = SQL_SUCCESS"
    and "\<forall>h. r_rc (drv s h SQLNumResultCols) = SQL_SUCCESS \<and> r_count (drv s h SQLNumResultCols) = 1"
    and "\<forall>h n. r_rc (drv s h (SQLDescribeCol 1 n)) = SQL_ERROR"
    and "\<forall>h ct n. r_rc (drv s h (SQLBindCol 1 ct n)) = SQL_SUCCESS"
  shows "\<exists>s'. try_prepare q s = Some (True, s') \<and> statement_state s' = STATEMENT_PREPARED \<and>
           error s' \<noteq> None"
  using assms
  by (simp add: try_prepare_def read_next_def odbc_def check_odbc_error_eq return_odbc_error_eq
      make_result_set_def reserve_def new_bound_datum_set_def set_end_of_rows_def Let_def)

section \<open>Witnesses\<close>

lemma execute_direct_error_reads_results_witness:
  "\<exists>s'. try_execute_direct [] 0 new_bound_datum_set (new_statement (exec_driver 0 SQL_SUCCESS SQL_ERROR)) =
      Some (False, s') \<and> statement_state s' = STATEMENT_SUBMITTED \<and> error s' \<noteq> None \<and>
      end_of_rows_of s' = Some False \<and> bound_params_set s' = Some new_bound_datum_set \<and>
      SQLNumResultCols \<in> set (calls s')"
  by (rule execute_direct_error_reads_results [where sb = "new_statement (exec_driver 0 SQL_SUCCESS SQL_ERROR)"])
     (simp_all add: new_statement_def exec_driver_def reply_rc_def bind_params_def get_size_def
       new_bound_datum_set_def)

lemma timeout_failure_executes_witness:
  "\<exists>s'. try_execute_direct [] 30 new_bound_datum_set (new_statement (exec_driver 0 SQL_ERROR SQL_SUCCESS)) =
      Some (True, s') \<and> SQLExecDirect [] \<in> set (calls s') \<and> error s' \<noteq> None"
  by (rule timeout_failure_executes [where sb = "new_statement (exec_driver 0 SQL_ERROR SQL_SUCCESS)"])
     (simp_all add: new_statement_def exec_driver_def reply_rc_def bind_params_def get_size_def
       new_bound_datum_set_def)

lemma large_timeout_ignored_witness:
  "2 ^ 31 \<le> unat (2147483648 :: 32 word) \<and>
   try_execute_direct [] 2147483648 new_bound_datum_set (new_statement (exec_driver 0 SQL_ERROR SQL_SUCCESS)) =
   try_execute_direct [] 0 new_bound_datum_set (new_statement (exec_driver 0 SQL_ERROR SQL_SUCCESS))"
  using large_timeout_ignored [of "2147483648 :: 32 word"] by simp

lemma try_prepare_ignores_describe_failure_witness:
  "\<exists>s'. try_prepare [] (new_statement (exec_driver 1 SQL_SUCCESS SQL_SUCCESS)) = Some (True, s') \<and>
      statement_state s' = STATEMENT_PREPARED \<and> error s' \<noteq> None"
  by (rule try_prepare_ignores_describe_failure)
     (simp_all add: new_statement_def exec_driver_def reply_rc_def)

lemma try_prepare_storage_matches_witness:
  "\<exists>s'. try_prepare [] (new_statement (exec_driver 1 SQL_SUCCESS SQL_SUCCESS)) = Some (True, s') \<and>
      prepared s' \<and> statement_state s' = STATEMENT_PREPARED \<and>
      (\<exists>ps rs. prepared_storage s' = Some ps \<and> resultset s' = Some rs \<and>
               length (bindings ps) = length (metadata rs) \<and> end_of_rows rs)"
proof -
  obtain s' where r: "try_prepare [] (new_statement (exec_driver 1 SQL_SUCCESS SQL_SUCCESS)) = Some (True, s')"
    by (simp add: try_prepare_def read_next_def odbc_def check_odbc_error_eq return_odbc_error_eq
        make_result_set_def reserve_def new_bound_datum_set_def set_end_of_rows_def Let_def
        new_statement_def exec_driver_def reply_rc_def)
  show ?thesis using r try_prepare_storage_matches [OF r] by blast
qed

lemma bind_fetch_unbind_unchanged_witness:
  "\<exists>s'. bind_fetch new_bound_datum_set ((new_statement (exec_driver 0 SQL_SUCCESS SQL_SUCCESS))
      \<lparr>resultset := make_result_set 0\<rparr>) = Some (True, s') \<and>
      unbind_params param_type s' = unbind_params param_type ((new_statement (exec_driver 0 SQL_SUCCESS SQL_SUCCESS))
        \<lparr>resultset := make_result_set 0\<rparr>)"
proof -
  obtain s' where r: "bind_fetch new_bound_datum_set ((new_statement (exec_driver 0 SQL_SUCCESS SQL_SUCCESS))
      \<lparr>resultset := make_result_set 0\<rparr>) = Some (True, s')"
    by (simp add: bind_fetch_def bind_params_def get_size_def new_bound_datum_set_def
        execute_call_def enable_async_def odbc_def check_odbc_error_eq make_result_set_def
        new_statement_def exec_driver_def reply_rc_def Let_def)
  show ?thesis using r bind_fetch_unbind_unchanged [OF r, of param_type] by blast
qed



lemma bind_params_numbering_witness:
  "\<exists>s'. bind_params demo_params (new_statement (exec_driver 0 SQL_SUCCESS SQL_SUCCESS)) = (True, s') \<and>
     filter is_bind_parameter (calls s') =
     rev (map2 bind_parameter_call [1..<length (bindings demo_params) + 1] (bindings demo_params)) @
     filter is_bind_parameter (calls (new_statement (exec_driver 0 SQL_SUCCESS SQL_SUCCESS)))"
proof -
  obtain s' where r: "bind_params demo_params (new_statement (exec_driver 0 SQL_SUCCESS SQL_SUCCESS)) = (True, s')"
    by (simp add: bind_params_def demo_params_def get_size_def new_bound_datum_set_def
        empty_datum_def odbc_def check_odbc_error_eq new_statement_def exec_driver_def reply_rc_def
        bind_parameter_call_def Let_def)
  have "0 < get_size demo_params" by (simp add: demo_params_def get_size_def)
  then show ?thesis using r bind_params_numbering [of demo_params _ s'] by blast
qed

end
