(* ===== verification/Lob_Stream.thy ===== *)
theory Lob_Stream
  imports Decode
begin

text \<open>
  Streaming a large text value (\<open>src/src/OdbcStatement.cpp\<close>, \<open>Lob\<close>): a model of
  how a conforming driver hands out a long wide-character value in pieces, the
  caller's loop that reads the column until no more data remains, and the round
  trip: the packets concatenate to the value.
\<close>

section \<open>A driver that streams a wide-character value\<close>

text \<open>
  How an ODBC driver answers repeated \<open>SQLGetData\<close> calls on one column
  (ODBC: "Getting long data"): each call writes the next part of the value that fits
  the buffer, less one character for the terminator, and sets the indicator to the
  byte length of what remained before the call (or \<open>SQL_NO_TOTAL\<close>); it returns
  \<open>SQL_SUCCESS_WITH_INFO\<close> while data remains and \<open>SQL_NO_DATA\<close> once all of it has
  been returned. The driver keeps its position; here it is recomputed from the call
  history: \<open>lob_offset\<close> is the number of characters returned by the earlier calls
  on column \<open>n\<close>. Display-size queries answer 0, the size of an unbounded column.
\<close>

fun is_get_data_of :: "nat \<Rightarrow> odbc_call \<Rightarrow> bool" where
  "is_get_data_of n (SQLGetData m _ _) = (m = n)"
| "is_get_data_of n _ = False"

primrec lob_offset :: "nat \<Rightarrow> nat \<Rightarrow> odbc_call list \<Rightarrow> nat" where
  "lob_offset n L [] = 0"
| "lob_offset n L (c # h) =
     (case c of
        SQLGetData m _ len \<Rightarrow>
          if m = n then min L (lob_offset n L h + (len div 2 - 1)) else lob_offset n L h
      | _ \<Rightarrow> lob_offset n L h)"

definition lob_reply :: "bool \<Rightarrow> wchar list \<Rightarrow> nat \<Rightarrow> odbc_call list \<Rightarrow> nat \<Rightarrow> reply" where
  "lob_reply nt v n h len =
     (let rest = drop (lob_offset n (length v) h) v; bl = len div 2
      in if rest = [] \<and> list_ex (is_get_data_of n) h then reply_rc SQL_NO_DATA
         else if length rest < bl then
           (reply_rc SQL_SUCCESS)\<lparr>r_len := word_of_nat (2 * length rest), r_data := WChars (rest @ [0])\<rparr>
         else
           (reply_rc SQL_SUCCESS_WITH_INFO)\<lparr>
              r_len := (if nt then SQL_NO_TOTAL else word_of_nat (2 * length rest)),
              r_data := WChars (take (bl - 1) rest @ [0])\<rparr>)"

definition lob_driver :: "bool \<Rightarrow> wchar list \<Rightarrow> nat \<Rightarrow> driver" where
  "lob_driver nt v n h c =
     (case c of
        SQLGetData m ct len \<Rightarrow> if m = n \<and> ct = SQL_C_WCHAR then lob_reply nt v n h len else reply_rc SQL_ERROR
      | _ \<Rightarrow> reply_rc SQL_SUCCESS)"

text \<open>The caller's loop (the JavaScript side of \<open>read_column\<close>): read the column
  again while the value read has the \<open>more\<close> flag, concatenating the packets. The
  fuel bounds the number of reads.\<close>

fun read_stream :: "nat \<Rightarrow> nat \<Rightarrow> stmt \<Rightarrow> (wchar list \<times> stmt) option" where
  "read_stream 0 col s = None"
| "read_stream (Suc f) col s =
     (case try_read_column col s of
        Some (True, s') \<Rightarrow>
          (case get_column_value s' of
             Some (StringColumn xs _, mr) \<Rightarrow>
               if mr then map_option (\<lambda>(ys, s''). (xs @ ys, s'')) (read_stream f col s')
               else Some (xs, s')
           | _ \<Rightarrow> None)
      | _ \<Rightarrow> None)"

section \<open>Streaming\<close>

lemma len_word:
  assumes "2 * k < 2 ^ 63"
  shows "unat (2 * word_of_nat k :: sqllen) = 2 * k"
    and "(2 * word_of_nat k :: sqllen) \<noteq> SQL_NULL_DATA"
    and "(2 * word_of_nat k :: sqllen) \<noteq> SQL_NO_TOTAL"
proof -
  have "(2 * word_of_nat k :: sqllen) = word_of_nat (2 * k)" by simp
  moreover have "unat (word_of_nat (2 * k) :: sqllen) = 2 * k"
    using assms by (simp only: unat_of_nat) simp
  ultimately show u: "unat (2 * word_of_nat k :: sqllen) = 2 * k" by simp
  have n1: "unat (SQL_NULL_DATA :: sqllen) = 2 ^ 64 - 1"
    by (simp add: unat_eq_nat_uint uint_word_ariths)
  have n4: "unat (SQL_NO_TOTAL :: sqllen) = 2 ^ 64 - 4"
    by (simp add: unat_eq_nat_uint uint_word_ariths)
  show "(2 * word_of_nat k :: sqllen) \<noteq> SQL_NULL_DATA"
  proof
    assume "(2 * word_of_nat k :: sqllen) = SQL_NULL_DATA"
    then have "2 * k = 18446744073709551615" using u n1 by simp
    then show False by presburger
  qed
  show "(2 * word_of_nat k :: sqllen) \<noteq> SQL_NO_TOTAL"
  proof
    assume "(2 * word_of_nat k :: sqllen) = SQL_NO_TOTAL"
    then have "2 * k = 2 ^ 64 - 4" using u n4 by simp
    then show False using assms by simp
  qed
qed

lemma lob_offset_other [simp]: "\<not> is_get_data_of n c \<Longrightarrow> lob_offset n L (c # h) = lob_offset n L h"
  by (cases c) auto

lemma lob_offset_le: "lob_offset n L h \<le> L"
  by (induction h) (auto split: odbc_call.split)

lemma lob_packet:
  assumes "drv s = lob_driver nt v (Suc col)"
    and "lob_offset (Suc col) (length v) (calls s) = off"
    and "off < length v \<or> \<not> list_ex (is_get_data_of (Suc col)) (calls s)"
    and "2 * length v < 2 ^ 63"
  shows "lob col s = Some (True, set_column
      (StringColumn (take LOB_PACKET_SIZE (drop off v)) (LOB_PACKET_SIZE < length v - off))
      (s\<lparr>calls := SQLGetData (Suc col) SQL_C_WCHAR (2 * (LOB_PACKET_SIZE + 1)) # calls s\<rparr>))"
proof -
  define rest where "rest = drop off v"
  have lw: "2 * length rest < 2 ^ 63" using assms(4) by (simp add: rest_def)
  have lr: "length v - off = length rest" by (simp add: rest_def)
  have ne: "\<not> (rest = [] \<and> list_ex (is_get_data_of (Suc col)) (calls s))"
    using assms(3) by (auto simp: rest_def)
  have rep: "drv s (calls s) (SQLGetData (Suc col) SQL_C_WCHAR (2 * (LOB_PACKET_SIZE + 1))) =
     (if length rest < LOB_PACKET_SIZE + 1 then
        (reply_rc SQL_SUCCESS)\<lparr>r_len := word_of_nat (2 * length rest), r_data := WChars (rest @ [0])\<rparr>
      else (reply_rc SQL_SUCCESS_WITH_INFO)\<lparr>
              r_len := (if nt then SQL_NO_TOTAL else word_of_nat (2 * length rest)),
              r_data := WChars (take LOB_PACKET_SIZE rest @ [0])\<rparr>)"
    using ne assms(1,2) by (auto simp: lob_driver_def lob_reply_def rest_def Let_def)
  show ?thesis
  proof (cases "length rest < LOB_PACKET_SIZE + 1")
    case True
    then show ?thesis using rep
      by (simp add: lob_def odbc_def check_odbc_error_eq Let_def reply_rc_def
          len_word [OF lw] resize_def lr flip: rest_def)
  next
    case False
    then show ?thesis using rep
      by (cases nt) (simp_all add: lob_def odbc_def check_odbc_error_eq Let_def reply_rc_def
          len_word [OF lw] resize_def lr flip: rest_def)
  qed
qed

lemma lob_offset_fresh: "\<not> list_ex (is_get_data_of n) h \<Longrightarrow> lob_offset n L h = 0"
  by (induction h) (auto split: odbc_call.split)


lemma lob_read_column:
  assumes "drv s = lob_driver nt v (Suc col)" "meta_at col s = Some d"
    and "decoder_of (data_type d) = DString"
  shows "try_read_column col s =
           lob col (s\<lparr>calls := SQLColAttribute (Suc col) SQL_DESC_DISPLAY_SIZE # calls s\<rparr>)"
  using assms
  by (simp add: try_read_column_def dispatch.simps try_read_string_def odbc_def
      check_odbc_error_eq lob_driver_def reply_rc_def lob_display_size_def Let_def)

lemma read_stream_from:
  assumes "drv s = lob_driver nt v (Suc col)" "meta_at col s = Some d"
    and "decoder_of (data_type d) = DString"
    and "lob_offset (Suc col) (length v) (calls s) = off"
    and "off < length v \<or> \<not> list_ex (is_get_data_of (Suc col)) (calls s)"
    and "2 * length v < 2 ^ 63" "(length v - off) div LOB_PACKET_SIZE < f"
  shows "\<exists>s'. read_stream f col s = Some (drop off v, s')"
  using assms
proof (induction f arbitrary: s off)
  case 0
  then show ?case by simp
next
  case (Suc f)
  let ?s1 = "s\<lparr>calls := SQLColAttribute (Suc col) SQL_DESC_DISPLAY_SIZE # calls s\<rparr>"
  let ?more = "LOB_PACKET_SIZE < length v - off"
  let ?s2 = "set_column (StringColumn (take LOB_PACKET_SIZE (drop off v)) ?more)
               (?s1\<lparr>calls := SQLGetData (Suc col) SQL_C_WCHAR (2 * (LOB_PACKET_SIZE + 1)) # calls ?s1\<rparr>)"
  have rc: "try_read_column col s = Some (True, ?s2)"
    using Suc.prems lob_read_column [of s nt v col d] lob_packet [of ?s1 nt v col off]
    by simp
  have cc: "current_column ?s2 = Some (StringColumn (take LOB_PACKET_SIZE (drop off v)) ?more)"
    using Suc.prems(2) by (auto simp: meta_at_def split: option.splits if_splits)
  show ?case
  proof (cases ?more)
    case True
    have "\<exists>s'. read_stream f col ?s2 = Some (drop (off + LOB_PACKET_SIZE) v, s')"
      using Suc.prems True
      by (intro Suc.IH) (auto simp: min_def)
    moreover have "take LOB_PACKET_SIZE (drop off v) @ drop (off + LOB_PACKET_SIZE) v = drop off v"
      by (metis append_take_drop_id drop_drop add.commute)
    ultimately show ?thesis using rc cc True by auto
  next
    case False
    then show ?thesis using rc cc by (auto split: option.splits)
  qed
qed

text \<open>C5 (lob_roundtrip):
  Reading an unbounded wide-character column packet by packet, through
  \<open>TryReadColumn\<close>, \<open>dispatch\<close>, \<open>TryReadString\<close> and \<open>Lob\<close>, until a packet
  comes without the \<open>more\<close> flag, returns exactly the value the driver holds,
  within at most \<open>length v div LOB_PACKET_SIZE + 1\<close> reads, whether or not the driver
  reports the remaining length (for a column not read before, of byte length below
  \<open>2^63\<close>).\<close>

lemma lob_roundtrip:
  assumes "drv s = lob_driver nt v (col + 1)" "meta_at col s = Some d"
    and "decoder_of (data_type d) = DString"
    and "\<not> list_ex (is_get_data_of (col + 1)) (calls s)" "2 * length v < 2 ^ 63"
  shows "\<exists>s'. read_stream (length v div LOB_PACKET_SIZE + 1) col s = Some (v, s')"
proof -
  have "lob_offset (Suc col) (length v) (calls s) = 0"
    using assms(4) lob_offset_fresh by simp
  then show ?thesis
    using read_stream_from [of s nt v col d 0 "length v div LOB_PACKET_SIZE + 1"] assms
    by (simp del: read_stream.simps)
qed

lemma lob_roundtrip_witness:
  "\<exists>s'. read_stream (length (replicate 8193 (65 :: wchar)) div LOB_PACKET_SIZE + 1) 0
     (reading_statement SQL_WVARCHAR (lob_driver False (replicate 8193 65) 1)) =
     Some (replicate 8193 65, s')"
  by (rule lob_roundtrip [where d = "default_definition\<lparr>data_type := SQL_WVARCHAR\<rparr>"])
     (simp_all add: reading_statement_def new_statement_def meta_at_def decoder_of_def)

end
