(* ===== verification/Lifecycle.thy ===== *)
theory Lifecycle
  imports Execute Lob_Stream
begin

text \<open>
  The statement as the boundary layer drives it: the \<open>ReadRowOperation\<close> wrapper
  (\<open>src/src/ReadRowOperation.cpp\<close>), the operations of one statement as a datatype
  with a step function over the component models, the reachable states, and the
  lemmas that every operation keeps the statement out of \<open>STATEMENT_CANCELLED\<close>
  and keeps the prepared storage of a prepared statement, and that an execution
  outside the poll loop keeps the cancel flag.
\<close>

section \<open>ReadRowOperation\<close>

text \<open>\<open>ReadRowOperation::TryInvokeOdbc\<close>: false on a null statement, otherwise
  \<open>TryReadRow\<close>; \<open>CreateCompletionArg\<close>: the statement's end-of-rows flag.\<close>

definition read_row_invoke :: "stmt option \<Rightarrow> bool \<times> stmt option" where
  "read_row_invoke st = (case st of None \<Rightarrow> (False, None)
      | Some s \<Rightarrow> (let (res, s') = try_read_row s in (res, Some s')))"

definition read_row_completion :: "stmt \<Rightarrow> bool option" where
  "read_row_completion s = end_of_rows_of s"

section \<open>Operations and reachable states\<close>

text \<open>The operations the boundary layer invokes on one statement, serially (the
  specification's interface: prepare, execute, read_row, read_column, next result,
  cancel, set_polling, and closing by the destructor), one step of the statement per
  operation, the states reachable from a new statement on any driver, and runs of
  several operations.\<close>

datatype operation =
    Prepare "wchar list" | ExecuteDirect "wchar list" "32 word" bound_datum_set
  | BindFetch bound_datum_set | ReadRow | ReadColumn nat | NextResult | Cancel | SetPolling bool
  | Close

fun step :: "operation \<Rightarrow> stmt \<Rightarrow> (bool \<times> stmt) option" where
  "step (Prepare q) s = try_prepare q s"
| "step (ExecuteDirect q t ps) s = try_execute_direct q t ps s"
| "step (BindFetch ps) s = bind_fetch ps s"
| "step ReadRow s = Some (try_read_row s)"
| "step (ReadColumn c) s = try_read_column c s"
| "step NextResult s = try_read_next_result s"
| "step Cancel s = Some (cancel s)"
| "step (SetPolling b) s = Some (set_polling b s)"
| "step Close s = Some (True, close_statement s)"

inductive reachable :: "stmt \<Rightarrow> bool" where
  created: "reachable (new_statement d)"
| stepped: "reachable s \<Longrightarrow> step op s = Some (b, s') \<Longrightarrow> reachable s'"

fun run :: "operation list \<Rightarrow> stmt \<Rightarrow> (bool list \<times> stmt) option" where
  "run [] s = Some ([], s)"
| "run (op # ops) s =
     (case step op s of None \<Rightarrow> None
      | Some (b, s') \<Rightarrow> map_option (\<lambda>(bs, s''). (b # bs, s'')) (run ops s'))"

abbreviation not_cancelled :: "stmt \<Rightarrow> bool" where
  "not_cancelled s \<equiv> statement_state s \<noteq> STATEMENT_CANCELLED"

text \<open>The number of described columns, and the operations that describe a new
  result set.\<close>

abbreviation described_columns :: "stmt \<Rightarrow> nat option" where
  "described_columns s \<equiv> map_option (\<lambda>rs. length (metadata rs)) (resultset s)"

abbreviation describes :: "operation \<Rightarrow> bool" where
  "describes op \<equiv> (case op of Prepare _ \<Rightarrow> True | ExecuteDirect _ _ _ \<Rightarrow> True
                   | NextResult \<Rightarrow> True | _ \<Rightarrow> False)"

abbreviation storage_ok :: "stmt \<Rightarrow> bool" where
  "storage_ok s \<equiv> prepared s \<longrightarrow> prepared_storage s \<noteq> None"

abbreviation keeps_cancel :: "stmt \<Rightarrow> stmt \<Rightarrow> bool" where
  "keeps_cancel s s' \<equiv> cancel_requested s' = cancel_requested s"

section \<open>No operation enters \<open>STATEMENT_CANCELLED\<close>\<close>

lemma state_check [simp]:
  "statement_state (snd (check_odbc_error rc s)) =
   (if SQL_SUCCEEDED rc then statement_state s else STATEMENT_ERROR)"
  by (simp add: check_odbc_error_eq)

lemma state_odbc [simp]: "statement_state (snd (odbc c s)) = statement_state s"
  by (simp add: odbc_def)

lemma state_return_error [simp]: "statement_state (snd (return_odbc_error s)) = statement_state s"
  by (simp add: return_odbc_error_eq)

lemma state_update_meta [simp]: "statement_state (update_meta i f s) = statement_state s"
  by (simp add: update_meta_def)

lemma state_set_column [simp]: "statement_state (set_column c s) = statement_state s"
  by (simp add: set_column_def)

lemma state_set_end_of_rows: "set_end_of_rows b s = Some s' \<Longrightarrow> statement_state s' = statement_state s"
  by (auto simp: set_end_of_rows_def split: option.splits)


lemma read_col_attributes_nc:
  "read_col_attributes i s = Some (b, s') \<Longrightarrow> not_cancelled s \<Longrightarrow> not_cancelled s'"
  unfolding read_col_attributes_def
  by (auto simp: stmt_steps split: prod.splits if_splits option.splits)

lemma read_next_nc:
  "read_next i s = Some (b, s') \<Longrightarrow> not_cancelled s \<Longrightarrow> not_cancelled s'"
  unfolding read_next_def
  by (auto simp: stmt_steps dest!: read_col_attributes_nc split: prod.splits if_splits option.splits)

lemma read_columns_nc:
  "read_columns i n s = Some (b, s') \<Longrightarrow> not_cancelled s \<Longrightarrow> not_cancelled s'"
  by (rule read_columns_pres [where P = not_cancelled, OF read_next_nc])

lemma start_reading_results_nc:
  "start_reading_results s = Some (b, s') \<Longrightarrow> not_cancelled s \<Longrightarrow> not_cancelled s'"
  unfolding start_reading_results_def
  by (auto simp: Let_def odbc_def check_odbc_error_eq dest!: read_columns_nc
      simp del: read_columns.simps split: prod.splits if_splits option.splits)

lemma try_read_next_result_nc:
  "try_read_next_result s = Some (b, s') \<Longrightarrow> not_cancelled s \<Longrightarrow> not_cancelled s'"
  unfolding try_read_next_result_def
  by (auto simp: stmt_steps dest!: start_reading_results_nc state_set_end_of_rows
      split: prod.splits if_splits option.splits)

lemma try_read_row_nc: "try_read_row s = (b, s') \<Longrightarrow> not_cancelled s \<Longrightarrow> not_cancelled s'"
  unfolding try_read_row_def
  by (auto simp: stmt_steps fetch_writes_def split: prod.splits if_splits option.splits)

lemma bind_params_loop_nc:
  "bind_params_loop p ds s = (b, s') \<Longrightarrow> not_cancelled s \<Longrightarrow> not_cancelled s'"
  by (induction p ds s arbitrary: b rule: bind_params_loop.induct)
     (auto simp: stmt_steps apply_precision_def split: prod.splits if_splits)

lemma bind_params_nc: "bind_params ps s = (b, s') \<Longrightarrow> not_cancelled s \<Longrightarrow> not_cancelled s'"
  unfolding bind_params_def
  by (auto simp: stmt_steps dest!: bind_params_loop_nc split: prod.splits if_splits)

lemma query_timeout_nc: "query_timeout t s = (r, s') \<Longrightarrow> not_cancelled s \<Longrightarrow> not_cancelled s'"
  unfolding query_timeout_def
  by (auto simp: stmt_steps split: prod.splits if_splits)

lemma poll_fuel_nc:
  "poll_fuel n d s = Some (r, s') \<Longrightarrow> not_cancelled s \<Longrightarrow> not_cancelled s'"
  by (induction n d s rule: poll_fuel.induct)
     (auto simp: stmt_steps poll_turn_def cancel_handle_eq split: if_splits prod.splits)

lemma execute_call_nc:
  "execute_call p c d s = Some (r, s') \<Longrightarrow> not_cancelled s \<Longrightarrow> not_cancelled s'"
  by (auto simp: execute_call_def poll_check_def odbc_def split: if_splits prod.splits
      dest!: poll_loop_fuel poll_fuel_nc)

lemma check_nc:
  "check_odbc_error rc s = (ok, s') \<Longrightarrow> not_cancelled s \<Longrightarrow> not_cancelled s'"
  by (auto simp: check_odbc_error_eq split: if_splits)

lemma try_execute_direct_nc:
  assumes r: "try_execute_direct q t ps s = Some (b, s')" and nc: "not_cancelled s"
  shows "not_cancelled s'"
proof -
  obtain bound s1 where b1: "bind_params ps s = (bound, s1)" by fastforce
  have n1: "not_cancelled s1" using bind_params_nc [OF b1 nc] .
  obtain ret s3 where q: "query_timeout (sint t) (s1\<lparr>end_of_results := True\<rparr>) = (ret, s3)"
    by fastforce
  have n3: "not_cancelled s3" using query_timeout_nc [OF q] n1 by simp
  obtain ok s4 where c: "check_odbc_error ret s3 = (ok, s4)" by fastforce
  have n4: "not_cancelled s4" using check_nc [OF c n3] .
  show ?thesis
    using r n1 n4
    by (auto simp: try_execute_direct_def Let_def b1 q c enable_async_def return_odbc_error_eq
        odbc_def dest!: execute_call_nc start_reading_results_nc state_set_end_of_rows
        split: if_splits option.splits prod.splits)
qed

lemma read_next_each_nc:
  "read_next_each ix s = Some s' \<Longrightarrow> not_cancelled s \<Longrightarrow> not_cancelled s'"
  by (induction ix arbitrary: s) (auto dest!: read_next_nc split: option.splits)

lemma bind_cols_nc: "bind_cols i ds s = (b, s') \<Longrightarrow> not_cancelled s \<Longrightarrow> not_cancelled s'"
  by (induction i ds s arbitrary: b rule: bind_cols.induct)
     (auto simp: Let_def odbc_def check_odbc_error_eq split: if_splits)

lemma try_prepare_nc:
  "try_prepare q s = Some (b, s') \<Longrightarrow> not_cancelled s \<Longrightarrow> not_cancelled s'"
  unfolding try_prepare_def
  by (auto simp: Let_def odbc_def check_odbc_error_eq dest!: read_next_each_nc bind_cols_nc
      state_set_end_of_rows split: prod.splits if_splits option.splits)

lemma bind_fetch_nc:
  "bind_fetch ps s = Some (b, s') \<Longrightarrow> not_cancelled s \<Longrightarrow> not_cancelled s'"
  unfolding bind_fetch_def
  by (auto simp: Let_def odbc_def check_odbc_error_eq enable_async_def
      dest!: bind_params_nc execute_call_nc split: prod.splits if_splits option.splits)

lemmas decoder_defs = d_bit_def d_integer_def d_decimal_def d_binary_def d_timestamp_def
  d_timestamp_offset_def d_time_def get_data_long_def get_data_bit_def get_data_decimal_def
  get_data_timestamp_def get_data_timestamp_offset_def get_data_into_def get_data_binary_def
  prepared_column_def try_read_string_def lob_def bounded_string_def reserved_string_def

lemma dispatch_nc:
  "dispatch t c s = Some (b, s') \<Longrightarrow> not_cancelled s \<Longrightarrow> not_cancelled s'"
proof -
  have "dispatch t c s = Some y \<Longrightarrow> not_cancelled s \<longrightarrow> not_cancelled (snd y)" for y
    by (rule dispatch.raw_induct [where P = "\<lambda>t c s y. not_cancelled s \<longrightarrow> not_cancelled (snd y)"])
       (auto simp: decoder_defs Let_def odbc_def check_odbc_error_eq
         split: decoder.splits prod.splits if_splits option.splits list.splits)
  then show "dispatch t c s = Some (b, s') \<Longrightarrow> not_cancelled s \<Longrightarrow> not_cancelled s'"
    by fastforce
qed

lemma meta_at_fetch [simp]:
  "meta_at i (s\<lparr>resultset := Some (rs\<lparr>end_of_rows := b\<rparr>)\<rparr>) = meta_at i (s\<lparr>resultset := Some rs\<rparr>)"
  by (simp add: meta_at_def)

lemma step_nc: "step op s = Some (b, s') \<Longrightarrow> not_cancelled s \<Longrightarrow> not_cancelled s'"
  by (cases op)
     (auto simp: try_read_column_def cancel_def set_polling_def close_statement_def
       dest: try_prepare_nc try_execute_direct_nc bind_fetch_nc try_read_row_nc dispatch_nc
         try_read_next_result_nc split: option.splits if_splits)

section \<open>The cancel flag outside the poll loop\<close>

text \<open>Only \<open>cancel\<close> sets \<open>_cancelRequested\<close> and only \<open>cancelHandle\<close>, in a poll
  turn, clears it: every other piece of an execution keeps it.\<close>

lemma cancel_requested_odbc [simp]: "cancel_requested (snd (odbc c s)) = cancel_requested s"
  by (simp add: odbc_def)

lemma cancel_requested_check [simp]:
  "cancel_requested (snd (check_odbc_error rc s)) = cancel_requested s"
  by (simp add: check_odbc_error_eq)

lemma cancel_requested_return_error [simp]:
  "cancel_requested (snd (return_odbc_error s)) = cancel_requested s"
  by (simp add: return_odbc_error_eq)

lemma execute_call_cr:
  "execute_call p c d s = Some (r, s') \<Longrightarrow> r_rc (drv s (calls s) c) \<noteq> SQL_STILL_EXECUTING \<Longrightarrow>
   keeps_cancel s s'"
  by (auto simp: execute_call_def poll_check_def odbc_def split: if_splits)

section \<open>The described column count\<close>

lemma columns_set_column [simp]: "described_columns (set_column c s) = described_columns s"
  by (cases "resultset s") (simp_all add: set_column_def)

lemma try_read_row_columns: "try_read_row s = (b, s') \<Longrightarrow> described_columns s' = described_columns s"
  by (auto simp: try_read_row_def stmt_steps fetch_writes_def split: option.splits if_splits)

lemma dispatch_columns:
  "dispatch t c s = Some (b, s') \<Longrightarrow> described_columns s' = described_columns s"
proof -
  have "dispatch t c s = Some y \<Longrightarrow> described_columns (snd y) = described_columns s" for y
    by (rule dispatch.raw_induct [where P = "\<lambda>t c s y. described_columns (snd y) = described_columns s"])
       (auto simp: decoder_defs stmt_steps
         split: decoder.splits prod.splits if_splits option.splits list.splits)
  then show "dispatch t c s = Some (b, s') \<Longrightarrow> described_columns s' = described_columns s"
    by fastforce
qed

lemma bind_fetch_columns:
  assumes r: "bind_fetch ps s = Some (b, s')"
  shows "described_columns s' = described_columns s"
proof -
  obtain bound sb where b1: "bind_params ps s = (bound, sb)" by fastforce
  have "resultset sb = resultset s" "polling_enabled sb = polling_enabled s"
    using bind_params_keeps [of ps s] b1 by simp_all
  then show ?thesis
    using r by (auto simp: bind_fetch_def b1 stmt_steps enable_async_def
        dest!: execute_call_frame split: prod.splits if_splits option.splits)
qed

section \<open>A prepared statement keeps a prepared storage\<close>

text \<open>Only \<open>TryPrepare\<close> sets \<open>_prepared\<close>, after creating \<open>_preparedStorage\<close>;
  no operation drops the storage, so the prepared decoders always find one.\<close>

lemma query_timeout_setup: "query_timeout t s = (r, s') \<Longrightarrow> keeps_setup s s'"
  unfolding query_timeout_def
  by (auto simp: keeps_setup_def stmt_steps split: prod.splits if_splits)

lemma try_execute_direct_prepared:
  assumes r: "try_execute_direct q t ps s = Some (b, s')"
  shows "prepared s' = prepared s \<and> prepared_storage s' = prepared_storage s"
proof -
  obtain bound sb where b1: "bind_params ps s = (bound, sb)" by fastforce
  have fb: "prepared sb = prepared s" "prepared_storage sb = prepared_storage s"
    using bind_params_keeps [of ps s] b1 by simp_all
  obtain ret s3 where q: "query_timeout (sint t) (sb\<lparr>end_of_results := True\<rparr>) = (ret, s3)"
    by fastforce
  have f3: "prepared s3 = prepared s" "prepared_storage s3 = prepared_storage s"
    using query_timeout_setup [OF q] fb by (simp_all add: keeps_setup_def)
  show ?thesis
    using r fb f3
    by (auto simp: try_execute_direct_def Let_def b1 q enable_async_def set_end_of_rows_def
        stmt_steps keeps_setup_def
        dest!: execute_call_frame start_reading_results_setup split: if_splits option.splits prod.splits)
qed

lemma bind_fetch_prepared:
  assumes r: "bind_fetch ps s = Some (b, s')"
  shows "prepared s' = prepared s \<and> prepared_storage s' = prepared_storage s"
proof -
  obtain bound sb where b1: "bind_params ps s = (bound, sb)" by fastforce
  have "prepared sb = prepared s" "prepared_storage sb = prepared_storage s"
    using bind_params_keeps [of ps s] b1 by simp_all
  then show ?thesis
    using r by (auto simp: bind_fetch_def b1 stmt_steps enable_async_def
        dest!: execute_call_frame split: prod.splits if_splits option.splits)
qed

lemma try_read_row_storage_ok: "try_read_row s = (b, s') \<Longrightarrow> storage_ok s \<Longrightarrow> storage_ok s'"
  by (auto simp: try_read_row_def stmt_steps fetch_writes_def split: option.splits if_splits)

lemma dispatch_prepared:
  "dispatch t c s = Some (b, s') \<Longrightarrow> prepared s' = prepared s \<and> prepared_storage s' = prepared_storage s"
proof -
  have "dispatch t c s = Some y \<Longrightarrow> prepared (snd y) = prepared s \<and> prepared_storage (snd y) = prepared_storage s" for y
    by (rule dispatch.raw_induct [where P = "\<lambda>t c s y. prepared (snd y) = prepared s \<and>
          prepared_storage (snd y) = prepared_storage s"])
       (auto simp: decoder_defs stmt_steps set_column_def update_meta_def
         split: decoder.splits prod.splits if_splits option.splits list.splits)
  then show "dispatch t c s = Some (b, s') \<Longrightarrow> prepared s' = prepared s \<and> prepared_storage s' = prepared_storage s"
    by fastforce
qed

lemma try_prepare_storage_ok: "try_prepare q s = Some (b, s') \<Longrightarrow> storage_ok s \<Longrightarrow> storage_ok s'"
  unfolding try_prepare_def
  by (auto simp: stmt_steps set_end_of_rows_def dest!: read_next_each_frame bind_cols_frame
      split: prod.splits if_splits option.splits)

lemma step_storage_ok: "step op s = Some (b, s') \<Longrightarrow> storage_ok s \<Longrightarrow> storage_ok s'"
  by (cases op)
     (auto simp: try_read_column_def cancel_def set_polling_def close_statement_def keeps_setup_def
       dest: try_prepare_storage_ok try_execute_direct_prepared bind_fetch_prepared
         try_read_row_storage_ok dispatch_prepared try_read_next_result_setup
       split: option.splits if_splits)

end
