(* ===== verification/Cursor.thy ===== *)
theory Cursor
  imports Lifecycle
begin

text \<open>
  Refinement of the specification's row cursor by \<open>TryReadRow\<close> and
  \<open>TryReadColumn\<close> (\<open>src/src/OdbcStatement.cpp\<close>) on an unprepared statement whose
  columns are integers: a driver serving a table and the contract \<open>serving\<close> of a
  driver that serves a table after some history (so that the lemmas apply to any
  result set of a sequence), an abstraction from statements to cursors, simulation
  lemmas for one row read and one column read, the refinement of whole runs through
  a simulation lemma generic in the invariant, and its composition with
  \<open>TryExecuteDirect\<close>, which describes the table's columns and establishes the
  invariant.
  The values are kept in \<open>[0, 2^31)\<close>: \<open>getDataLong\<close> reads negative
  integers zero-extended (\<open>Decode.get_data_long_zero_extends\<close>).
\<close>

section \<open>The abstract cursor\<close>

text \<open>What the specification promises a caller reading a result set of nullable
  integers: \<open>read_row\<close> moves to the next row and says whether there was one,
  \<open>read_column\<close> returns the current row's value (Null for a NULL).\<close>

type_synonym cursor = "int option list list \<times> int option list option"

definition spec_read_row :: "cursor \<Rightarrow> bool \<times> cursor" where
  "spec_read_row c = (case fst c of [] \<Rightarrow> (False, ([], None)) | r # rs \<Rightarrow> (True, (rs, Some r)))"

definition spec_read_column :: "nat \<Rightarrow> cursor \<Rightarrow> column" where
  "spec_read_column i c =
     (case snd c of None \<Rightarrow> NullColumn
      | Some r \<Rightarrow> (case r ! i of None \<Rightarrow> NullColumn | Some v \<Rightarrow> IntColumn v))"

section \<open>The implementation side\<close>

text \<open>A driver serving a table of nullable integers (as \<open>SQL_C_SLONG\<close> to
  \<open>SQLGetData\<close>, and written by \<open>SQLFetch\<close> into the bound buffers), the
  abstraction of a statement to the cursor (rows not yet fetched, the current row),
  the invariant of a statement reading such a table, and the observations a caller
  makes through the operations.\<close>

definition fetch_count :: "odbc_call list \<Rightarrow> nat" where
  "fetch_count h = count_list h SQLFetch"

definition bound_cell :: "int option \<Rightarrow> sqllen \<times> wire" where
  "bound_cell v = (case v of None \<Rightarrow> (SQL_NULL_DATA, WNothing) | Some x \<Rightarrow> (4, WLong (word_of_int x)))"

definition table_driver :: "nat \<Rightarrow> int option list list \<Rightarrow> driver" where
  "table_driver n T h c =
     (let k = fetch_count h
      in case c of
           SQLNumResultCols \<Rightarrow> (reply_rc SQL_SUCCESS)\<lparr>r_count := of_nat n\<rparr>
         | SQLDescribeCol _ _ \<Rightarrow> (reply_rc SQL_SUCCESS)\<lparr>r_type := SQL_INTEGER\<rparr>
         | SQLFetch \<Rightarrow>
             if k < length T then (reply_rc SQL_SUCCESS)\<lparr>r_bound := map bound_cell (T ! k)\<rparr>
             else reply_rc SQL_NO_DATA
         | SQLGetData i ct len \<Rightarrow>
             if 0 < k \<and> k \<le> length T \<and> 0 < i \<and> i \<le> length (T ! (k - 1)) then
               (case T ! (k - 1) ! (i - 1) of
                  None \<Rightarrow> (reply_rc SQL_SUCCESS)\<lparr>r_len := SQL_NULL_DATA\<rparr>
                | Some v \<Rightarrow> (reply_rc SQL_SUCCESS)\<lparr>r_len := 4, r_data := WLong (word_of_int v)\<rparr>)
             else reply_rc SQL_ERROR
         | _ \<Rightarrow> reply_rc SQL_SUCCESS)"

text \<open>The driver's row position in the current result set: the fetches since the
  last \<open>SQLMoreResults\<close>. A driver serves a table at a history \<open>h\<close> when \<open>h\<close>
  extends, by calls other than \<open>SQLMoreResults\<close>, a history \<open>h0\<close> (empty, or ending
  with \<open>SQLMoreResults\<close>) after which the driver answers every call but
  \<open>SQLMoreResults\<close> as the table driver does on the calls made since \<open>h0\<close>.\<close>

definition current_fetches :: "odbc_call list \<Rightarrow> nat" where
  "current_fetches h = fetch_count (takeWhile (\<lambda>c. c \<noteq> SQLMoreResults) h)"

definition serving :: "nat \<Rightarrow> int option list list \<Rightarrow> driver \<Rightarrow> odbc_call list \<Rightarrow> bool" where
  "serving n T d h \<longleftrightarrow>
     (\<exists>h0 hr. h = hr @ h0 \<and> SQLMoreResults \<notin> set hr \<and> takeWhile (\<lambda>c. c \<noteq> SQLMoreResults) h0 = [] \<and>
        (\<forall>h' c. SQLMoreResults \<notin> set h' \<longrightarrow> c \<noteq> SQLMoreResults \<longrightarrow> d (h' @ h0) c = table_driver n T h' c))"

definition abs_cursor :: "int option list list \<Rightarrow> stmt \<Rightarrow> cursor" where
  "abs_cursor T s =
     (let k = current_fetches (calls s)
      in (drop k T, if 0 < k \<and> k \<le> length T then Some (T ! (k - 1)) else None))"

definition int_definition :: column_definition where
  "int_definition = default_definition\<lparr>data_type := SQL_INTEGER\<rparr>"

abbreviation int_table :: "nat \<Rightarrow> int option list list \<Rightarrow> bool" where
  "int_table n T \<equiv>
     list_all (\<lambda>r. length r = n \<and> list_all (\<lambda>v. case v of None \<Rightarrow> True | Some x \<Rightarrow> 0 \<le> x \<and> x < 2 ^ 31) r) T"

definition cursor_inv :: "int option list list \<Rightarrow> nat \<Rightarrow> stmt \<Rightarrow> bool" where
  "cursor_inv T n s \<longleftrightarrow>
     serving n T (drv s) (calls s) \<and> \<not> prepared s \<and>
     map_option metadata (resultset s) = Some (replicate n int_definition) \<and> int_table n T"

datatype observation = Row bool | Value "column option" | Ends bool

definition cursor_op :: "nat \<Rightarrow> operation \<Rightarrow> bool" where
  "cursor_op n op = (case op of ReadRow \<Rightarrow> True | ReadColumn i \<Rightarrow> i < n | _ \<Rightarrow> False)"

fun spec_run :: "operation list \<Rightarrow> cursor \<Rightarrow> observation list option" where
  "spec_run [] c = Some []"
| "spec_run (ReadRow # ops) c =
     (let (b, c') = spec_read_row c in map_option (Cons (Row b)) (spec_run ops c'))"
| "spec_run (ReadColumn i # ops) c =
     (if snd c = None then None
      else map_option (Cons (Value (Some (spec_read_column i c)))) (spec_run ops c))"
| "spec_run (_ # ops) c = None"

text \<open>What the caller observes after an operation returned \<open>b\<close>: a row is reported
  when the read succeeded and is not at the end of the rows; a column read yields
  the current column; after moving to the next result set the caller reads
  \<open>end_of_results()\<close>.\<close>

fun observe :: "operation \<Rightarrow> bool \<Rightarrow> stmt \<Rightarrow> observation" where
  "observe (ReadColumn i) b s = Value (current_column s)"
| "observe NextResult b s = Ends (end_of_results_of s)"
| "observe _ b s = Row (b \<and> end_of_rows_of s = Some False)"

fun obs_run :: "operation list \<Rightarrow> stmt \<Rightarrow> observation list option" where
  "obs_run [] s = Some []"
| "obs_run (op # ops) s =
     (case step op s of None \<Rightarrow> None
      | Some (b, s') \<Rightarrow> map_option (Cons (observe op b s')) (obs_run ops s'))"

definition cursor_statement :: "int option list list \<Rightarrow> nat \<Rightarrow> stmt" where
  "cursor_statement T n =
     (new_statement (table_driver n T))\<lparr>resultset := Some \<lparr>metadata = replicate n int_definition,
        rowcount = 0, end_of_rows = False, column = None\<rparr>\<rparr>"

section \<open>Simulation\<close>

lemma fetch_count_cons [simp]: "fetch_count (c # h) = (if c = SQLFetch then Suc (fetch_count h) else fetch_count h)"
  by (simp add: fetch_count_def)

lemma fetch_count_append [simp]: "fetch_count (h @ h') = fetch_count h + fetch_count h'"
  by (simp add: fetch_count_def)

lemma current_fetches_cons [simp]:
  "current_fetches (c # h) =
     (if c = SQLMoreResults then 0 else if c = SQLFetch then Suc (current_fetches h) else current_fetches h)"
  by (simp add: current_fetches_def fetch_count_def)

lemma current_fetches_Nil [simp]: "current_fetches [] = 0"
  by (simp add: current_fetches_def fetch_count_def)

lemma current_fetches_fold [simp]:
  "fetch_count (takeWhile (\<lambda>c. c \<noteq> SQLMoreResults) h) = current_fetches h"
  by (simp add: current_fetches_def)

text \<open>Calls that neither fetch nor move to the next result set.\<close>

abbreviation quiet :: "odbc_call list \<Rightarrow> bool" where
  "quiet h \<equiv> SQLFetch \<notin> set h \<and> SQLMoreResults \<notin> set h"

lemma current_fetches_quiet [simp]: "quiet h' \<Longrightarrow> current_fetches (h' @ h) = current_fetches h"
  by (induction h') auto

lemma serving_cons [simp]: "c \<noteq> SQLMoreResults \<Longrightarrow> serving n T d (c # h) = serving n T d h"
proof
  assume c: "c \<noteq> SQLMoreResults" and "serving n T d (c # h)"
  then obtain h0 hr where h: "c # h = hr @ h0" "SQLMoreResults \<notin> set hr"
      "takeWhile (\<lambda>c. c \<noteq> SQLMoreResults) h0 = []"
      "\<forall>h' c. SQLMoreResults \<notin> set h' \<longrightarrow> c \<noteq> SQLMoreResults \<longrightarrow> d (h' @ h0) c = table_driver n T h' c"
    by (auto simp: serving_def)
  then obtain hr' where "hr = c # hr'" using c by (cases hr) auto
  then show "serving n T d h" using h unfolding serving_def by auto
next
  assume "serving n T d h"
  then obtain h0 hr where h: "h = hr @ h0" "SQLMoreResults \<notin> set hr"
      "takeWhile (\<lambda>c. c \<noteq> SQLMoreResults) h0 = []"
      "\<forall>h' c. SQLMoreResults \<notin> set h' \<longrightarrow> c \<noteq> SQLMoreResults \<longrightarrow> d (h' @ h0) c = table_driver n T h' c"
    by (auto simp: serving_def)
  then show "serving n T d (c # h)" if "c \<noteq> SQLMoreResults"
    using that unfolding serving_def by (intro exI [of _ h0] exI [of _ "c # hr"]) simp
qed

lemma serving_append [simp]: "SQLMoreResults \<notin> set h' \<Longrightarrow> serving n T d (h' @ h) = serving n T d h"
  by (induction h') auto

lemma serving_table_driver: "serving n T (table_driver n T) []"
  unfolding serving_def by (intro exI [of _ "[]"]) simp

text \<open>The answer of a driver serving a table.\<close>

lemma serving_reply:
  assumes "serving n T d h" "c \<noteq> SQLMoreResults"
  shows "d h c = table_driver n T (takeWhile (\<lambda>c. c \<noteq> SQLMoreResults) h) c"
proof -
  obtain h0 hr where h: "h = hr @ h0" "SQLMoreResults \<notin> set hr"
      "takeWhile (\<lambda>c. c \<noteq> SQLMoreResults) h0 = []"
      "\<forall>h' c. SQLMoreResults \<notin> set h' \<longrightarrow> c \<noteq> SQLMoreResults \<longrightarrow> d (h' @ h0) c = table_driver n T h' c"
    using assms(1) by (auto simp: serving_def)
  have "takeWhile (\<lambda>c. c \<noteq> SQLMoreResults) (hr @ h0) = hr @ takeWhile (\<lambda>c. c \<noteq> SQLMoreResults) h0"
    using h(2) by (intro takeWhile_append2) auto
  then have "takeWhile (\<lambda>c. c \<noteq> SQLMoreResults) h = hr" using h(1,3) by simp
  then show ?thesis using h assms(2) by simp
qed

lemma serving_answer:
  "serving n T (drv s) h \<Longrightarrow> c \<noteq> SQLMoreResults \<Longrightarrow>
   drv s h c = table_driver n T (takeWhile (\<lambda>c. c \<noteq> SQLMoreResults) h) c"
  by (rule serving_reply)

lemma drop_eq_Cons: "drop k T = x # xs \<Longrightarrow> T ! k = x \<and> drop (Suc k) T = xs"
  by (metis drop_Suc drop_tl hd_drop_conv_nth list.sel(1,3) nat_less_le not_Cons_self2 drop_all
      leI)

lemma cursor_read_row_refines:
  assumes "cursor_inv T n s"
  shows "fst (try_read_row s) \<and> cursor_inv T n (snd (try_read_row s)) \<and>
         abs_cursor T (snd (try_read_row s)) = snd (spec_read_row (abs_cursor T s)) \<and>
         end_of_rows_of (snd (try_read_row s)) = Some (\<not> fst (spec_read_row (abs_cursor T s)))"
  using assms
  by (auto simp: cursor_inv_def try_read_row_def odbc_def fetch_writes_def check_odbc_error_eq Let_def
      serving_answer [of n T] table_driver_def abs_cursor_def spec_read_row_def end_of_rows_of_def
      reply_rc_def SQL_SUCCEEDED_def split: option.splits list.splits dest: drop_eq_Cons)

lemma uint_slong_small: "0 \<le> v \<Longrightarrow> v < 2 ^ 31 \<Longrightarrow> uint (word_of_int v :: 32 word) = v"
  by (simp add: uint_word_of_int)

lemma cursor_read_column_state:
  assumes inv: "cursor_inv T n s" and i: "i < n" and cur: "snd (abs_cursor T s) \<noteq> None"
  shows "try_read_column i s = Some (True, set_column (spec_read_column i (abs_cursor T s))
           (s\<lparr>calls := SQLGetData (Suc i) SQL_C_SLONG 8 # calls s\<rparr>))"
proof -
  define k where "k = current_fetches (calls s)"
  have k: "0 < k" "k \<le> length T" using cur by (auto simp: abs_cursor_def k_def Let_def split: if_splits)
  define r where "r = T ! (k - 1)"
  have row: "length r = n \<and> list_all (\<lambda>v. case v of None \<Rightarrow> True | Some x \<Rightarrow> 0 \<le> x \<and> x < 2 ^ 31) r"
    using inv k by (simp add: cursor_inv_def r_def list_all_length)
  then have v: "case r ! i of None \<Rightarrow> True | Some x \<Rightarrow> 0 \<le> x \<and> x < 2 ^ 31"
    using i by (simp add: list_all_length)
  obtain rs where rs: "resultset s = Some rs" "metadata rs = replicate n int_definition"
    using inv by (auto simp: cursor_inv_def)
  have reply: "drv s (calls s) (SQLGetData (Suc i) SQL_C_SLONG 8) =
    (case r ! i of None \<Rightarrow> (reply_rc SQL_SUCCESS)\<lparr>r_len := SQL_NULL_DATA\<rparr>
     | Some v \<Rightarrow> (reply_rc SQL_SUCCESS)\<lparr>r_len := 4, r_data := WLong (word_of_int v)\<rparr>)"
    using inv k row i by (simp add: cursor_inv_def serving_answer [of n T] table_driver_def Let_def r_def k_def)
  show ?thesis
    using inv rs i v reply k
    by (cases "r ! i")
       (auto simp: try_read_column_def meta_at_def int_definition_def decoder_of_def dispatch.simps
         d_integer_def get_data_long_def get_data_into_def odbc_def check_odbc_error_eq reply_rc_def
         cursor_inv_def abs_cursor_def spec_read_column_def uint_slong_small Let_def k_def r_def)
qed

lemma cursor_read_column_refines:
  assumes inv: "cursor_inv T n s" and i: "i < n" and cur: "snd (abs_cursor T s) \<noteq> None"
  shows "\<exists>s'. try_read_column i s = Some (True, s') \<and> cursor_inv T n s' \<and>
           abs_cursor T s' = abs_cursor T s \<and>
           current_column s' = Some (spec_read_column i (abs_cursor T s))"
  using cursor_read_column_state [OF assms] inv
  by (auto simp: cursor_inv_def set_column_def abs_cursor_def current_column_def)

text \<open>The simulation of runs, for any invariant under which one row read and one
  column read simulate the cursor's; both the unprepared and the prepared reading
  paths instantiate it.\<close>

lemma run_simulation:
  assumes row: "\<And>s. I s \<Longrightarrow> fst (try_read_row s) \<and> I (snd (try_read_row s)) \<and>
         abs_cursor T (snd (try_read_row s)) = snd (spec_read_row (abs_cursor T s)) \<and>
         end_of_rows_of (snd (try_read_row s)) = Some (\<not> fst (spec_read_row (abs_cursor T s)))"
    and col: "\<And>s i. I s \<Longrightarrow> i < n \<Longrightarrow> snd (abs_cursor T s) \<noteq> None \<Longrightarrow>
         \<exists>s'. try_read_column i s = Some (True, s') \<and> I s' \<and> abs_cursor T s' = abs_cursor T s \<and>
           current_column s' = Some (spec_read_column i (abs_cursor T s))"
  shows "I s \<Longrightarrow> list_all (cursor_op n) ops \<Longrightarrow> spec_run ops (abs_cursor T s) = Some obs \<Longrightarrow>
         obs_run ops s = Some obs"
proof (induction ops arbitrary: s obs)
  case Nil
  then show ?case by simp
next
  case (Cons op ops)
  show ?case
  proof (cases op)
    case ReadRow
    then show ?thesis
      using Cons.prems Cons.IH [of "snd (try_read_row s)"] row [OF Cons.prems(1)]
      by (auto simp: cursor_op_def split: prod.splits)
  next
    case (ReadColumn i)
    then have i: "i < n" and cur: "snd (abs_cursor T s) \<noteq> None"
      using Cons.prems by (auto simp: cursor_op_def split: if_splits)
    obtain s' where s': "try_read_column i s = Some (True, s')" "I s'"
      "abs_cursor T s' = abs_cursor T s" "current_column s' = Some (spec_read_column i (abs_cursor T s))"
      using col [OF Cons.prems(1) i cur] by blast
    then show ?thesis
      using Cons.prems Cons.IH [of s'] ReadColumn cur
      by (auto simp: cursor_op_def)
  qed (use Cons.prems in \<open>auto simp: cursor_op_def\<close>)
qed

lemma run_refines:
  assumes "cursor_inv T n s" "list_all (cursor_op n) ops" "spec_run ops (abs_cursor T s) = Some obs"
  shows "obs_run ops s = Some obs"
  by (rule run_simulation [OF cursor_read_row_refines cursor_read_column_refines assms])

section \<open>Executing a query\<close>

text \<open>On a driver serving the table, \<open>TryExecuteDirect\<close> on a new statement
  describes every column as an integer and reaches the invariant before any fetch.\<close>


lemma read_next_table:
  assumes "serving n T (drv s) (calls s)" "resultset s = Some rs" "i < length (metadata rs)"
    and "metadata rs ! i = default_definition"
  shows "read_next i s = Some (True, s\<lparr>calls :=
           [SQLColAttribute (Suc i) SQL_DESC_TYPE_NAME, SQLDescribeCol (Suc i) 1, SQLDescribeCol (Suc i) 0]
             @ calls s,
           resultset := Some (rs\<lparr>metadata := (metadata rs)[i := int_definition]\<rparr>)\<rparr>)"
  using assms
  by (simp add: read_next_def read_col_attributes_def serving_answer [of n T] table_driver_def
      stmt_steps reply_rc_def read_wstring_def update_meta_def meta_at_def int_definition_def
      default_definition_def)

lemma replicate_update_step:
  "i < m \<Longrightarrow> (replicate i x @ replicate (m - i) y)[i := x] = replicate (Suc i) x @ replicate (m - Suc i) y"
proof -
  assume "i < m"
  then have e: "replicate (m - i) y = y # replicate (m - Suc i) y" by (simp add: Suc_diff_Suc [symmetric])
  have "(replicate i x @ y # replicate (m - Suc i) y)[i := x] = replicate i x @ x # replicate (m - Suc i) y"
    using list_update_length [of "replicate i x" y "replicate (m - Suc i) y" x] by simp
  then show ?thesis using e by (metis append.assoc append_Cons append_Nil replicate_Suc replicate_append_same)
qed

abbreviation describe_calls :: "nat \<Rightarrow> odbc_call list" where
  "describe_calls i \<equiv>
     [SQLColAttribute (Suc i) SQL_DESC_TYPE_NAME, SQLDescribeCol (Suc i) 1, SQLDescribeCol (Suc i) 0]"

abbreviation described_prefix :: "nat \<Rightarrow> nat \<Rightarrow> column_definition list" where
  "described_prefix i m \<equiv> replicate i int_definition @ replicate (m - i) default_definition"

text \<open>One \<open>readNext\<close> on the table driver describes the next column as an integer.\<close>

lemma read_next_table_step:
  assumes "serving n T (drv s) (calls s)" "resultset s = Some rs"
    and "metadata rs = described_prefix i m" "i < m"
  shows "read_next i s = Some (True, s\<lparr>calls := describe_calls i @ calls s,
           resultset := Some (rs\<lparr>metadata := described_prefix (Suc i) m\<rparr>)\<rparr>)"
  using assms by (simp add: read_next_table nth_append replicate_update_step)

lemma read_columns_table:
  assumes "serving n T (drv s) (calls s)" "resultset s = Some rs"
    and "metadata rs = described_prefix i m" "i \<le> m"
  shows "\<exists>h. read_columns i m s = Some (True, s\<lparr>calls := h @ calls s,
           resultset := Some (rs\<lparr>metadata := replicate m int_definition\<rparr>)\<rparr>) \<and> quiet h"
  using assms
proof (induction "m - i" arbitrary: i s rs)
  case 0
  then show ?case by (rule_tac x = "[]" in exI) simp
next
  case (Suc k)
  then have im: "i < m" by simp
  let ?rs1 = "rs\<lparr>metadata := described_prefix (Suc i) m\<rparr>"
  let ?s1 = "s\<lparr>calls := describe_calls i @ calls s, resultset := Some ?rs1\<rparr>"
  have rn: "read_next i s = Some (True, ?s1)"
    using Suc.prems im by (rule_tac read_next_table_step) simp_all
  have k: "k = m - Suc i" using Suc.hyps(2) by arith
  have "\<exists>h. read_columns (Suc i) m ?s1 = Some (True, ?s1\<lparr>calls := h @ calls ?s1,
      resultset := Some (?rs1\<lparr>metadata := replicate m int_definition\<rparr>)\<rparr>) \<and> quiet h"
    using Suc.hyps(1) [OF k, of ?s1 ?rs1] Suc.prems(1) im by (simp del: read_columns.simps)
  then obtain h where h: "read_columns (Suc i) m ?s1 = Some (True, ?s1\<lparr>calls := h @ calls ?s1,
      resultset := Some (?rs1\<lparr>metadata := replicate m int_definition\<rparr>)\<rparr>)" "quiet h"
    by blast
  have "read_columns i m s = read_columns (Suc i) m ?s1"
    using rn im by (subst read_columns.simps) (simp del: read_columns.simps)
  then show ?case
    using h by (intro exI [of _ "h @ describe_calls i"]) (simp del: read_columns.simps)
qed

lemma start_reading_table:
  assumes "serving n T (drv s) (calls s)" "n < 2 ^ 15"
  shows "\<exists>h. start_reading_results s = Some (True, s\<lparr>calls := h @ calls s,
           resultset := Some \<lparr>metadata = replicate n int_definition, rowcount = 0,
                              end_of_rows = True, column = None\<rparr>\<rparr>) \<and> quiet h"
proof -
  let ?rs = "\<lparr>metadata = replicate n default_definition, rowcount = 0, end_of_rows = True,
              column = None\<rparr>"
  let ?s1 = "s\<lparr>calls := SQLNumResultCols # calls s, resultset := Some ?rs\<rparr>"
  have nr: "drv s (calls s) SQLNumResultCols = (reply_rc SQL_SUCCESS)\<lparr>r_count := of_nat n\<rparr>"
    using assms(1) by (simp add: serving_answer [of n T] table_driver_def)
  have mk: "make_result_set (sint (of_nat n :: 16 word)) = Some ?rs"
    using sint_of_nat_small [OF assms(2)] by (simp add: make_result_set_def)
  obtain h where h: "read_columns 0 n ?s1 = Some (True, ?s1\<lparr>calls := h @ calls ?s1,
      resultset := Some (?rs\<lparr>metadata := replicate n int_definition\<rparr>)\<rparr>)" "quiet h"
    using read_columns_table [of n T ?s1 ?rs 0 n] assms(1) by (auto simp del: read_columns.simps)
  show ?thesis
    using h assms(1) nr mk
    by (intro exI [of _ "SQLRowCount # h @ [SQLNumResultCols]"])
       (simp add: start_reading_results_unfold reply_rc_def get_column_count_def
         serving_answer [of n T] table_driver_def stmt_steps del: read_columns.simps)
qed

lemma execute_table:
  assumes "n < 2 ^ 15" "serving n T d []"
  shows "\<exists>s'. try_execute_direct q 0 new_bound_datum_set (new_statement d) = Some (True, s') \<and>
           serving n T d (calls s') \<and> drv s' = d \<and> \<not> prepared s' \<and> end_of_results s' \<and>
           map_option metadata (resultset s') = Some (replicate n int_definition) \<and>
           current_fetches (calls s') = 0 \<and> quiet (calls s') \<and>
           statement_state s' = STATEMENT_SUBMITTED"
proof -
  define s6 where "s6 = (new_statement d)\<lparr>end_of_results := True,
      statement_state := STATEMENT_SUBMITTED, calls := [SQLExecDirect q],
      bound_params_set := Some new_bound_datum_set\<rparr>"
  have sv: "serving n T (drv s6) (calls s6)" using assms(2) by (simp add: s6_def new_statement_def)
  have ans: "d [] (SQLExecDirect q) = reply_rc SQL_SUCCESS"
    using serving_reply [OF assms(2)] by (simp add: table_driver_def)
  have e: "try_execute_direct q 0 new_bound_datum_set (new_statement d) = start_reading_results s6"
    using ans
    by (simp add: try_execute_direct_def bind_params_def get_size_def new_bound_datum_set_def
        query_timeout_def enable_async_def execute_call_def stmt_steps new_statement_def
        reply_rc_def s6_def)
  obtain h where "start_reading_results s6 = Some (True, s6\<lparr>calls := h @ calls s6,
      resultset := Some \<lparr>metadata = replicate n int_definition, rowcount = 0,
                         end_of_rows = True, column = None\<rparr>\<rparr>)" "quiet h"
    using start_reading_table [OF sv assms(1)] by blast
  then show ?thesis
    using e assms(2) by (simp add: s6_def new_statement_def)
qed

section \<open>Refinement\<close>

text \<open>C1 (cursor_run_refines):
  Reading a result set of integers in \<open>[0, 2^31)\<close> on an unprepared statement
  refines the abstract cursor: for every sequence of \<open>read_row\<close> and
  \<open>read_column\<close> operations the specification allows, the statement's observations
  (has-row flags and column values) are those of the cursor.\<close>

lemma cursor_run_refines:
  assumes "cursor_inv T n s" "list_all (cursor_op n) ops" "spec_run ops (abs_cursor T s) = Some obs"
  shows "obs_run ops s = Some obs"
  using assms by (rule run_refines)

text \<open>C2 (execute_then_read_refines):
  Execution composed with reading: on a new statement over a driver serving a table
  of integers in \<open>[0, 2^31)\<close> with fewer than \<open>2^15\<close> columns, \<open>TryExecuteDirect\<close>
  succeeds, and every sequence of \<open>read_row\<close> and \<open>read_column\<close> the
  specification allows then observes what the specification's cursor, started on
  the whole table, observes.\<close>

theorem execute_then_read_refines:
  assumes "n < 2 ^ 15" "int_table n T" "list_all (cursor_op n) ops" "spec_run ops (T, None) = Some obs"
  shows "\<exists>s'. try_execute_direct q 0 new_bound_datum_set (new_statement (table_driver n T)) =
           Some (True, s') \<and> obs_run ops s' = Some obs"
proof -
  obtain s' where s': "try_execute_direct q 0 new_bound_datum_set (new_statement (table_driver n T)) =
      Some (True, s')" "serving n T (table_driver n T) (calls s')" "drv s' = table_driver n T" "\<not> prepared s'"
      "map_option metadata (resultset s') = Some (replicate n int_definition)" "current_fetches (calls s') = 0"
    using execute_table [OF assms(1) serving_table_driver] by blast
  have "cursor_inv T n s'" using s' assms(2) by (simp add: cursor_inv_def)
  moreover have "abs_cursor T s' = (T, None)" using s' by (simp add: abs_cursor_def)
  ultimately show ?thesis using s'(1) run_refines assms(3,4) by metis
qed

section \<open>Witnesses\<close>

lemma cursor_run_refines_witness:
  "obs_run [ReadRow, ReadColumn 0, ReadColumn 1, ReadRow, ReadColumn 0, ReadRow]
     (cursor_statement [[Some 1, None], [Some 7, Some 3]] 2) =
   Some [Row True, Value (Some (IntColumn 1)), Value (Some NullColumn), Row True,
         Value (Some (IntColumn 7)), Row False]"
  by (rule cursor_run_refines [where T = "[[Some 1, None], [Some 7, Some 3]]" and n = 2])
     (simp_all add: cursor_inv_def cursor_statement_def new_statement_def cursor_op_def
       abs_cursor_def serving_table_driver spec_read_row_def spec_read_column_def)

theorem execute_then_read_refines_witness:
  "\<exists>s'. try_execute_direct [65] 0 new_bound_datum_set (new_statement (table_driver 2 [[Some 1, None], [Some 7, Some 3]])) =
     Some (True, s') \<and>
   obs_run [ReadRow, ReadColumn 0, ReadColumn 1, ReadRow, ReadColumn 0, ReadRow] s' =
   Some [Row True, Value (Some (IntColumn 1)), Value (Some NullColumn), Row True,
         Value (Some (IntColumn 7)), Row False]"
  by (rule execute_then_read_refines)
     (simp_all add: cursor_op_def spec_read_row_def spec_read_column_def)

end
