(* ===== verification/Prepared_Cursor.thy ===== *)
theory Prepared_Cursor
  imports Cursor
begin

text \<open>
  The cursor refinement for a prepared statement (\<open>src/src/OdbcStatement.cpp\<close>:
  \<open>TryPrepare\<close>, \<open>BindFetch\<close>, \<open>TryReadRow\<close>, \<open>TryReadColumn\<close> with the prepared
  branch of \<open>d_Integer\<close>): the row is not read with \<open>SQLGetData\<close> but written by
  \<open>SQLFetch\<close> into the 64-bit buffers \<open>TryPrepare\<close> bound, and the decoders read
  those buffers. The refinement holds for tables without NULLs; a NULL leaves the
  buffer as it was (\<open>prepared_null_leak\<close>).
\<close>

section \<open>The prepared reading state\<close>

text \<open>The bound buffer holding a 32-bit value the driver wrote into the low half of
  a zeroed \<open>int64_t\<close>.\<close>

definition int_store :: "int \<Rightarrow> datum_storage" where
  "int_store v = StorageInt64 [ucast (word_of_int v :: 32 word)]"

text \<open>The invariant of a prepared statement reading a table without NULLs: the
  driver, the described integer columns, and one 64-bit buffer per column holding
  the values of the current row (zeros before the first fetch, the last row after
  the end).\<close>

definition pcursor_inv :: "int option list list \<Rightarrow> nat \<Rightarrow> stmt \<Rightarrow> bool" where
  "pcursor_inv T n s \<longleftrightarrow> serving n T (drv s) (calls s) \<and> prepared s \<and>
     map_option metadata (resultset s) = Some (replicate n int_definition) \<and>
     int_table n T \<and> list_all (list_all (\<lambda>v. v \<noteq> None)) T \<and>
     (\<exists>ps vs. prepared_storage s = Some ps \<and> map storage (bindings ps) = map int_store vs \<and>
        length vs = n \<and>
        (0 < current_fetches (calls s) \<and> current_fetches (calls s) \<le> length T \<longrightarrow>
           T ! (current_fetches (calls s) - 1) = map Some vs))"

section \<open>Fetching into the bound buffers\<close>

lemma ucast_high_zero: "(ucast (x :: 32 word) :: 64 word) AND NOT (mask 32) = 0"
  by (rule bit_word_eqI) (auto simp: bit_simps dest: bit_imp_le_length)

lemma write_int_store [simp]: "write_buffer (WLong (word_of_int w)) (int_store v) = int_store w"
  by (simp add: int_store_def ucast_high_zero)

lemma fetch_bound_ints:
  "length ws = length bs \<Longrightarrow> map storage bs = map int_store vs \<Longrightarrow>
   map storage (fetch_bound (map (bound_cell \<circ> Some) ws) bs) = map int_store ws"
proof (induction ws arbitrary: bs vs)
  case Nil
  then show ?case by simp
next
  case (Cons w ws)
  then obtain b bs' v vs' where "bs = b # bs'" "vs = v # vs'"
    by (cases bs; cases vs) auto
  then show ?case using Cons by (simp add: bound_cell_def)
qed

lemma int_column_store:
  "0 \<le> v \<Longrightarrow> v < 2 ^ 31 \<Longrightarrow> int_column (int_store v) = Some (IntColumn v)"
  by (simp add: int_store_def uint_word_of_int)

lemma row_no_nulls: "list_all (\<lambda>v. v \<noteq> None) r \<Longrightarrow> r = map Some (map the r)"
  by (induction r) auto

section \<open>Preparing and executing on the table driver\<close>

lemma read_next_each_table:
  assumes "serving n T (drv s) (calls s)" "resultset s = Some rs"
    and "metadata rs = described_prefix i m" "i \<le> m"
  shows "\<exists>h. read_next_each [i..<m] s = Some (s\<lparr>calls := h @ calls s,
           resultset := Some (rs\<lparr>metadata := replicate m int_definition\<rparr>)\<rparr>) \<and> quiet h"
  using assms
proof (induction "m - i" arbitrary: i s rs)
  case 0
  then show ?case by (rule_tac x = "[]" in exI) simp
next
  case (Suc k)
  then have im: "i < m" by simp
  let ?rs1 = "rs\<lparr>metadata := described_prefix (Suc i) m\<rparr>"
  let ?s1 = "s\<lparr>calls := describe_calls i @ calls s, resultset := Some ?rs1\<rparr>"
  have rn: "read_next i s = Some (True, ?s1)"
    using Suc.prems im by (rule_tac read_next_table_step) simp_all
  have k: "k = m - Suc i" using Suc.hyps(2) by arith
  obtain h where h: "read_next_each [Suc i..<m] ?s1 = Some (?s1\<lparr>calls := h @ calls ?s1,
      resultset := Some (?rs1\<lparr>metadata := replicate m int_definition\<rparr>)\<rparr>)" "quiet h"
    using Suc.hyps(1) [OF k, of ?s1 ?rs1] Suc.prems(1) im by auto
  then show ?case
    using rn im by (intro exI [of _ "h @ describe_calls i"]) (simp add: upt_conv_Cons)
qed

lemma bind_cols_table:
  "serving n T (drv s) (calls s) \<Longrightarrow>
   \<exists>h. bind_cols i ds s = (True, s\<lparr>calls := h @ calls s\<rparr>) \<and> quiet h"
proof (induction ds arbitrary: i s)
  case Nil
  then show ?case by (rule_tac x = "[]" in exI) simp
next
  case (Cons d ds)
  let ?s1 = "s\<lparr>calls := SQLBindCol (i + 1) (c_type d) (buffer_len d) # calls s\<rparr>"
  obtain h where "bind_cols (Suc i) ds ?s1 = (True, ?s1\<lparr>calls := h @ calls ?s1\<rparr>)" "quiet h"
    using Cons.IH [of ?s1] Cons.prems by auto
  then show ?case
    using Cons.prems
    by (intro exI [of _ "h @ [SQLBindCol (i + 1) (c_type d) (buffer_len d)]"])
       (simp add: stmt_steps serving_answer [of n T] table_driver_def reply_rc_def)
qed

lemma prepare_table:
  assumes "n < 2 ^ 15" "serving n T d []"
  shows "\<exists>s1. try_prepare q (new_statement d) = Some (True, s1) \<and>
           serving n T (drv s1) (calls s1) \<and> prepared s1 \<and> \<not> polling_enabled s1 \<and>
           map_option metadata (resultset s1) = Some (replicate n int_definition) \<and>
           current_fetches (calls s1) = 0 \<and>
           (\<exists>ps. prepared_storage s1 = Some ps \<and> map storage (bindings ps) = map int_store (replicate n 0))"
proof -
  define rs0 :: result_set where
    "rs0 = \<lparr>metadata = replicate n default_definition, rowcount = 0, end_of_rows = True, column = None\<rparr>"
  define sA where "sA = (new_statement d)\<lparr>calls := [SQLNumResultCols, SQLPrepare q],
    prepared_storage := Some new_bound_datum_set, resultset := Some rs0\<rparr>"
  have a1: "d [] (SQLPrepare q) = reply_rc SQL_SUCCESS"
    using serving_reply [OF assms(2)] by (simp add: table_driver_def)
  have a2: "d [SQLPrepare q] SQLNumResultCols = (reply_rc SQL_SUCCESS)\<lparr>r_count := of_nat n\<rparr>"
    using serving_reply [of n T d "[SQLPrepare q]"] assms(2) by (simp add: table_driver_def)
  obtain h where h: "read_next_each [0..<n] sA = Some (sA\<lparr>calls := h @ calls sA,
      resultset := Some (rs0\<lparr>metadata := replicate n int_definition\<rparr>)\<rparr>)" "quiet h"
    using read_next_each_table [of n T sA rs0 0 n] assms(2)
    by (auto simp: sA_def rs0_def new_statement_def)
  define ps6 where "ps6 = new_bound_datum_set\<lparr>bindings :=
    map (\<lambda>d. reserve_column_type (data_type d) (column_size d)) (replicate n int_definition)\<rparr>"
  define s5 where "s5 = sA\<lparr>calls := h @ calls sA,
    resultset := Some (rs0\<lparr>metadata := replicate n int_definition\<rparr>), prepared_storage := Some ps6\<rparr>"
  obtain h2 where h2: "bind_cols 0 (bindings ps6) s5 = (True, s5\<lparr>calls := h2 @ calls s5\<rparr>)" "quiet h2"
    using bind_cols_table [of n T s5 0 "bindings ps6"] h(2) assms(2)
    by (auto simp: s5_def sA_def new_statement_def)
  have nr: "nat (sint (of_nat n :: 16 word)) = n" using sint_of_nat_small [OF assms(1)] by simp
  have tp: "try_prepare q (new_statement d) =
      map_option (\<lambda>s7. (True, s7\<lparr>prepared := True, statement_state := STATEMENT_PREPARED\<rparr>))
        (set_end_of_rows True (s5\<lparr>calls := h2 @ calls s5\<rparr>))"
    using h(1) h2(1) nr a1 a2
    by (simp add: try_prepare_def stmt_steps reply_rc_def make_result_set_def
        sint_of_nat_small [OF assms(1)] reserve_def new_statement_def sA_def rs0_def s5_def ps6_def
        new_bound_datum_set_def)
  show ?thesis
    using tp h(2) h2(2) assms(2)
    by (simp add: set_end_of_rows_def s5_def sA_def new_statement_def rs0_def ps6_def
        new_bound_datum_set_def reserve_column_type_def int_definition_def default_definition_def
        int_store_def)
qed

lemma bind_fetch_table:
  assumes "serving n T (drv s) (calls s)" "\<not> polling_enabled s" "resultset s = Some rs"
  shows "bind_fetch new_bound_datum_set s = Some (True, s\<lparr>calls := [SQLRowCount, SQLExecute] @ calls s,
           resultset := Some (rs\<lparr>rowcount := 0\<rparr>)\<rparr>)"
  using assms
  by (simp add: bind_fetch_def bind_params_def get_size_def new_bound_datum_set_def execute_call_def
      enable_async_def stmt_steps serving_answer [of n T] table_driver_def reply_rc_def)

section \<open>Simulation\<close>

lemma pcursor_read_row_refines:
  assumes inv: "pcursor_inv T n s"
  shows "fst (try_read_row s) \<and> pcursor_inv T n (snd (try_read_row s)) \<and>
         abs_cursor T (snd (try_read_row s)) = snd (spec_read_row (abs_cursor T s)) \<and>
         end_of_rows_of (snd (try_read_row s)) = Some (\<not> fst (spec_read_row (abs_cursor T s)))"
proof -
  define k where "k = current_fetches (calls s)"
  obtain ps vs where ps: "prepared_storage s = Some ps" "map storage (bindings ps) = map int_store vs"
      "length vs = n" and cur: "0 < k \<and> k \<le> length T \<longrightarrow> T ! (k - 1) = map Some vs"
    using inv by (auto simp: pcursor_inv_def k_def)
  obtain rs where rs: "resultset s = Some rs" "metadata rs = replicate n int_definition"
    using inv by (auto simp: pcursor_inv_def)
  have d: "serving n T (drv s) (calls s)" using inv by (simp add: pcursor_inv_def)
  show ?thesis
  proof (cases "k < length T")
    case True
    define ws where "ws = map the (T ! k)"
    have nn: "list_all (\<lambda>v. v \<noteq> None) (T ! k)"
      using inv True by (simp add: pcursor_inv_def list_all_length)
    have row: "T ! k = map Some ws" using row_no_nulls [OF nn] by (simp add: ws_def)
    have lw: "length ws = n" using inv True by (simp add: pcursor_inv_def ws_def list_all_length)
    have lb: "length (bindings ps) = n" using ps by (metis length_map)
    have st: "map storage (fetch_bound (map bound_cell (T ! k)) (bindings ps)) = map int_store ws"
      using fetch_bound_ints [of ws "bindings ps" vs] row lw lb ps by simp
    have tr: "try_read_row s = (True, s\<lparr>calls := SQLFetch # calls s,
        prepared_storage := Some (ps\<lparr>bindings := fetch_bound (map bound_cell (T ! k)) (bindings ps)\<rparr>),
        statement_state := STATEMENT_FETCHING, resultset := Some (rs\<lparr>end_of_rows := False\<rparr>)\<rparr>)"
      using d rs ps True
      by (simp add: try_read_row_def odbc_def fetch_writes_def check_odbc_error_eq serving_answer [of n T]
          table_driver_def k_def reply_rc_def SQL_SUCCEEDED_def Let_def)
    have dr: "drop k T = T ! k # drop (Suc k) T" using True by (simp add: Cons_nth_drop_Suc)
    show ?thesis
      using inv tr st lw row dr rs True
      by (auto simp: pcursor_inv_def abs_cursor_def spec_read_row_def end_of_rows_of_def
          k_def [symmetric])
  next
    case False
    have tr: "try_read_row s = (True, s\<lparr>calls := SQLFetch # calls s,
        resultset := Some (rs\<lparr>end_of_rows := True\<rparr>)\<rparr>)"
      using d rs False
      by (simp add: try_read_row_def odbc_def fetch_writes_def serving_answer [of n T] table_driver_def
          k_def reply_rc_def SQL_SUCCEEDED_def Let_def)
    show ?thesis
      using inv tr False ps rs
      by (auto simp: pcursor_inv_def abs_cursor_def spec_read_row_def end_of_rows_of_def
          k_def [symmetric])
  qed
qed

lemma pcursor_read_column_refines:
  assumes inv: "pcursor_inv T n s" and i: "i < n" and cur: "snd (abs_cursor T s) \<noteq> None"
  shows "\<exists>s'. try_read_column i s = Some (True, s') \<and> pcursor_inv T n s' \<and>
           abs_cursor T s' = abs_cursor T s \<and>
           current_column s' = Some (spec_read_column i (abs_cursor T s))"
proof -
  define k where "k = current_fetches (calls s)"
  have k: "0 < k" "k \<le> length T" using cur by (auto simp: abs_cursor_def k_def Let_def split: if_splits)
  obtain ps vs where ps: "prepared_storage s = Some ps" "map storage (bindings ps) = map int_store vs"
      "length vs = n" and row: "T ! (k - 1) = map Some vs"
    using inv k by (auto simp: pcursor_inv_def k_def)
  obtain rs where rs: "resultset s = Some rs" "metadata rs = replicate n int_definition"
    using inv by (auto simp: pcursor_inv_def)
  have lb: "i < length (bindings ps)" using ps i by (metis length_map)
  have st: "storage (bindings ps ! i) = int_store (vs ! i)"
    using ps(2) lb i by (metis length_map nth_map ps(3))
  have "case T ! (k - 1) ! i of None \<Rightarrow> True | Some x \<Rightarrow> 0 \<le> x \<and> x < 2 ^ 31"
    using inv k i by (simp add: pcursor_inv_def list_all_length)
  then have v: "0 \<le> vs ! i" "vs ! i < 2 ^ 31" using row i ps(3) by simp_all
  have rd: "try_read_column i s = Some (True, set_column (IntColumn (vs ! i)) s)"
    using inv rs ps lb st v i
    by (simp add: try_read_column_def meta_at_def int_definition_def decoder_of_def dispatch.simps
        d_integer_def prepared_column_def at_index_def int_column_store pcursor_inv_def)
  show ?thesis
    using rd inv rs row i ps(3) k
    by (auto simp: pcursor_inv_def set_column_def abs_cursor_def spec_read_column_def
        current_column_def k_def [symmetric])
qed

lemma prepared_run_refines:
  assumes "pcursor_inv T n s" "list_all (cursor_op n) ops" "spec_run ops (abs_cursor T s) = Some obs"
  shows "obs_run ops s = Some obs"
  by (rule run_simulation [OF pcursor_read_row_refines pcursor_read_column_refines assms])

section \<open>Refinement\<close>

text \<open>C3 (prepare_then_read_refines):
  The prepared reading path composed with preparation and execution: on a new
  statement over a driver serving a table of integers in \<open>[0, 2^31)\<close> without
  NULLs and with fewer than \<open>2^15\<close> columns, \<open>TryPrepare\<close> and then \<open>BindFetch\<close>
  succeed, and every sequence of \<open>read_row\<close> and \<open>read_column\<close> the specification
  allows observes, through the buffers \<open>SQLFetch\<close> writes, what the
  specification's cursor started on the whole table observes.\<close>

theorem prepare_then_read_refines:
  assumes "n < 2 ^ 15" "int_table n T" "list_all (list_all (\<lambda>v. v \<noteq> None)) T"
    and "list_all (cursor_op n) ops" "spec_run ops (T, None) = Some obs"
  shows "\<exists>s1 s2. try_prepare q (new_statement (table_driver n T)) = Some (True, s1) \<and>
           bind_fetch new_bound_datum_set s1 = Some (True, s2) \<and> obs_run ops s2 = Some obs"
proof -
  obtain s1 ps where s1: "try_prepare q (new_statement (table_driver n T)) = Some (True, s1)"
      "serving n T (drv s1) (calls s1)" "prepared s1" "\<not> polling_enabled s1"
      "map_option metadata (resultset s1) = Some (replicate n int_definition)"
      "current_fetches (calls s1) = 0" "prepared_storage s1 = Some ps"
      "map storage (bindings ps) = map int_store (replicate n 0)"
    using prepare_table [OF assms(1) serving_table_driver] by blast
  obtain rs where rs: "resultset s1 = Some rs" "metadata rs = replicate n int_definition"
    using s1(5) by auto
  define s2 where "s2 = s1\<lparr>calls := [SQLRowCount, SQLExecute] @ calls s1,
    resultset := Some (rs\<lparr>rowcount := 0\<rparr>)\<rparr>"
  have bf: "bind_fetch new_bound_datum_set s1 = Some (True, s2)"
    using bind_fetch_table [OF s1(2,4) rs(1)] by (simp add: s2_def)
  have ex: "\<exists>vs. replicate n (int_store 0) = map int_store vs \<and> length vs = n"
    by (rule exI [of _ "replicate n 0"]) simp
  have "pcursor_inv T n s2"
    using s1 rs assms(2,3) ex by (simp add: pcursor_inv_def s2_def)
  moreover have "abs_cursor T s2 = (T, None)" using s1(6) by (simp add: abs_cursor_def s2_def)
  ultimately show ?thesis using s1(1) bf prepared_run_refines assms(4,5) by metis
qed

section \<open>Witnesses\<close>

theorem prepare_then_read_refines_witness:
  "\<exists>s1 s2. try_prepare [65] (new_statement (table_driver 2 [[Some 1, Some 2], [Some 7, Some 3]])) =
     Some (True, s1) \<and> bind_fetch new_bound_datum_set s1 = Some (True, s2) \<and>
   obs_run [ReadRow, ReadColumn 0, ReadColumn 1, ReadRow, ReadColumn 0, ReadRow] s2 =
   Some [Row True, Value (Some (IntColumn 1)), Value (Some (IntColumn 2)), Row True,
         Value (Some (IntColumn 7)), Row False]"
  by (rule prepare_then_read_refines)
     (simp_all add: cursor_op_def spec_read_row_def spec_read_column_def)

end
