(* ===== verification/Result_Sequence.thy ===== *)
theory Result_Sequence
  imports Cursor
begin

text \<open>
  Reading several result sets (\<open>src/src/OdbcStatement.cpp\<close>: \<open>TryExecuteDirect\<close>,
  \<open>TryReadNextResult\<close>, \<open>StartReadingResults\<close>, \<open>TryReadRow\<close>, \<open>TryReadColumn\<close>,
  \<open>EndOfResults\<close>): a driver serving a sequence of tables, the specification's cursor
  extended by \<open>next_result\<close> and \<open>end_of_results()\<close>, and the refinement of runs of
  row, column and next-result operations on an unprepared statement.
\<close>

section \<open>A driver serving several result sets\<close>

text \<open>The \<open>j\<close>-th result set is served after the \<open>j\<close>-th \<open>SQLMoreResults\<close>, as the
  table driver serves it on the calls since; \<open>SQLMoreResults\<close> answers
  \<open>SQL_NO_DATA\<close> after the last one, and a fetch after the end of the results is a
  function sequence error, as ODBC prescribes.\<close>

definition results_driver :: "(nat \<times> int option list list) list \<Rightarrow> driver" where
  "results_driver ts h c =
     (let j = count_list h SQLMoreResults
      in if c = SQLMoreResults then
           (if Suc j < length ts then reply_rc SQL_SUCCESS else reply_rc SQL_NO_DATA)
         else if j < length ts then
           table_driver (fst (ts ! j)) (snd (ts ! j)) (takeWhile (\<lambda>c. c \<noteq> SQLMoreResults) h) c
         else if c = SQLFetch then reply_rc SQL_ERROR
         else reply_rc SQL_SUCCESS)"

section \<open>The specification\<close>

text \<open>The tables still to come and the cursor over the current one. \<open>next_result\<close>
  moves to the next table and reports \<open>end_of_results()\<close> false, or, after the last
  one, reports it true, and no later \<open>read_row\<close> reports a row (specification
  property 7). A column is read only on a current row and within its width.\<close>

type_synonym results_cursor = "int option list list list \<times> cursor"

fun spec_results_run :: "operation list \<Rightarrow> results_cursor \<Rightarrow> observation list option" where
  "spec_results_run [] rc = Some []"
| "spec_results_run (ReadRow # ops) (Ts, c) =
     (let (b, c') = spec_read_row c in map_option (Cons (Row b)) (spec_results_run ops (Ts, c')))"
| "spec_results_run (ReadColumn i # ops) (Ts, c) =
     (case snd c of None \<Rightarrow> None
      | Some r \<Rightarrow> if length r \<le> i then None
                  else map_option (Cons (Value (Some (spec_read_column i c)))) (spec_results_run ops (Ts, c)))"
| "spec_results_run (NextResult # ops) (Ts, c) =
     (case Ts of [] \<Rightarrow> map_option (Cons (Ends True)) (spec_results_run ops ([], ([], None)))
      | T # Ts' \<Rightarrow> map_option (Cons (Ends False)) (spec_results_run ops (Ts', (T, None))))"
| "spec_results_run (_ # ops) rc = None"

section \<open>The implementation side\<close>

abbreviation table_ok :: "nat \<times> int option list list \<Rightarrow> bool" where
  "table_ok t \<equiv> fst t < 2 ^ 15 \<and> int_table (fst t) (snd t)"

text \<open>The result set being read: the number of \<open>SQLMoreResults\<close> calls made.\<close>

definition result_index :: "stmt \<Rightarrow> nat" where
  "result_index s = count_list (calls s) SQLMoreResults"

definition abs_results :: "(nat \<times> int option list list) list \<Rightarrow> stmt \<Rightarrow> results_cursor" where
  "abs_results ts s =
     (let j = result_index s
      in if j < length ts then (map snd (drop (Suc j) ts), abs_cursor (snd (ts ! j)) s)
         else ([], ([], None)))"

text \<open>The invariant: the driver, an unprepared statement not cancelled, and either a
  table being read under the cursor invariant or the end of the results reached.\<close>

definition results_inv :: "(nat \<times> int option list list) list \<Rightarrow> stmt \<Rightarrow> bool" where
  "results_inv ts s \<longleftrightarrow> drv s = results_driver ts \<and> \<not> prepared s \<and> list_all table_ok ts \<and>
     statement_state s \<noteq> STATEMENT_CANCELLED \<and>
     (if result_index s < length ts
      then cursor_inv (snd (ts ! result_index s)) (fst (ts ! result_index s)) s
      else end_of_results s)"

section \<open>Serving each result set\<close>

lemma takeWhile_dropWhile_Nil: "takeWhile P (dropWhile P xs) = []"
  by (induction xs) auto

lemma count_list_takeWhile [simp]: "count_list (takeWhile (\<lambda>c. c \<noteq> x) h) x = 0"
  by (auto simp: count_list_0_iff dest: set_takeWhileD)

text \<open>After the \<open>j\<close>-th \<open>SQLMoreResults\<close> the driver serves the \<open>j\<close>-th table.\<close>

lemma results_serving:
  assumes "count_list h SQLMoreResults = j" "j < length ts"
  shows "serving (fst (ts ! j)) (snd (ts ! j)) (results_driver ts) h"
  unfolding serving_def
proof (intro exI conjI allI impI)
  let ?P = "\<lambda>c. c \<noteq> SQLMoreResults"
  show "h = takeWhile ?P h @ dropWhile ?P h" by simp
  show "SQLMoreResults \<notin> set (takeWhile ?P h)" by (auto dest: set_takeWhileD)
  show "takeWhile ?P (dropWhile ?P h) = []" by (rule takeWhile_dropWhile_Nil)
  fix h' c
  assume h': "SQLMoreResults \<notin> set h'" and c: "c \<noteq> SQLMoreResults"
  have "count_list h SQLMoreResults = count_list (dropWhile ?P h) SQLMoreResults"
    by (metis count_list_append count_list_takeWhile plus_nat.add_0 takeWhile_dropWhile_id)
  then have cnt: "count_list (h' @ dropWhile ?P h) SQLMoreResults = j"
    using h' assms(1) by (simp add: count_list_0_iff)
  have "takeWhile ?P (h' @ dropWhile ?P h) = h' @ takeWhile ?P (dropWhile ?P h)"
    using h' by (intro takeWhile_append2) auto
  then have "takeWhile ?P (h' @ dropWhile ?P h) = h'" by (simp add: takeWhile_dropWhile_Nil)
  then show "results_driver ts (h' @ dropWhile ?P h) c = table_driver (fst (ts ! j)) (snd (ts ! j)) h' c"
    using cnt c assms(2) by (simp add: results_driver_def)
qed

lemma result_index_read_row [simp]: "result_index (snd (try_read_row s)) = result_index s"
  by (simp add: result_index_def try_read_row_def odbc_def fetch_writes_def check_odbc_error_eq Let_def
      split: option.splits prod.splits)

section \<open>Simulation\<close>

lemma results_read_row:
  assumes inv: "results_inv ts s"
  shows "results_inv ts (snd (try_read_row s)) \<and>
         abs_results ts (snd (try_read_row s)) =
           (fst (abs_results ts s), snd (spec_read_row (snd (abs_results ts s)))) \<and>
         (fst (try_read_row s) \<and> end_of_rows_of (snd (try_read_row s)) = Some False) =
           fst (spec_read_row (snd (abs_results ts s)))"
proof (cases "result_index s < length ts")
  case True
  let ?t = "ts ! result_index s"
  have ci: "cursor_inv (snd ?t) (fst ?t) s" using inv True by (simp add: results_inv_def)
  have f: "drv (snd (try_read_row s)) = drv s \<and> prepared (snd (try_read_row s)) = prepared s \<and>
      statement_state (snd (try_read_row s)) \<noteq> STATEMENT_CANCELLED"
    using inv by (auto simp: results_inv_def try_read_row_def odbc_def fetch_writes_def
      check_odbc_error_eq Let_def split: option.splits prod.splits)
  show ?thesis
    using cursor_read_row_refines [OF ci] inv f True
    by (auto simp: results_inv_def abs_results_def Let_def)
next
  case False
  have f: "\<not> fst (try_read_row s) \<and> results_inv ts (snd (try_read_row s))"
    using inv False
    by (auto simp: results_inv_def result_index_def try_read_row_def odbc_def fetch_writes_def
        check_odbc_error_eq results_driver_def reply_rc_def SQL_SUCCEEDED_def Let_def
        split: option.splits)
  then show ?thesis
    using False by (simp add: abs_results_def spec_read_row_def)
qed

lemma results_read_column:
  assumes inv: "results_inv ts s" and cur: "snd (snd (abs_results ts s)) = Some r" and i: "i < length r"
  shows "\<exists>s'. try_read_column i s = Some (True, s') \<and> results_inv ts s' \<and>
           abs_results ts s' = abs_results ts s \<and>
           current_column s' = Some (spec_read_column i (snd (abs_results ts s)))"
proof -
  have act: "result_index s < length ts" using cur by (auto simp: abs_results_def Let_def split: if_splits)
  let ?t = "ts ! result_index s"
  have ci: "cursor_inv (snd ?t) (fst ?t) s" using inv act by (simp add: results_inv_def)
  have ab: "snd (abs_results ts s) = abs_cursor (snd ?t) s" using act by (simp add: abs_results_def Let_def)
  have "length r = fst ?t"
    using cur ab ci by (auto simp: abs_cursor_def cursor_inv_def Let_def list_all_length split: if_splits)
  then have i': "i < fst ?t" using i by simp
  have c: "snd (abs_cursor (snd ?t) s) \<noteq> None" using cur ab by simp
  obtain s' where s': "try_read_column i s = Some (True, s')" "cursor_inv (snd ?t) (fst ?t) s'"
      "abs_cursor (snd ?t) s' = abs_cursor (snd ?t) s"
      "current_column s' = Some (spec_read_column i (abs_cursor (snd ?t) s))"
    using cursor_read_column_refines [OF ci i' c] by blast
  have "s' = set_column (spec_read_column i (abs_cursor (snd ?t) s))
      (s\<lparr>calls := SQLGetData (Suc i) SQL_C_SLONG 8 # calls s\<rparr>)"
    using cursor_read_column_state [OF ci i' c] s'(1) by simp
  then have "result_index s' = result_index s \<and> drv s' = drv s \<and> prepared s' = prepared s \<and>
      statement_state s' = statement_state s"
    by (simp add: set_column_def result_index_def)
  then show ?thesis using s' inv act ab by (auto simp: results_inv_def abs_results_def)
qed

lemma results_next_result:
  assumes inv: "results_inv ts s"
  shows "\<exists>s'. try_read_next_result s = Some (True, s') \<and> results_inv ts s' \<and>
           end_of_results_of s' = (fst (abs_results ts s) = []) \<and>
           abs_results ts s' =
             (case fst (abs_results ts s) of [] \<Rightarrow> ([], ([], None)) | T # Ts' \<Rightarrow> (Ts', (T, None)))"
proof (cases "Suc (result_index s) < length ts")
  case True
  let ?j = "Suc (result_index s)"
  define s1 where "s1 = s\<lparr>calls := SQLMoreResults # calls s, end_of_results := False\<rparr>"
  have nx: "try_read_next_result s = start_reading_results s1"
    using inv True
    by (simp add: try_read_next_result_def odbc_def results_inv_def results_driver_def
        result_index_def reply_rc_def s1_def Let_def)
  have sv: "serving (fst (ts ! ?j)) (snd (ts ! ?j)) (drv s1) (calls s1)"
    using results_serving [of "calls s1" ?j ts] inv True
    by (simp add: s1_def results_inv_def result_index_def)
  have ok: "fst (ts ! ?j) < 2 ^ 15" "int_table (fst (ts ! ?j)) (snd (ts ! ?j))"
    using inv True by (simp_all add: results_inv_def list_all_length)
  obtain h where h: "start_reading_results s1 = Some (True, s1\<lparr>calls := h @ calls s1,
      resultset := Some \<lparr>metadata = replicate (fst (ts ! ?j)) int_definition, rowcount = 0,
                         end_of_rows = True, column = None\<rparr>\<rparr>)" "quiet h"
    using start_reading_table [OF sv ok(1)] by blast
  have cnt: "count_list h SQLMoreResults = 0" using h(2) by (simp add: count_list_0_iff)
  define s' where "s' = s1\<lparr>calls := h @ calls s1,
      resultset := Some \<lparr>metadata = replicate (fst (ts ! ?j)) int_definition, rowcount = 0,
                         end_of_rows = True, column = None\<rparr>\<rparr>"
  have ri: "result_index s' = ?j" using cnt by (simp add: s'_def s1_def result_index_def)
  have lt: "list_all table_ok ts" "drv s = results_driver ts" "\<not> prepared s"
      "statement_state s \<noteq> STATEMENT_CANCELLED"
    using inv by (simp_all add: results_inv_def)
  have "results_inv ts s'"
    unfolding results_inv_def using ri True ok h(2) sv
    by (intro conjI lt) (simp_all add: s'_def s1_def cursor_inv_def lt)
  moreover have "abs_results ts s' = (map snd (drop (Suc ?j) ts), (snd (ts ! ?j), None))"
    using ri True h(2) by (simp add: abs_results_def abs_cursor_def s'_def s1_def)
  moreover have "fst (abs_results ts s) = snd (ts ! ?j) # map snd (drop (Suc ?j) ts)"
    using True by (simp add: abs_results_def Let_def Cons_nth_drop_Suc [symmetric])
  ultimately show ?thesis
    using nx h(1) by (simp add: s'_def s1_def end_of_results_of_def)
next
  case False
  have nx: "try_read_next_result s =
      Some (True, s\<lparr>calls := SQLMoreResults # calls s, end_of_results := True\<rparr>)"
    using inv False
    by (simp add: try_read_next_result_def odbc_def results_inv_def results_driver_def
        result_index_def reply_rc_def Let_def)
  then show ?thesis
    using inv False
    by (auto simp: results_inv_def result_index_def abs_results_def end_of_results_of_def Let_def)
qed

lemma results_run_refines:
  "results_inv ts s \<Longrightarrow> spec_results_run ops (abs_results ts s) = Some obs \<Longrightarrow> obs_run ops s = Some obs"
proof (induction ops arbitrary: s obs)
  case Nil
  then show ?case by simp
next
  case (Cons op ops)
  obtain Ts c where ab: "abs_results ts s = (Ts, c)" by (cases "abs_results ts s")
  show ?case
  proof (cases op)
    case ReadRow
    then show ?thesis
      using Cons.prems Cons.IH [of "snd (try_read_row s)"] results_read_row [OF Cons.prems(1)] ab
      by (auto split: prod.splits)
  next
    case (ReadColumn i)
    then obtain r where r: "snd c = Some r" "i < length r"
      using Cons.prems ab by (auto split: option.splits if_splits)
    obtain s' where s': "try_read_column i s = Some (True, s')" "results_inv ts s'"
      "abs_results ts s' = abs_results ts s" "current_column s' = Some (spec_read_column i (snd (abs_results ts s)))"
      using results_read_column [OF Cons.prems(1), of r i] r ab by auto
    then show ?thesis
      using Cons.prems Cons.IH [of s'] ReadColumn ab r by auto
  next
    case NextResult
    obtain s' where s': "try_read_next_result s = Some (True, s')" "results_inv ts s'"
      "end_of_results_of s' = (Ts = [])"
      "abs_results ts s' = (case Ts of [] \<Rightarrow> ([], ([], None)) | T # Ts' \<Rightarrow> (Ts', (T, None)))"
      using results_next_result [OF Cons.prems(1)] ab by auto
    then show ?thesis
      using Cons.prems Cons.IH [of s'] NextResult ab by (auto split: list.splits)
  qed (use Cons.prems ab in simp_all)
qed

section \<open>Executing a query with several result sets\<close>

text \<open>C4 (execute_then_results_refine):
  Reading several result sets: on a new statement over a driver serving a non-empty
  sequence of tables of integers in \<open>[0, 2^31)\<close>, each with fewer than \<open>2^15\<close>
  columns, \<open>TryExecuteDirect\<close> succeeds, and every sequence of \<open>read_row\<close>,
  \<open>read_column\<close> and \<open>next_result\<close> the specification allows observes what the
  specification observes: the rows and values of each table in turn, \<open>end_of_results()\<close>
  false after moving to a next table and true after the last, and no row after that.
  Right after execution \<open>end_of_results()\<close> is already true, whatever follows:
  \<open>TryExecuteDirect\<close> sets \<open>_endOfResults\<close>, and only \<open>TryReadNextResult\<close> clears it.\<close>

theorem execute_then_results_refine:
  assumes "ts \<noteq> []" "list_all table_ok ts"
    and "spec_results_run ops (map snd (tl ts), (snd (hd ts), None)) = Some obs"
  shows "\<exists>s'. try_execute_direct q 0 new_bound_datum_set (new_statement (results_driver ts)) =
           Some (True, s') \<and> end_of_results_of s' \<and> obs_run ops s' = Some obs"
proof -
  have h0: "hd ts = ts ! 0" using assms(1) by (simp add: hd_conv_nth)
  have ok: "fst (ts ! 0) < 2 ^ 15" "int_table (fst (ts ! 0)) (snd (ts ! 0))"
    using assms(1,2) by (simp_all add: list_all_length)
  have sv: "serving (fst (ts ! 0)) (snd (ts ! 0)) (results_driver ts) []"
    using results_serving [of "[]" 0 ts] assms(1) by simp
  obtain s' where s': "try_execute_direct q 0 new_bound_datum_set (new_statement (results_driver ts)) =
      Some (True, s')" "serving (fst (ts ! 0)) (snd (ts ! 0)) (results_driver ts) (calls s')"
      "drv s' = results_driver ts" "\<not> prepared s'" "end_of_results s'"
      "map_option metadata (resultset s') = Some (replicate (fst (ts ! 0)) int_definition)"
      "current_fetches (calls s') = 0" "quiet (calls s')" "statement_state s' = STATEMENT_SUBMITTED"
    using execute_table [OF ok(1) sv] by blast
  have ri: "result_index s' = 0" using s'(8) by (simp add: result_index_def count_list_0_iff)
  have "results_inv ts s'"
    unfolding results_inv_def using ri assms(1) s' ok by (intro conjI assms(2)) (simp_all add: cursor_inv_def)
  moreover have "abs_results ts s' = (map snd (tl ts), (snd (hd ts), None))"
    using ri assms(1) s'(7) h0 by (simp add: abs_results_def abs_cursor_def drop_Suc)
  ultimately show ?thesis using s'(1,5) assms(3) results_run_refines by (metis end_of_results_of_def)
qed

section \<open>Witnesses\<close>

theorem execute_then_results_refine_witness:
  "\<exists>s'. try_execute_direct [65] 0 new_bound_datum_set
      (new_statement (results_driver [(1, [[Some 5]]), (2, [[Some 1, Some 2]])])) = Some (True, s') \<and>
   end_of_results_of s' \<and>
   obs_run [ReadRow, ReadColumn 0, ReadRow, NextResult, ReadRow, ReadColumn 1, ReadRow, NextResult, ReadRow] s' =
   Some [Row True, Value (Some (IntColumn 5)), Row False, Ends False, Row True,
         Value (Some (IntColumn 2)), Row False, Ends True, Row False]"
  by (rule execute_then_results_refine) (simp_all add: spec_read_row_def spec_read_column_def)

end
