(* ===== verification/Column_Types.thy ===== *)
theory Column_Types
  imports Decode
begin

text \<open>
  The kind of value each decode strategy produces (the specification's
  \<open>ColumnValue\<close> variants and its table of seven decode strategies), and the
  lemmas that every decoder of \<open>src/src/OdbcStatement.cpp\<close>, on both its prepared
  and its unprepared path, stores a value of its strategy's kind or a null, so
  that a successful \<open>TryReadColumn\<close> leaves a current column of the kind its
  described SQL type selects.
\<close>

section \<open>Value kinds\<close>

text \<open>\<open>column_conforms k c\<close>: \<open>c\<close> is a value the strategy \<open>k\<close> may produce: a null,
  or text for the string strategy, a boolean for bit, a 64-bit integer for the
  integer strategy, a double for decimal, bytes for binary and a timestamp for the
  three date and time strategies.\<close>

fun column_conforms :: "decoder \<Rightarrow> column \<Rightarrow> bool" where
  "column_conforms _ NullColumn = True"
| "column_conforms DString (StringColumn _ _) = True"
| "column_conforms DBit (BoolColumn _) = True"
| "column_conforms DInteger (IntColumn _) = True"
| "column_conforms DDecimal (NumberColumn _) = True"
| "column_conforms DBinary (BinaryColumn _ _) = True"
| "column_conforms DTimestampOffset (TimestampColumn _) = True"
| "column_conforms DTime (TimestampColumn _) = True"
| "column_conforms DTimestamp (TimestampColumn _) = True"
| "column_conforms _ _ = False"

text \<open>The current column of the statement conforms to the described type of column
  \<open>col\<close>.\<close>

definition typed_column :: "nat \<Rightarrow> stmt \<Rightarrow> bool" where
  "typed_column col s =
     (case (meta_at col s, current_column s) of
        (Some d, Some c) \<Rightarrow> column_conforms (decoder_of (data_type d)) c
      | _ \<Rightarrow> False)"

section \<open>Every decoder produces its kind\<close>

lemma meta_at_check [simp]: "meta_at i (snd (check_odbc_error rc s)) = meta_at i s"
  by (simp add: check_odbc_error_eq meta_at_def)

lemma typed_column_set:
  assumes "meta_at col s = Some d"
  shows "typed_column col (set_column c s) = column_conforms (decoder_of (data_type d)) c"
proof -
  have "resultset s \<noteq> None" using assms by (auto simp: meta_at_def split: option.splits if_splits)
  then show ?thesis using assms by (auto simp: typed_column_def)
qed

lemma get_data_into_typed:
  assumes mk: "\<And>st c. mk st = Some c \<Longrightarrow> column_conforms k c"
    and r: "get_data_into ct len st0 mk col s = Some (b, s')"
    and m: "meta_at col s = Some d" "decoder_of (data_type d) = k"
  shows "statement_state s' = STATEMENT_ERROR \<or> typed_column col s'"
  using r m by (auto simp: get_data_into_eq Let_def typed_column_set check_odbc_error_eq
      dest: mk split: if_splits)

lemma prepared_column_typed:
  assumes mk: "\<And>st c. mk st = Some c \<Longrightarrow> column_conforms k c"
    and r: "prepared_column mk col s = Some (b, s')"
    and m: "meta_at col s = Some d" "decoder_of (data_type d) = k"
  shows "typed_column col s'"
  using r m by (auto simp: prepared_column_def typed_column_set dest: mk split: option.splits)

lemma int_column_conforms: "int_column st = Some c \<Longrightarrow> column_conforms DInteger c"
  by (cases st rule: int_column.cases) auto
lemma bool_column_conforms: "bool_column st = Some c \<Longrightarrow> column_conforms DBit c"
  by (cases st rule: bool_column.cases) auto
lemma number_column_conforms: "number_column st = Some c \<Longrightarrow> column_conforms DDecimal c"
  by (cases st rule: number_column.cases) auto
lemma timestamp_column_conforms:
  "timestamp_column st = Some c \<Longrightarrow>
   column_conforms DTimestamp c \<and> column_conforms DTimestampOffset c"
  by (cases st rule: timestamp_column.cases) auto
lemma binary_column_conforms: "binary_column st n m = Some c \<Longrightarrow> column_conforms DBinary c"
  by (cases "(st, n, m)" rule: binary_column.cases) (auto split: if_splits)
lemma string_column_conforms: "string_column st n m = Some c \<Longrightarrow> column_conforms DString c"
  by (cases "(st, n, m)" rule: string_column.cases) (auto split: if_splits)

text \<open>The shape of \<open>d_Integer\<close>, \<open>d_Bit\<close>, \<open>d_Timestamp\<close> and \<open>d_TimestampOffset\<close>:
  the bound storage when prepared, otherwise a \<open>getData*\<close> call whose result is
  dropped.\<close>

lemma dropping_decoder_typed:
  assumes r: "(if prepared s then prepared_column mk col s
               else map_option (\<lambda>(_, s'). (True, s')) (get_data_into ct len st0 mk col s)) =
              Some (True, s')"
    and m: "meta_at col s = Some d" "decoder_of (data_type d) = k"
    and mk: "\<And>st c. mk st = Some c \<Longrightarrow> column_conforms k c"
  shows "statement_state s' = STATEMENT_ERROR \<or> typed_column col s'"
  using r prepared_column_typed [OF mk _ m] get_data_into_typed [OF mk _ m]
  by (fastforce split: if_splits)

lemma d_integer_typed:
  "d_integer col s = Some (True, s') \<Longrightarrow> meta_at col s = Some d \<Longrightarrow>
   decoder_of (data_type d) = DInteger \<Longrightarrow> statement_state s' = STATEMENT_ERROR \<or> typed_column col s'"
  unfolding d_integer_def get_data_long_def
  by (erule dropping_decoder_typed) (assumption | erule int_column_conforms)+

lemma d_bit_typed:
  "d_bit col s = Some (True, s') \<Longrightarrow> meta_at col s = Some d \<Longrightarrow>
   decoder_of (data_type d) = DBit \<Longrightarrow> statement_state s' = STATEMENT_ERROR \<or> typed_column col s'"
  unfolding d_bit_def get_data_bit_def
  by (erule dropping_decoder_typed) (assumption | erule bool_column_conforms)+

lemma d_decimal_typed:
  "d_decimal col s = Some (True, s') \<Longrightarrow> meta_at col s = Some d \<Longrightarrow>
   decoder_of (data_type d) = DDecimal \<Longrightarrow> statement_state s' = STATEMENT_ERROR \<or> typed_column col s'"
  using prepared_column_typed [OF number_column_conforms] get_data_into_typed [OF number_column_conforms]
  by (fastforce simp: d_decimal_def get_data_decimal_def split: if_splits)

lemma d_timestamp_typed:
  "d_timestamp col s = Some (True, s') \<Longrightarrow> meta_at col s = Some d \<Longrightarrow>
   decoder_of (data_type d) = DTimestamp \<Longrightarrow> statement_state s' = STATEMENT_ERROR \<or> typed_column col s'"
  unfolding d_timestamp_def get_data_timestamp_def
  by (erule dropping_decoder_typed) (assumption | erule timestamp_column_conforms [THEN conjunct1])+

lemma d_timestamp_offset_typed:
  "d_timestamp_offset col s = Some (True, s') \<Longrightarrow> meta_at col s = Some d \<Longrightarrow>
   decoder_of (data_type d) = DTimestampOffset \<Longrightarrow>
   statement_state s' = STATEMENT_ERROR \<or> typed_column col s'"
  unfolding d_timestamp_offset_def get_data_timestamp_offset_def
  by (erule dropping_decoder_typed) (assumption | erule timestamp_column_conforms [THEN conjunct2])+

lemma d_time_typed:
  "d_time col s = Some (True, s') \<Longrightarrow> meta_at col s = Some d \<Longrightarrow>
   decoder_of (data_type d) = DTime \<Longrightarrow> statement_state s' = STATEMENT_ERROR \<or> typed_column col s'"
  by (auto simp: d_time_def odbc_def check_odbc_error_eq Let_def typed_column_set
      split: if_splits)

lemma d_binary_typed:
  "d_binary col s = Some (True, s') \<Longrightarrow> meta_at col s = Some d \<Longrightarrow>
   decoder_of (data_type d) = DBinary \<Longrightarrow> statement_state s' = STATEMENT_ERROR \<or> typed_column col s'"
  by (auto simp: d_binary_def get_data_binary_def odbc_def check_odbc_error_eq Let_def
      typed_column_set binary_column_conforms split: if_splits option.splits list.splits prod.splits)

lemma try_read_string_typed:
  "try_read_string col s = Some (True, s') \<Longrightarrow> meta_at col s = Some d \<Longrightarrow>
   decoder_of (data_type d) = DString \<Longrightarrow> statement_state s' = STATEMENT_ERROR \<or> typed_column col s'"
  by (auto simp: try_read_string_def lob_def bounded_string_def reserved_string_def odbc_def
      check_odbc_error_eq Let_def typed_column_set string_column_conforms
      split: if_splits option.splits list.splits prod.splits)

lemmas decoders_typed = d_integer_typed d_bit_typed d_decimal_typed d_timestamp_typed
  d_timestamp_offset_typed d_time_typed d_binary_typed try_read_string_typed

lemma dispatch_typed:
  "dispatch t col s = Some (True, s') \<Longrightarrow> meta_at col s = Some d \<Longrightarrow> data_type d = t \<Longrightarrow>
   statement_state s' = STATEMENT_ERROR \<or> typed_column col s'"
proof -
  let ?P = "\<lambda>t c s y. \<forall>d. meta_at c s = Some d \<longrightarrow> data_type d = t \<longrightarrow> fst y \<longrightarrow>
              statement_state (snd y) = STATEMENT_ERROR \<or> typed_column c (snd y)"
  have "dispatch t col s = Some y \<Longrightarrow> ?P t col s y" for y
    apply (rule dispatch.raw_induct [where P = ?P])
     apply (auto simp: Let_def odbc_def check_odbc_error_eq
        dest: decoders_typed split: decoder.splits prod.splits if_splits option.splits)[1]
    by assumption
  then show "dispatch t col s = Some (True, s') \<Longrightarrow> meta_at col s = Some d \<Longrightarrow> data_type d = t \<Longrightarrow>
    statement_state s' = STATEMENT_ERROR \<or> typed_column col s'"
    by fastforce
qed

section \<open>TryReadColumn\<close>

text \<open>C15 (try_read_column_typed):
  When \<open>TryReadColumn\<close> returns true, either the statement is in the error state
  (a failed \<open>SQLGetData\<close> whose result the decoder dropped) or the current column
  is a null or a value of the kind the column's SQL type selects; for a
  \<open>sql_variant\<close> column, the kind of the underlying type \<open>d_Variant\<close> stored into
  the column's definition.\<close>

lemma try_read_column_typed:
  "try_read_column col s = Some (True, s') \<Longrightarrow>
   statement_state s' = STATEMENT_ERROR \<or> typed_column col s'"
  by (auto simp: try_read_column_def dest: dispatch_typed split: option.splits)

section \<open>Witnesses\<close>

lemma try_read_column_typed_witness:
  "\<exists>s'. try_read_column 0 (reading_statement SQL_BIT
      (column_driver ((reply_rc SQL_SUCCESS)\<lparr>r_len := 1, r_data := WBit 1\<rparr>) (reply_rc SQL_SUCCESS))) =
      Some (True, s') \<and> typed_column 0 s'"
proof -
  obtain s' where r: "try_read_column 0 (reading_statement SQL_BIT
      (column_driver ((reply_rc SQL_SUCCESS)\<lparr>r_len := 1, r_data := WBit 1\<rparr>) (reply_rc SQL_SUCCESS))) =
      Some (True, s')" and n: "statement_state s' \<noteq> STATEMENT_ERROR"
    by (simp add: try_read_column_def reading_statement_def new_statement_def meta_at_def
        decoder_of_def column_driver_def reply_rc_def d_bit_def get_data_bit_def get_data_into_eq
        dispatch.simps Let_def
        set_column_def)
  show ?thesis using try_read_column_typed [OF r] r n by blast
qed
end
