(* ===== verification/Spec2Isabelle.thy ===== *)
theory Spec2Isabelle
  imports Prepared_Cursor Result_Sequence Column_Types
begin

text \<open>
  \<^bold>\<open>A verification library for the statement engine of node-sqlserver-v8.\<close>

  The engine (\<open>src/src/OdbcStatement.cpp\<close>) drives an ODBC driver for one statement:
  it binds a parameter set (\<open>src/src/BoundDatumSet.cpp\<close>), executes a query directly
  or through a prepared statement, polls while the driver is still executing and
  serves cancel requests, describes the columns of each result set into a
  \<open>ResultSet\<close> (\<open>src/src/ResultSet.h\<close>, \<open>src/src/ResultSet.cpp\<close>), fetches rows,
  decodes each column into a value by its SQL type, streams large text in packets,
  and moves between result sets. \<open>src/src/ReadRowOperation.cpp\<close> wraps a row read
  for the asynchronous boundary layer. The driver is an external capability.

  \<^bold>\<open>Theories.\<close>
  \<^item> \<open>Prelude\<close>: the ODBC machine types as words of their width (\<open>SQLSMALLINT\<close>,
    \<open>SQLRETURN\<close>: 16 bits; \<open>SQLLEN\<close>, \<open>SQLULEN\<close>: 64 bits; \<open>SQLINTEGER\<close>: 32 bits),
    \<open>SQL_SUCCEEDED\<close>, \<open>std::vector::resize\<close>, word lemmas shared by the components.
  \<^item> \<open>Odbc\<close>: the driver interface. The calls the engine issues are the datatype
    \<open>odbc_call\<close>; a call's return code and out-parameters are a \<open>reply\<close>; a driver is
    any function from the history of calls and the call to the reply. Theorems hold
    for every driver unless they name a driver property as a hypothesis.
  \<^item> \<open>Datum\<close> (from the specification; headers outside \<open>src/\<close>): typed storage,
    the driver's writes into bound buffers (\<open>fetch_bound\<close>: a NULL leaves the buffer
    untouched), column values and their constructors, the \<open>BoundDatum\<close> record.
  \<^item> \<open>Result_Set\<close>: \<open>ResultSet\<close>, \<open>map_type\<close>, \<open>get_entry\<close>, \<open>meta_to_value\<close>.
  \<^item> \<open>Bound_Datum_Set\<close>: \<open>bind\<close> (with table-valued parameters), \<open>unbind\<close>,
    \<open>reserve\<close>; \<open>BoundDatum::bind\<close> is an interface parameter (\<open>node_binder\<close>).
  \<^item> \<open>Statement\<close>: the \<open>OdbcStatement\<close> fields as the record \<open>stmt\<close> (with the
    driver and the call history), \<open>ReturnOdbcError\<close>, \<open>CheckOdbcError\<close>, \<open>cancel\<close>,
    \<open>setPolling\<close>, \<open>cancelHandle\<close>, \<open>PollCheck\<close>, and the destructor.
  \<^item> \<open>Results\<close>: \<open>readColAttributes\<close>, \<open>readNext\<close>, \<open>StartReadingResults\<close>,
    \<open>TryReadRow\<close> (with the writes of \<open>SQLFetch\<close> into the prepared buffers),
    \<open>TryReadNextResult\<close>, \<open>UnbindParams\<close>, the accessors, and \<open>keeps_setup\<close>,
    the fields (driver, polling and cancel flags, prepared storage) these leave alone.
  \<^item> \<open>Decode\<close>: \<open>dispatch\<close> and \<open>d_Variant\<close>, every \<open>d_*\<close> decoder with its prepared
    and unprepared branch, the \<open>getData*\<close> helpers, \<open>Lob\<close>, \<open>boundedString\<close>,
    \<open>reservedString\<close>, \<open>TryReadString\<close>, \<open>TryReadColumn\<close>, \<open>GetColumnValue\<close>.
  \<^item> \<open>Column_Types\<close>: the kind of value each decode strategy produces and the
    lemmas that every decoder, prepared or not, stores a value of its kind.
  \<^item> \<open>Lob_Stream\<close>: the ODBC long-data protocol of a conforming driver and the caller's
    loop over \<open>read_column\<close>, with the round trip of \<open>Lob\<close>.
  \<^item> \<open>Execute\<close>: \<open>BindParams\<close>, \<open>applyPrecision\<close>, \<open>queryTimeout\<close>,
    \<open>TryExecuteDirect\<close>, \<open>TryPrepare\<close>, \<open>BindFetch\<close>.
  \<^item> \<open>Lifecycle\<close>: \<open>ReadRowOperation\<close>, the caller's operations as a datatype with a
    step function over the components, the inductive set of reachable statements,
    the lemmas that no operation enters \<open>STATEMENT_CANCELLED\<close> or leaves a prepared
    statement without its \<open>_preparedStorage\<close>, and the frame
    lemmas for the cancel flag and the described column count.
  \<^item> \<open>Cursor\<close>: the specification's row cursor, the driver contract \<open>serving\<close>
    (after a history, a driver answers as a driver serving one table does on the
    calls since), the refinement of the cursor by \<open>TryReadRow\<close> and \<open>TryReadColumn\<close>
    through a simulation lemma generic in the invariant, and its composition with
    \<open>TryExecuteDirect\<close> (execution describes the columns and starts the cursor on
    the whole table).
  \<^item> \<open>Prepared_Cursor\<close>: the same refinement on the prepared path: \<open>TryPrepare\<close>
    binds one 64-bit buffer per column, \<open>BindFetch\<close> executes, \<open>SQLFetch\<close> writes
    each row into the buffers and the prepared \<open>d_Integer\<close> reads them; for tables
    without NULLs (a NULL leaves the previous value, \<open>prepared_null_leak\<close>).
  \<^item> \<open>Result_Sequence\<close>: a driver serving a sequence of result sets, the
    specification's cursor extended by \<open>next_result\<close> and \<open>end_of_results()\<close>
    (\<open>endOfResults\<close>, \<open>EndOfResults\<close>), and the refinement of runs of reads and
    \<open>TryReadNextResult\<close> composed with \<open>TryExecuteDirect\<close>.
  \<^item> This theory: the properties that span components and their witnesses.

  \<^bold>\<open>How the code maps to the model.\<close> Each C++ member function is one definition
  of the same name in snake case, taking the statement record and returning the
  updated record; a function that returns \<open>bool\<close> returns it paired with the state.
  Every raise, failed check and early return is a branch. C++ without a defined
  result (a read past a buffer, a vector built with a negative size, a null
  \<open>resultset\<close> dereferenced, an unbounded recursion) is the value \<open>None\<close>. Loops over
  columns and bindings are structural recursion or a \<open>function\<close> with a measure.
  The two loops that may not end are \<open>partial_function (option)\<close>: the poll loop
  (\<open>poll_loop\<close>, with the equivalent fuel version \<open>poll_fuel\<close>) and \<open>dispatch\<close>
  (\<open>d_Variant\<close> re-dispatches on the type the driver reports).

  \<^bold>\<open>What is proved.\<close> Per component: the functional behaviour of its operations on
  the branches the properties below name, errors included, and their invariants (the column count fixed by
  \<open>StartReadingResults\<close>, one bound buffer per column after \<open>TryPrepare\<close>, parameter
  numbering, the output count and first error of \<open>bind\<close>, the kind of every decoded
  value, the wrap-around of the reported column size). Across components: no
  reachable statement is in \<open>STATEMENT_CANCELLED\<close>, and every reachable prepared
  statement has its prepared storage (so the prepared decoders never meet a null
  \<open>_preparedStorage\<close>); only prepare, execution and
  the move to the next result set change the number of described columns;
  the round trip of long text; the refinement of the specification's cursor, alone
  and composed with the execution that produces the result set, on the unprepared
  path, on the prepared path (prepare, execute, reads through the bound buffers)
  and over a sequence of result sets (specification property 7: after the last
  result set \<open>end_of_results()\<close> is true and no row is reported); and
  the places where the code and the specification disagree (a NULL read on a
  prepared statement yields the previous row's value; a cancelled execution resumes
  row production; a cancel request no poll turn observed stays pending for the next
  query; a prepared statement decodes later result sets from the first one's bound
  storage; a read before execute fails without any error; \<open>end_of_results()\<close> is
  true from execution until the first move to a next result set; \<open>SQL_ERROR\<close> from
  \<open>SQLExecDirect\<close> does not reach the Error state; failures of \<open>queryTimeout\<close>,
  \<open>SQLGetData\<close>, \<open>readNext\<close> and \<open>SQLMoreResults\<close> are swallowed; negative integers
  are zero-extended; \<open>reservedString\<close> reads past its buffer on NULL).

  \<^bold>\<open>Bounds and fuel.\<close> The header constants are \<open>LOB_PACKET_SIZE = 8192\<close>,
  \<open>SQL_SERVER_MAX_STRING_SIZE = 8000\<close> and the default date 1900-01-01; \<open>unsigned
  long\<close> is 32 bits. The poll loop terminates with a fuel of one more than the number
  of \<open>SQL_STILL_EXECUTING\<close> answers. A long value of length \<open>L\<close> streams in
  \<open>L div 8192 + 1\<close> reads, for byte lengths below \<open>2^63\<close> (an \<open>SQLLEN\<close>). The
  cursor refinement is stated for integers in \<open>[0, 2^31)\<close>, the range where
  \<open>getDataLong\<close> reads integers correctly; its composition with execution
  for fewer than \<open>2^15\<close> columns, the counts a \<open>SQLSMALLINT\<close> carries. A driver
  serving several result sets answers a fetch after the last one with a function
  sequence error, as ODBC's state tables prescribe. The table drivers of the cursor
  refinements report empty column and type names: with a type name of two or more
  characters \<open>readColAttributes\<close> reads past what the driver wrote
  (\<open>Results.type_name_byte_length\<close>), and describing the columns has no defined
  result. \<open>boundedString\<close> has a defined result up to
  \<open>std::vector<uint16_t>::max_size()\<close>, taken as \<open>2^62 - 1\<close> (a 64-bit library).

  \<^bold>\<open>Not modelled.\<close> The V8 value conversion of the boundary layer, the connection
  and handle allocation wrappers and logging (outside the specification's core and
  outside \<open>src/\<close>); the mutex and threads. The members of \<open>OdbcStatement.cpp\<close>
  left out only turn a modelled value into a V8 value; the licence headers and
  includes of the five files hold no code. The cursor refinements cover integer
  columns; the other decoders are verified call by call (\<open>Column_Types\<close>,
  \<open>Decode\<close>), not as runs. The header files \<open>Column.h\<close>,
  \<open>DatumStorage.h\<close> and \<open>BoundDatum.cpp\<close> are outside \<open>src/\<close> and modelled from
  the specification. Cancellation from another thread is
  modelled as the cancel flag being set before a poll turn reads it, the only
  point where the code observes it. The driver's internal behaviour is not modelled
  beyond the replies theorems name as hypotheses.
\<close>

section \<open>Example drivers\<close>

text \<open>A driver whose every \<open>SQLFetch\<close> answers \<open>rc\<close> with the given bound
  column values; and a driver whose query keeps executing until the handle is
  cancelled, after which the re-issued call fails.\<close>

definition fetch_driver :: "sqlreturn \<Rightarrow> (sqllen \<times> wire) list \<Rightarrow> driver" where
  "fetch_driver rc bs h c =
     (case c of SQLFetch \<Rightarrow> (reply_rc rc)\<lparr>r_bound := bs\<rparr> | _ \<Rightarrow> reply_rc SQL_SUCCESS)"

definition cancel_driver :: driver where
  "cancel_driver h c =
     (case c of
        SQLExecDirect q \<Rightarrow>
          if q \<noteq> [] then reply_rc SQL_STILL_EXECUTING
          else if SQLCancelHandle \<in> set h then reply_rc SQL_ERROR else reply_rc SQL_STILL_EXECUTING
      | _ \<Rightarrow> reply_rc SQL_SUCCESS)"

text \<open>A driver with a next result set of one column of type \<open>t\<close>.\<close>

definition next_result_driver :: "sqlsmallint \<Rightarrow> driver" where
  "next_result_driver t h c =
     (case c of
        SQLDescribeCol _ _ \<Rightarrow>
          (reply_rc SQL_SUCCESS)\<lparr>r_count := 1, r_text := [66], r_type := t, r_size := 1\<rparr>
      | _ \<Rightarrow> one_column_driver SQL_SUCCESS 3 h c)"

section \<open>Properties of the statement\<close>

text \<open>C7 (reachable_invariant):
  In every statement reachable from a new one by any sequence of operations, on any
  driver: the state is not \<open>STATEMENT_CANCELLED\<close> (the state is never assigned, so
  the cancelled branch of \<open>TryReadNextResult\<close> is dead code), and a prepared
  statement has its prepared storage (the prepared decoders never dereference a null
  \<open>_preparedStorage\<close>).\<close>

theorem reachable_invariant:
  "reachable s \<Longrightarrow> statement_state s \<noteq> STATEMENT_CANCELLED \<and> storage_ok s"
proof (induction rule: reachable.induct)
  case (created d)
  then show ?case by (simp add: new_statement_def)
next
  case (stepped s op b s')
  then show ?case using step_nc step_storage_ok by blast
qed

text \<open>C20 (read_row_completion_agrees):
  \<open>ReadRowOperation\<close>: when \<open>TryInvokeOdbc\<close> succeeds on a statement with a
  result set, the completion argument (end of rows) is true exactly when the driver's
  \<open>SQLFetch\<close> answered \<open>SQL_NO_DATA\<close>.\<close>

theorem read_row_completion_agrees:
  assumes "resultset s \<noteq> None" "read_row_invoke (Some s) = (True, Some s')"
  shows "read_row_completion s' = Some (r_rc (drv s (calls s) SQLFetch) = SQL_NO_DATA)"
  using assms
  by (auto simp: read_row_invoke_def read_row_completion_def try_read_row_def end_of_rows_of_def
      odbc_def fetch_writes_def check_odbc_error_eq Let_def split: if_splits)

text \<open>C6 (prepared_null_leak):
  Across fetch and decode: on a prepared statement, when \<open>SQLFetch\<close> reports a
  NULL for an integer column, \<open>TryReadRow\<close> followed by \<open>TryReadColumn\<close> yields
  the value the bound buffer held before the fetch, not a null column (specification
  property 8).\<close>

theorem prepared_null_leak:
  assumes "prepared s" "prepared_storage s = Some ps" "col < length (bindings ps)"
    and "storage (bindings ps ! col) = StorageInt64 (x # xs)"
    and "meta_at col s = Some d" "decoder_of (data_type d) = DInteger"
    and "drv s (calls s) SQLFetch = r" "SQL_SUCCEEDED (r_rc r)"
    and "col < length (r_bound r)" "fst (r_bound r ! col) = SQL_NULL_DATA"
  shows "\<exists>s1 s2. try_read_row s = (True, s1) \<and> try_read_column col s1 = Some (True, s2) \<and>
           current_column s2 = Some (IntColumn (sint x))"
proof -
  obtain rs where rs: "resultset s = Some rs" using assms(5) by (auto simp: meta_at_def split: option.splits)
  have st: "storage (fetch_bound (r_bound r) (bindings ps) ! col) = StorageInt64 (x # xs)"
    using fetch_bound_nth_null [OF assms(9,3,10)] assms(4) by simp
  show ?thesis
    using assms rs st
    by (auto simp: try_read_row_def odbc_def fetch_writes_def check_odbc_error_eq Let_def
        try_read_column_def dispatch.simps d_integer_def prepared_column_def at_index_def
        meta_at_def split: if_splits)
qed

text \<open>C14 (cancel_poll_resumes_rows):
  A cancel requested while polling is served: the handle is cancelled during the
  poll loop. But the cancelled call's \<open>SQL_ERROR\<close> goes down the error path of
  \<open>TryExecuteDirect\<close>, which leaves the statement \<open>STATEMENT_SUBMITTED\<close> with a
  result set whose end-of-rows is false: neither Cancelled nor Error (specification
  property 6).\<close>

theorem cancel_poll_resumes_rows:
  assumes "polling_enabled s" "cancel_requested s" "bind_params ps s = (True, sb)" "sint timeout \<le> 0"
    and "\<forall>h. r_rc (drv s h (SQLExecDirect q)) = SQL_STILL_EXECUTING"
    and "\<forall>h. r_rc (drv s h (SQLExecDirect [])) =
               (if SQLCancelHandle \<in> set h then SQL_ERROR else SQL_STILL_EXECUTING)"
    and "\<forall>h. r_rc (drv s h SQLCancelHandle) = SQL_SUCCESS"
    and "\<forall>h. r_rc (drv s h SQLNumResultCols) = SQL_SUCCESS \<and> r_count (drv s h SQLNumResultCols) = 0"
    and "\<forall>h. r_rc (drv s h SQLRowCount) = SQL_SUCCESS"
  shows "\<exists>s'. try_execute_direct q timeout ps s = Some (False, s') \<and> SQLCancelHandle \<in> set (calls s') \<and>
           statement_state s' = STATEMENT_SUBMITTED \<and> end_of_rows_of s' = Some False"
proof -
  have f: "drv sb = drv s" "polling_enabled sb = polling_enabled s" "cancel_requested sb = cancel_requested s"
    using bind_params_keeps [of ps s] assms(3) by simp_all
  show ?thesis
    using assms f
    by (simp add: try_execute_direct_def query_timeout_def enable_async_def execute_call_def
        poll_check_def poll_loop.simps reissue_def poll_turn_def cancel_handle_eq
        odbc_def check_odbc_error_eq return_odbc_error_eq start_reading_results_def
        make_result_set_def get_column_count_def set_end_of_rows_def end_of_rows_of_def Let_def)
qed

text \<open>C16 (try_execute_direct_keeps_cancel):
  A cancel request that an execution never observes outlives it: when the driver
  answers \<open>SQLExecDirect\<close> without \<open>SQL_STILL_EXECUTING\<close>, \<open>PollCheck\<close> never runs
  a poll turn and \<open>TryExecuteDirect\<close> returns with \<open>_cancelRequested\<close> as it was.
  A request that arrives after a query completed is therefore still pending when the
  next query on the statement polls, and cancels that query instead.\<close>

theorem try_execute_direct_keeps_cancel:
  assumes r: "try_execute_direct q t ps s = Some (b, s')"
    and nq: "\<forall>h. r_rc (drv s h (SQLExecDirect q)) \<noteq> SQL_STILL_EXECUTING"
  shows "cancel_requested s' = cancel_requested s"
proof -
  obtain bound sb where b1: "bind_params ps s = (bound, sb)" by fastforce
  have fb: "drv sb = drv s" "keeps_cancel s sb" using bind_params_keeps [of ps s] b1 by simp_all
  obtain ret s3 where q: "query_timeout (sint t) (sb\<lparr>end_of_results := True\<rparr>) = (ret, s3)"
    by fastforce
  have f3: "keeps_cancel s s3" "drv s3 = drv s"
    using query_timeout_setup [OF q] fb by (simp_all add: keeps_setup_def)
  show ?thesis
    using r fb f3 nq
    by (auto simp: try_execute_direct_def Let_def b1 q enable_async_def set_end_of_rows_def
        odbc_def check_odbc_error_eq return_odbc_error_eq keeps_setup_def
        dest!: execute_call_cr start_reading_results_setup split: if_splits option.splits prod.splits)
qed

text \<open>C17 (prepared_next_result_stale_storage):
  A prepared statement keeps the storage it bound for its first result set when
  \<open>TryReadNextResult\<close> moves to the next one: \<open>_prepared\<close> stays set and the
  decoders read \<open>_preparedStorage\<close>. When the next result set has a bit column where
  the bound storage holds no characters (say an integer column of the first result
  set), \<open>TryReadColumn\<close> reads a \<open>BoolColumn\<close> out of a storage of another type and
  has no defined result.\<close>

theorem prepared_next_result_stale_storage:
  assumes "prepared s" "prepared_storage s = Some ps" "at_index ps col = Some b"
    and "bool_column (storage b) = None"
    and "try_read_next_result s = Some (ok, s')" "meta_at col s' = Some d"
    and "decoder_of (data_type d) = DBit"
  shows "try_read_column col s' = None"
proof -
  have "prepared s'" "prepared_storage s' = Some ps"
    using try_read_next_result_setup [OF assms(5)] assms(1,2) by (simp_all add: keeps_setup_def)
  then show ?thesis
    using assms(3,4,6,7)
    by (simp add: try_read_column_def dispatch.simps d_bit_def prepared_column_def)
qed

text \<open>C19 (column_count_fixed):
  The number of described columns changes only when a result set is described:
  reading a row, reading a column (a \<open>sql_variant\<close> rewriting its column's type
  included), executing a prepared statement, cancelling, setting the polling mode
  and closing all keep it (the specification's invariant of ResultMetadata); only
  prepare, direct execution and moving to the next result set change it.\<close>

theorem column_count_fixed:
  "step op s = Some (b, s') \<Longrightarrow> \<not> describes op \<Longrightarrow> described_columns s' = described_columns s"
  by (cases op)
     (auto simp: try_read_column_def cancel_def set_polling_def close_statement_def
       dest: bind_fetch_columns try_read_row_columns dispatch_columns split: option.splits if_splits)

text \<open>C22 (read_before_execute):
  Reading before anything was executed: with no result set, \<open>TryReadRow\<close> (through
  \<open>ReadRowOperation::TryInvokeOdbc\<close>) returns false and leaves the statement
  exactly as it was, recording no error (the specification raises a StateError for
  a fetch before execute); the completion argument \<open>EndOfRows\<close>, \<open>TryReadColumn\<close>
  and \<open>GetColumnValue\<close> dereference the null result set and have no defined
  result.\<close>

theorem read_before_execute:
  assumes "resultset s = None"
  shows "read_row_invoke (Some s) = (False, Some s) \<and> read_row_completion s = None \<and>
         try_read_column col s = None \<and> get_column_value s = None"
  using assms
  by (simp add: read_row_invoke_def read_row_completion_def try_read_row_def end_of_rows_of_def
      try_read_column_def meta_at_def current_column_def)

section \<open>Witnesses\<close>

theorem reachable_invariant_witness:
  "\<exists>s'. try_prepare [] (new_statement (exec_driver 1 SQL_SUCCESS SQL_SUCCESS)) = Some (True, s') \<and>
      reachable s' \<and> prepared s' \<and> prepared_storage s' \<noteq> None \<and>
      statement_state s' \<noteq> STATEMENT_CANCELLED"
proof -
  obtain s' where r: "try_prepare [] (new_statement (exec_driver 1 SQL_SUCCESS SQL_SUCCESS)) = Some (True, s')"
      and p: "prepared s'"
    by (simp add: try_prepare_def read_next_def odbc_def check_odbc_error_eq return_odbc_error_eq
        make_result_set_def reserve_def new_bound_datum_set_def set_end_of_rows_def Let_def
        new_statement_def exec_driver_def reply_rc_def)
  have "step (Prepare []) (new_statement (exec_driver 1 SQL_SUCCESS SQL_SUCCESS)) = Some (True, s')"
    using r by simp
  with reachable.created have rs: "reachable s'" by (rule reachable.stepped)
  show ?thesis using reachable_invariant [OF rs] r rs p by blast
qed

theorem read_row_completion_agrees_witness:
  "resultset (reading_statement SQL_INTEGER (fetch_driver SQL_NO_DATA [])) \<noteq> None \<and>
   read_row_invoke (Some (reading_statement SQL_INTEGER (fetch_driver SQL_NO_DATA []))) =
     (True, Some (snd (try_read_row (reading_statement SQL_INTEGER (fetch_driver SQL_NO_DATA []))))) \<and>
   read_row_completion (snd (try_read_row (reading_statement SQL_INTEGER (fetch_driver SQL_NO_DATA [])))) = Some True"
proof -
  let ?s = "reading_statement SQL_INTEGER (fetch_driver SQL_NO_DATA [])"
  have h: "resultset ?s \<noteq> None" "read_row_invoke (Some ?s) = (True, Some (snd (try_read_row ?s)))"
    by (simp_all add: reading_statement_def new_statement_def read_row_invoke_def try_read_row_def
        odbc_def fetch_driver_def reply_rc_def Let_def fetch_writes_def)
  have "r_rc (drv ?s (calls ?s) SQLFetch) = SQL_NO_DATA"
    by (simp add: reading_statement_def new_statement_def fetch_driver_def reply_rc_def)
  then show ?thesis using read_row_completion_agrees [OF h] h by simp
qed

theorem prepared_null_leak_witness:
  "\<exists>s1 s2. try_read_row (prepared_reading SQL_INTEGER (fetch_driver SQL_SUCCESS [(SQL_NULL_DATA, WNothing)])
        (empty_datum\<lparr>storage := StorageInt64 [42], ind_vec := [8]\<rparr>)) = (True, s1) \<and>
      try_read_column 0 s1 = Some (True, s2) \<and> current_column s2 = Some (IntColumn 42)"
  using prepared_null_leak [of "prepared_reading SQL_INTEGER (fetch_driver SQL_SUCCESS [(SQL_NULL_DATA, WNothing)])
        (empty_datum\<lparr>storage := StorageInt64 [42], ind_vec := [8]\<rparr>)"
      "new_bound_datum_set\<lparr>bindings := [empty_datum\<lparr>storage := StorageInt64 [42], ind_vec := [8]\<rparr>]\<rparr>"
      0 42 "[]" "default_definition\<lparr>data_type := SQL_INTEGER\<rparr>"]
  by (simp add: prepared_reading_def reading_statement_def new_statement_def fetch_driver_def
      reply_rc_def meta_at_def decoder_of_def)

theorem cancel_poll_resumes_rows_witness:
  "\<exists>s'. try_execute_direct [65] 0 new_bound_datum_set
      (snd (cancel (snd (set_polling True (new_statement cancel_driver))))) = Some (False, s') \<and>
    SQLCancelHandle \<in> set (calls s') \<and> statement_state s' = STATEMENT_SUBMITTED \<and>
    end_of_rows_of s' = Some False"
  by (rule cancel_poll_resumes_rows [where sb = "snd (cancel (snd (set_polling True (new_statement cancel_driver))))"])
     (simp_all add: cancel_def set_polling_def new_statement_def cancel_driver_def reply_rc_def
       bind_params_def get_size_def new_bound_datum_set_def)

theorem try_execute_direct_keeps_cancel_witness:
  "\<exists>s'. try_execute_direct [65] 0 new_bound_datum_set
      (snd (cancel (snd (set_polling True (new_statement (fetch_driver SQL_SUCCESS [])))))) =
      Some (True, s') \<and> cancel_requested s'"
proof -
  let ?s = "snd (cancel (snd (set_polling True (new_statement (fetch_driver SQL_SUCCESS [])))))"
  obtain s' where r: "try_execute_direct [65] 0 new_bound_datum_set ?s = Some (True, s')"
    by (simp add: cancel_def set_polling_def new_statement_def fetch_driver_def reply_rc_def
        try_execute_direct_def bind_params_def get_size_def new_bound_datum_set_def
        query_timeout_def enable_async_def execute_call_def poll_check_def odbc_def
        check_odbc_error_eq start_reading_results_def make_result_set_def get_column_count_def
        set_end_of_rows_def Let_def)
  have nq: "\<forall>h. r_rc (drv ?s h (SQLExecDirect [65])) \<noteq> SQL_STILL_EXECUTING"
    by (simp add: cancel_def set_polling_def new_statement_def fetch_driver_def reply_rc_def)
  have "cancel_requested ?s" by (simp add: cancel_def set_polling_def new_statement_def)
  then show ?thesis using try_execute_direct_keeps_cancel [OF r nq] r by auto
qed

theorem prepared_next_result_stale_storage_witness:
  "\<exists>ok s'. try_read_next_result (prepared_reading SQL_INTEGER (next_result_driver SQL_BIT)
        (empty_datum\<lparr>storage := StorageInt64 [5], ind_vec := [8]\<rparr>)) = Some (ok, s') \<and>
     (\<exists>d. meta_at 0 s' = Some d \<and> data_type d = SQL_BIT) \<and> try_read_column 0 s' = None"
proof -
  let ?b = "empty_datum\<lparr>storage := StorageInt64 [5], ind_vec := [8]\<rparr>"
  let ?s = "prepared_reading SQL_INTEGER (next_result_driver SQL_BIT) ?b"
  obtain ok s' d where r: "try_read_next_result ?s = Some (ok, s')" and m: "meta_at 0 s' = Some d"
      and t: "data_type d = SQL_BIT"
    by (simp add: try_read_next_result_def start_reading_results_def prepared_reading_def
        reading_statement_def new_statement_def next_result_driver_def one_column_driver_def odbc_def
        check_odbc_error_eq reply_rc_def make_result_set_def get_column_count_def read_next_def
        read_col_attributes_def read_wstring_def update_meta_def meta_at_def Let_def)
  have p: "prepared ?s" "prepared_storage ?s = Some (new_bound_datum_set\<lparr>bindings := [?b]\<rparr>)"
    "at_index (new_bound_datum_set\<lparr>bindings := [?b]\<rparr>) 0 = Some ?b" "bool_column (storage ?b) = None"
    by (simp_all add: prepared_reading_def at_index_def)
  have "decoder_of (data_type d) = DBit" using t by (simp add: decoder_of_def)
  then show ?thesis using prepared_next_result_stale_storage [OF p r m] r m t by blast
qed

theorem column_count_fixed_witness:
  "\<exists>b s'. step ReadRow (reading_statement SQL_INTEGER (fetch_driver SQL_SUCCESS [])) = Some (b, s') \<and>
     described_columns s' = Some 1"
proof -
  obtain b s' where r: "step ReadRow (reading_statement SQL_INTEGER (fetch_driver SQL_SUCCESS [])) =
      Some (b, s')"
    by (cases "try_read_row (reading_statement SQL_INTEGER (fetch_driver SQL_SUCCESS []))") simp
  have "\<not> describes ReadRow" by simp
  from column_count_fixed [OF r this] r show ?thesis by (simp add: reading_statement_def)
qed

theorem read_before_execute_witness:
  "resultset (new_statement (fetch_driver SQL_SUCCESS [])) = None \<and>
   read_row_invoke (Some (new_statement (fetch_driver SQL_SUCCESS []))) = (False, Some (new_statement (fetch_driver SQL_SUCCESS []))) \<and>
   read_row_completion (new_statement (fetch_driver SQL_SUCCESS [])) = None"
  using read_before_execute [of "new_statement (fetch_driver SQL_SUCCESS [])" 0] by (simp add: new_statement_def)

end
